theory Spec2Isabelle
  imports Main "HOL-Library.Word"
begin

unbundle bit_operations_syntax

section \<open>Cluster nodes: the health-check countdown (clustrixnode.hh)\<close>

text \<open>
  A \<open>ClustrixNode\<close> holds a reference to the \<open>SERVER\<close> it backs and to a
  \<open>Persister\<close> (the monitor). Both are outside the node, so the model threads them
  through as a \<open>node_env\<close>: the server's status word (\<open>Server::set_status\<close> is
  \<open>m_status |= bit\<close>, \<open>Server::clear_status\<close> is \<open>m_status &= ~bit\<close>) and the log
  of the calls made on the persister, oldest first. The status bits \<open>SERVER_MASTER\<close>
  and \<open>SERVER_RUNNING\<close> are declared in a header that is not part of the sources at
  hand; the functions take the mask \<open>SERVER_MASTER | SERVER_RUNNING\<close> as their first
  argument \<open>mr\<close>.
\<close>

datatype approach_t = APPROACH_OVERRIDE | APPROACH_DEFAULT

datatype persister_call = Persist int | Unpersist int

record node_env =
  server_status :: "64 word"
  persister_log :: "persister_call list"

record ClustrixNode =
  m_id :: int
  m_health_check_threshold :: int
  m_nRunning :: int

definition set_status :: "64 word \<Rightarrow> 64 word \<Rightarrow> 64 word" where
  "set_status m_status b = m_status OR b"

definition clear_status :: "64 word \<Rightarrow> 64 word \<Rightarrow> 64 word" where
  "clear_status m_status b = m_status AND NOT b"

definition persist :: "ClustrixNode \<Rightarrow> node_env \<Rightarrow> node_env" where
  "persist node env = env\<lparr>persister_log := persister_log env @ [Persist (m_id node)]\<rparr>"

definition unpersist :: "ClustrixNode \<Rightarrow> node_env \<Rightarrow> node_env" where
  "unpersist node env = env\<lparr>persister_log := persister_log env @ [Unpersist (m_id node)]\<rparr>"

text \<open>The constructor: the countdown starts at the threshold, the server is marked
  master and running, and the node is persisted.\<close>

definition new_ClustrixNode :: "64 word \<Rightarrow> int \<Rightarrow> int \<Rightarrow> node_env \<Rightarrow> ClustrixNode \<times> node_env" where
  "new_ClustrixNode mr nid health_check_threshold env =
     (let node = \<lparr>m_id = nid, m_health_check_threshold = health_check_threshold,
                   m_nRunning = health_check_threshold\<rparr>
      in (node, persist node (env\<lparr>server_status := set_status (server_status env) mr\<rparr>)))"

definition is_running :: "ClustrixNode \<Rightarrow> bool" where
  "is_running node = (m_nRunning node > 0)"

definition set_running :: "64 word \<Rightarrow> bool \<Rightarrow> approach_t \<Rightarrow> ClustrixNode \<times> node_env \<Rightarrow> ClustrixNode \<times> node_env" where
  "set_running mr running approach ne =
     (let node = fst ne; env = snd ne in
      if running then
        (let env1 = (if m_nRunning node = 0
                     then persist node (env\<lparr>server_status := set_status (server_status env) mr\<rparr>)
                     else env)
         in (node\<lparr>m_nRunning := m_health_check_threshold node\<rparr>, env1))
      else if m_nRunning node > 0 then
        (let node1 = (if approach = APPROACH_OVERRIDE then node\<lparr>m_nRunning := 0\<rparr>
                      else node\<lparr>m_nRunning := m_nRunning node - 1\<rparr>)
         in if m_nRunning node1 = 0
            then (node1, unpersist node1 (env\<lparr>server_status := clear_status (server_status env) mr\<rparr>))
            else (node1, env))
      else (node, env))"

text \<open>A health ping as \<open>ClustrixMonitor::check_http\<close> reports it: the node is running
  iff the HTTP status was 200, and the default approach is used.\<close>

definition health_ping :: "64 word \<Rightarrow> bool \<Rightarrow> ClustrixNode \<times> node_env \<Rightarrow> ClustrixNode \<times> node_env" where
  "health_ping mr ok ne = set_running mr ok APPROACH_DEFAULT ne"

fun failed_pings :: "64 word \<Rightarrow> nat \<Rightarrow> ClustrixNode \<times> node_env \<Rightarrow> ClustrixNode \<times> node_env" where
  "failed_pings mr 0 ne = ne"
| "failed_pings mr (Suc k) ne = failed_pings mr k (health_ping mr False ne)"

definition unpersist_calls :: "node_env \<Rightarrow> nat" where
  "unpersist_calls env = length (filter (\<lambda>c. case c of Unpersist _ \<Rightarrow> True | Persist _ \<Rightarrow> False) (persister_log env))"

definition persist_calls :: "node_env \<Rightarrow> nat" where
  "persist_calls env = length (filter (\<lambda>c. case c of Persist _ \<Rightarrow> True | Unpersist _ \<Rightarrow> False) (persister_log env))"

subsection \<open>Properties of the countdown\<close>

lemma failed_ping_positive:
  "m_nRunning node > 0 \<Longrightarrow>
   health_ping mr False (node, env) =
     (if m_nRunning node = 1
      then (node\<lparr>m_nRunning := 0\<rparr>,
            unpersist (node\<lparr>m_nRunning := 0\<rparr>) (env\<lparr>server_status := clear_status (server_status env) mr\<rparr>))
      else (node\<lparr>m_nRunning := m_nRunning node - 1\<rparr>, env))"
  by (simp add: health_ping_def set_running_def Let_def)

lemma failed_ping_down:
  "m_nRunning node \<le> 0 \<Longrightarrow> health_ping mr False (node, env) = (node, env)"
  by (simp add: health_ping_def set_running_def Let_def)

lemma successful_ping:
  "health_ping mr True (node, env) =
     (node\<lparr>m_nRunning := m_health_check_threshold node\<rparr>,
      if m_nRunning node = 0
      then persist node (env\<lparr>server_status := set_status (server_status env) mr\<rparr>)
      else env)"
  by (simp add: health_ping_def set_running_def Let_def)

lemma unpersist_calls_unpersist [simp]:
  "unpersist_calls (unpersist node env) = Suc (unpersist_calls env)"
  by (simp add: unpersist_calls_def unpersist_def)

lemma unpersist_calls_status [simp]:
  "unpersist_calls (env\<lparr>server_status := s\<rparr>) = unpersist_calls env"
  by (simp add: unpersist_calls_def)

lemma unpersist_calls_persist [simp]:
  "unpersist_calls (persist node env) = unpersist_calls env"
  by (simp add: unpersist_calls_def persist_def)

lemma failed_pings_down:
  "m_nRunning node \<le> 0 \<Longrightarrow> failed_pings mr k (node, env) = (node, env)"
  by (induction k) (simp_all add: failed_ping_down)

lemma failed_pings_count:
  "0 < m_nRunning node \<Longrightarrow> nat (m_nRunning node) \<le> k \<Longrightarrow>
   m_nRunning (fst (failed_pings mr k (node, env))) = 0 \<and>
   unpersist_calls (snd (failed_pings mr k (node, env))) = Suc (unpersist_calls env)"
proof (induction k arbitrary: node env)
  case 0
  then show ?case by simp
next
  case (Suc k)
  show ?case
  proof (cases "m_nRunning node = 1")
    case True
    then show ?thesis
      by (simp add: failed_ping_positive failed_pings_down)
  next
    case False
    let ?node = "node\<lparr>m_nRunning := m_nRunning node - 1\<rparr>"
    from False Suc.prems have step: "health_ping mr False (node, env) = (?node, env)"
      by (simp add: failed_ping_positive)
    from False Suc.prems have "0 < m_nRunning ?node" "nat (m_nRunning ?node) \<le> k"
      by simp_all
    from Suc.IH [OF this] step show ?thesis by simp
  qed
qed

lemma failed_pings_early:
  "k < nat (m_nRunning node) \<Longrightarrow>
   failed_pings mr k (node, env) = (node\<lparr>m_nRunning := m_nRunning node - int k\<rparr>, env)"
proof (induction k arbitrary: node)
  case 0
  then show ?case by simp
next
  case (Suc k)
  let ?node = "node\<lparr>m_nRunning := m_nRunning node - 1\<rparr>"
  from Suc.prems have step: "health_ping mr False (node, env) = (?node, env)"
    by (simp add: failed_ping_positive)
  from Suc.prems have "k < nat (m_nRunning ?node)" by simp
  from Suc.IH [OF this] step show ?case by (simp add: algebra_simps)
qed

text \<open>
  Claim C3. For a node created with threshold \<open>t\<close>: \<open>is_running\<close> holds iff the
  countdown is positive; a failed ping decrements the countdown only while it is
  positive; on the step to 0 the MASTER and RUNNING bits of the server are cleared and
  \<open>unpersist\<close> is called, once (any number of failed pings that brings the countdown
  to 0 or goes on after that leaves exactly one more \<open>unpersist\<close> call in the log); a
  successful ping sets the countdown to \<open>t\<close>, and sets the status bits and calls
  \<open>persist\<close> only when the countdown was 0.
\<close>

theorem C3_health_countdown:
  fixes t :: int
  assumes created: "new_ClustrixNode mr nid t env0 = (node0, env1)"
  shows "(m_nRunning node0 = t \<and> m_health_check_threshold node0 = t) \<and>
    (is_running node \<longleftrightarrow> m_nRunning node > 0) \<and>
    (m_nRunning node > 1 \<longrightarrow>
       health_ping mr False (node, env) = (node\<lparr>m_nRunning := m_nRunning node - 1\<rparr>, env)) \<and>
    (m_nRunning node = 1 \<longrightarrow>
       health_ping mr False (node, env) =
         (node\<lparr>m_nRunning := 0\<rparr>,
          env\<lparr>server_status := server_status env AND NOT mr,
              persister_log := persister_log env @ [Unpersist (m_id node)]\<rparr>)) \<and>
    (m_nRunning node \<le> 0 \<longrightarrow> health_ping mr False (node, env) = (node, env)) \<and>
    (0 < t \<and> nat t \<le> k \<longrightarrow>
       \<not> is_running (fst (failed_pings mr k (node0, env1))) \<and>
       unpersist_calls (snd (failed_pings mr k (node0, env1))) = Suc (unpersist_calls env1)) \<and>
    (m_nRunning node = 0 \<longrightarrow>
       health_ping mr True (node, env) =
         (node\<lparr>m_nRunning := m_health_check_threshold node\<rparr>,
          env\<lparr>server_status := server_status env OR mr,
              persister_log := persister_log env @ [Persist (m_id node)]\<rparr>)) \<and>
    (m_nRunning node \<noteq> 0 \<longrightarrow>
       health_ping mr True (node, env) =
         (node\<lparr>m_nRunning := m_health_check_threshold node\<rparr>, env))"
proof -
  from created have init: "m_nRunning node0 = t \<and> m_health_check_threshold node0 = t"
    by (auto simp: new_ClustrixNode_def Let_def)
  have running: "is_running node \<longleftrightarrow> m_nRunning node > 0"
    by (simp add: is_running_def)
  have dec: "m_nRunning node > 1 \<longrightarrow>
          health_ping mr False (node, env) = (node\<lparr>m_nRunning := m_nRunning node - 1\<rparr>, env)"
    by (simp add: failed_ping_positive)
  have last: "m_nRunning node = 1 \<longrightarrow>
          health_ping mr False (node, env) =
            (node\<lparr>m_nRunning := 0\<rparr>,
             env\<lparr>server_status := server_status env AND NOT mr,
                 persister_log := persister_log env @ [Unpersist (m_id node)]\<rparr>)"
    by (simp add: failed_ping_positive unpersist_def clear_status_def)
  have down: "m_nRunning node \<le> 0 \<longrightarrow> health_ping mr False (node, env) = (node, env)"
    by (simp add: failed_ping_down)
  have once: "0 < t \<and> nat t \<le> k \<longrightarrow>
          \<not> is_running (fst (failed_pings mr k (node0, env1))) \<and>
          unpersist_calls (snd (failed_pings mr k (node0, env1))) = Suc (unpersist_calls env1)"
    using failed_pings_count [of node0 k mr env1] init by (simp add: is_running_def)
  have up0: "m_nRunning node = 0 \<longrightarrow>
          health_ping mr True (node, env) =
            (node\<lparr>m_nRunning := m_health_check_threshold node\<rparr>,
             env\<lparr>server_status := server_status env OR mr,
                 persister_log := persister_log env @ [Persist (m_id node)]\<rparr>)"
    by (simp add: successful_ping persist_def set_status_def)
  have up: "m_nRunning node \<noteq> 0 \<longrightarrow>
          health_ping mr True (node, env) =
            (node\<lparr>m_nRunning := m_health_check_threshold node\<rparr>, env)"
    by (simp add: successful_ping)
  from init running dec last down once up0 up show ?thesis by blast
qed

text \<open>The theorem at a node with threshold 3 and id 7, the status mask being 9: after
  the three failed pings the node is down with one \<open>unpersist\<close> call, and two more
  failed pings change nothing.\<close>

theorem C3_health_countdown_witness:
  "new_ClustrixNode 9 7 3 \<lparr>server_status = 0, persister_log = []\<rparr> =
     (\<lparr>m_id = 7, m_health_check_threshold = 3, m_nRunning = 3\<rparr>,
      \<lparr>server_status = 9, persister_log = [Persist 7]\<rparr>) \<and>
   is_running \<lparr>m_id = 7, m_health_check_threshold = 3, m_nRunning = 3\<rparr> \<and>
   health_ping 9 False (\<lparr>m_id = 7, m_health_check_threshold = 3, m_nRunning = 3\<rparr>,
                         \<lparr>server_status = 9, persister_log = [Persist 7]\<rparr>) =
     (\<lparr>m_id = 7, m_health_check_threshold = 3, m_nRunning = 2\<rparr>,
      \<lparr>server_status = 9, persister_log = [Persist 7]\<rparr>) \<and>
   \<not> is_running (fst (failed_pings 9 5 (\<lparr>m_id = 7, m_health_check_threshold = 3, m_nRunning = 3\<rparr>,
                         \<lparr>server_status = 9, persister_log = [Persist 7]\<rparr>))) \<and>
   unpersist_calls (snd (failed_pings 9 5 (\<lparr>m_id = 7, m_health_check_threshold = 3, m_nRunning = 3\<rparr>,
                         \<lparr>server_status = 9, persister_log = [Persist 7]\<rparr>))) = 1"
proof -
  let ?env0 = "\<lparr>server_status = 0 :: 64 word, persister_log = []\<rparr>"
  let ?node0 = "\<lparr>m_id = 7, m_health_check_threshold = 3, m_nRunning = 3\<rparr>"
  let ?env1 = "\<lparr>server_status = 9 :: 64 word, persister_log = [Persist 7]\<rparr>"
  have created: "new_ClustrixNode 9 7 3 ?env0 = (?node0, ?env1)"
    by (simp add: new_ClustrixNode_def persist_def set_status_def Let_def)
  from C3_health_countdown [OF created, of ?node0 ?env1 5] created
  show ?thesis by (simp add: unpersist_calls_def)
qed

section \<open>The backend protocol (mariadb_backend.cc)\<close>

subsection \<open>Bytes, buffers and protocol constants\<close>

type_synonym byte = "8 word"

text \<open>
  Modelled from the spec: the command bytes, the reply tags and the packet sizes of the
  MySQL/MariaDB client-server protocol. The headers that declare them are not part of
  the sources at hand; the values are the protocol's (spec section 6: OK = 0x00,
  EOF = 0xfe, ERR = 0xff, LOCAL_INFILE = 0xfb, a 4-byte packet header, a 9-byte EOF
  packet, and the largest payload 2^24 - 1; COM_CHANGE_USER = 0x11 also stands in a
  comment of \<open>create_change_user_packet\<close>).
\<close>

definition MXS_COM_QUIT :: byte where "MXS_COM_QUIT = 0x01"
definition MXS_COM_FIELD_LIST :: byte where "MXS_COM_FIELD_LIST = 0x04"
definition MXS_COM_STATISTICS :: byte where "MXS_COM_STATISTICS = 0x09"
definition MXS_COM_CHANGE_USER :: byte where "MXS_COM_CHANGE_USER = 0x11"
definition MXS_COM_BINLOG_DUMP :: byte where "MXS_COM_BINLOG_DUMP = 0x12"
definition MXS_COM_STMT_PREPARE :: byte where "MXS_COM_STMT_PREPARE = 0x16"
definition MXS_COM_STMT_EXECUTE :: byte where "MXS_COM_STMT_EXECUTE = 0x17"
definition MXS_COM_STMT_SEND_LONG_DATA :: byte where "MXS_COM_STMT_SEND_LONG_DATA = 0x18"
definition MXS_COM_STMT_CLOSE :: byte where "MXS_COM_STMT_CLOSE = 0x19"
definition MXS_COM_STMT_FETCH :: byte where "MXS_COM_STMT_FETCH = 0x1c"

definition MYSQL_REPLY_OK :: byte where "MYSQL_REPLY_OK = 0x00"
definition MYSQL_REPLY_LOCAL_INFILE :: byte where "MYSQL_REPLY_LOCAL_INFILE = 0xfb"
definition MYSQL_REPLY_EOF :: byte where "MYSQL_REPLY_EOF = 0xfe"
definition MYSQL_REPLY_ERR :: byte where "MYSQL_REPLY_ERR = 0xff"

definition MYSQL_HEADER_LEN :: nat where "MYSQL_HEADER_LEN = 4"
definition MYSQL_EOF_PACKET_LEN :: nat where "MYSQL_EOF_PACKET_LEN = 9"
definition GW_MYSQL_MAX_PACKET_LEN :: nat where "GW_MYSQL_MAX_PACKET_LEN = 0xffffff"
definition MYSQL_PACKET_LENGTH_MAX :: nat where "MYSQL_PACKET_LENGTH_MAX = 0xffffff"
definition MYSQL_PS_ID_OFFSET :: nat where "MYSQL_PS_ID_OFFSET = 5"
definition MYSQL_PS_ID_SIZE :: nat where "MYSQL_PS_ID_SIZE = 4"
definition SHA_DIGEST_LENGTH :: nat where "SHA_DIGEST_LENGTH = 20"
definition SERVER_MORE_RESULTS_EXIST :: "16 word" where "SERVER_MORE_RESULTS_EXIST = 0x0008"
definition SERVER_SESSION_STATE_CHANGED :: "16 word" where "SERVER_SESSION_STATE_CHANGED = 0x4000"

text \<open>
  A \<open>GWBUF\<close> is a chain of buffers with type flags on its head. The model keeps the
  bytes of the whole chain and the flags of the head; a null pointer is \<open>None\<close>.
  Reading a byte at a fixed offset is undefined in the source when the buffer is
  shorter; the model's readers return \<open>None\<close> there.
\<close>

record GWBUF =
  gw_data :: "byte list"
  gw_ignorable :: bool
  gw_collect_result :: bool
  gw_track_state :: bool

definition gwbuf_is_ignorable :: "GWBUF \<Rightarrow> bool" where
  "gwbuf_is_ignorable b = gw_ignorable b"

definition gwbuf_should_collect_result :: "GWBUF \<Rightarrow> bool" where
  "gwbuf_should_collect_result b = gw_collect_result b"

definition gwbuf_should_track_state :: "GWBUF \<Rightarrow> bool" where
  "gwbuf_should_track_state b = gw_track_state b"

definition gwbuf_append :: "GWBUF option \<Rightarrow> GWBUF \<Rightarrow> GWBUF" where
  "gwbuf_append h t = (case h of None \<Rightarrow> t | Some b \<Rightarrow> b\<lparr>gw_data := gw_data b @ gw_data t\<rparr>)"

definition byte_at :: "byte list \<Rightarrow> nat \<Rightarrow> byte option" where
  "byte_at d i = (if i < length d then Some (d ! i) else None)"

definition gw_mysql_get_byte3 :: "byte list \<Rightarrow> nat option" where
  "gw_mysql_get_byte3 d =
     (if 3 \<le> length d then Some (unat (d ! 0) + 256 * unat (d ! 1) + 65536 * unat (d ! 2)) else None)"

definition MYSQL_GET_PAYLOAD_LEN :: "byte list \<Rightarrow> nat option" where
  "MYSQL_GET_PAYLOAD_LEN d = gw_mysql_get_byte3 d"

definition MYSQL_GET_COMMAND :: "byte list \<Rightarrow> byte option" where
  "MYSQL_GET_COMMAND d = byte_at d 4"

text \<open>Modelled from the spec: \<open>mxs_mysql_get_command\<close> is defined outside the sources
  at hand. It copies the byte after the header out of the buffer and yields 0 when the
  buffer has none.\<close>

definition mxs_mysql_get_command :: "GWBUF \<Rightarrow> byte" where
  "mxs_mysql_get_command b = (case byte_at (gw_data b) 4 of Some c \<Rightarrow> c | None \<Rightarrow> 0)"

text \<open>Modelled from the spec: the macros \<open>MYSQL_IS_COM_QUIT\<close> and
  \<open>MYSQL_IS_CHANGE_USER\<close> are declared outside the sources at hand: the first holds of
  a packet whose command byte is COM_QUIT and whose payload is that one byte, the second
  of a packet whose command byte is COM_CHANGE_USER.\<close>

definition MYSQL_IS_COM_QUIT :: "byte list \<Rightarrow> bool option" where
  "MYSQL_IS_COM_QUIT d =
     (case MYSQL_GET_COMMAND d of None \<Rightarrow> None
      | Some c \<Rightarrow> (case MYSQL_GET_PAYLOAD_LEN d of None \<Rightarrow> None
                   | Some n \<Rightarrow> Some (c = MXS_COM_QUIT \<and> n = 1)))"

definition MYSQL_IS_CHANGE_USER :: "byte list \<Rightarrow> bool option" where
  "MYSQL_IS_CHANGE_USER d =
     (case MYSQL_GET_COMMAND d of None \<Rightarrow> None | Some c \<Rightarrow> Some (c = MXS_COM_CHANGE_USER))"

definition set_byte2 :: "nat \<Rightarrow> byte list" where
  "set_byte2 n = [of_nat n, of_nat (n div 256)]"

definition set_byte3 :: "nat \<Rightarrow> byte list" where
  "set_byte3 n = [of_nat n, of_nat (n div 256), of_nat (n div 65536)]"

definition set_byte4 :: "nat \<Rightarrow> byte list" where
  "set_byte4 n = [of_nat n, of_nat (n div 256), of_nat (n div 65536), of_nat (n div 16777216)]"

subsection \<open>Sessions, servers, connections\<close>

datatype State = HANDSHAKING | AUTHENTICATING | CONNECTION_INIT | SEND_DELAYQ | ROUTING | FAILED

datatype ReplyState = START | DONE | RSET_COLDEF | RSET_COLDEF_EOF | RSET_ROWS | PREPARE

datatype ErrorType = TRANSIENT | PERMANENT

datatype StateMachineRes = IN_PROGRESS | SM_DONE | SM_ERROR

datatype InitQueryState = SENDING | RECEIVING

datatype DCB_State = DCB_CREATED | POLLING | NOPOLLING | DISCONNECTED

datatype Session_State = SES_CREATED | STARTED | STOPPING | SES_FAILED | SES_FREE

text \<open>The client side of a session as the backend protocol reads it
  (\<open>MYSQL_session\<close>): the strings are byte strings.\<close>

record MYSQL_session =
  user :: "byte list"
  db :: "byte list"
  plugin :: "byte list"
  m_charset :: nat
  connect_attrs :: "byte list"
  auth_token_phase2 :: "byte list"
  password :: "byte list"
  client_capabilities :: "32 word"
  extra_capabilities :: "32 word"

record ConnectionInitSql =
  queries :: "string list"
  buffer_contents :: "byte list"

record MXS_SESSION =
  ses_id :: nat
  ses_state :: Session_State
  ses_load_active :: bool
  ses_qualifies_for_pooling :: bool
  service_capabilities :: "64 word"
  connection_init_sql :: ConnectionInitSql
  protocol_data :: MYSQL_session

record SERVER =
  srv_status :: "64 word"
  persistpoolmax :: int
  persistmaxtime :: int
  n_persistent :: int
  persistmax :: int
  n_from_pool :: int

definition persistent_conns_enabled :: "SERVER \<Rightarrow> bool" where
  "persistent_conns_enabled srv = (persistpoolmax srv > 0)"

text \<open>
  The reply the connection is tracking (\<open>mxs::Reply\<close>, spec section 3: command, rows,
  fields, warnings, variables, error). Modelled from the spec: the class is declared
  outside the sources at hand; its setters store their argument, \<open>add_rows\<close> and
  \<open>add_bytes\<close> add, \<open>add_field_count\<close> appends, and \<open>clear\<close> returns to the initial
  reply, whose state is \<open>DONE\<close>.
\<close>

record ReplyError =
  err_code :: "16 word"
  err_sqlstate :: "byte list"
  err_message :: "byte list"

record Reply =
  command :: byte
  reply_state :: ReplyState
  rows :: nat
  field_counts :: "nat list"
  num_warnings :: "16 word"
  reply_error :: "ReplyError option"
  generated_id :: "32 word"
  param_count :: "16 word"
  is_ok :: bool
  variables :: "(byte list \<times> byte list) list"
  reply_bytes :: nat

definition Reply_clear :: Reply where
  "Reply_clear = \<lparr>command = 0, reply_state = DONE, rows = 0, field_counts = [], num_warnings = 0,
     reply_error = None, generated_id = 0, param_count = 0, is_ok = False, variables = [],
     reply_bytes = 0\<rparr>"

record InitQueryStatus =
  iq_state :: InitQueryState
  ok_packets_expected :: int
  ok_packets_received :: int

text \<open>
  A DCB as the protocol uses it. \<open>dcb_write_ok\<close> is the environment's answer to
  \<open>writeq_append\<close>. Modelled from the spec: \<open>DCB::writeq_append\<close> is defined outside
  the sources at hand; it appends the buffer to the write queue and returns true, or
  refuses and returns false. \<open>dcb_readq\<close> holds the bytes put back for the next read,
  and \<open>dcb_read_triggered\<close> tells that a read event has been requested.
\<close>

record DCB =
  dcb_state :: DCB_State
  dcb_writeq :: "GWBUF list"
  dcb_write_ok :: bool
  dcb_hangup_triggered :: bool
  dcb_session :: "MXS_SESSION option"
  dcb_hanged_up :: bool
  dcb_events_enabled :: bool
  dcb_shutdown :: bool
  dcb_upstream_errors :: "(string \<times> ErrorType) list"
  dcb_readq :: "byte list"
  dcb_read_triggered :: bool

definition writeq_append :: "DCB \<Rightarrow> GWBUF \<Rightarrow> DCB \<times> bool" where
  "writeq_append dcb buf =
     (if dcb_write_ok dcb then (dcb\<lparr>dcb_writeq := dcb_writeq dcb @ [buf]\<rparr>, True) else (dcb, False))"

definition trigger_hangup_event :: "DCB \<Rightarrow> DCB" where
  "trigger_hangup_event dcb = dcb\<lparr>dcb_hangup_triggered := True\<rparr>"

text \<open>\<open>do_handle_error\<close> hands the message to the upstream component; the model logs
  the message and its type with the DCB.\<close>

definition do_handle_error :: "DCB \<Rightarrow> string \<Rightarrow> ErrorType \<Rightarrow> DCB" where
  "do_handle_error dcb errmsg ty = dcb\<lparr>dcb_upstream_errors := dcb_upstream_errors dcb @ [(errmsg, ty)]\<rparr>"

record MariaDBBackendConnection =
  m_state :: State
  m_ignore_replies :: int
  m_stored_query :: "GWBUF option"
  m_delayed_packets :: "GWBUF option"
  m_changing_user :: bool
  m_large_query :: bool
  m_skip_next :: bool
  m_collect_result :: bool
  m_track_state :: bool
  m_opening_cursor :: bool
  m_num_coldefs :: "64 word"
  m_ps_packets :: int
  m_reply :: Reply
  m_session :: MXS_SESSION
  m_upstream :: nat
  m_scramble :: "byte list"
  server_capabilities :: "32 word"
  m_init_query_status :: InitQueryStatus
  m_collectq :: "byte list"

text \<open>The library functions the packet builders call: SHA-1 of two concatenated byte
  strings (\<open>gw_sha1_2_str\<close>) and the decoding of a hexadecimal string
  (\<open>mxs::hex2bin\<close>).\<close>

record externs =
  gw_sha1_2_str :: "byte list \<Rightarrow> byte list \<Rightarrow> byte list"
  hex2bin :: "byte list \<Rightarrow> byte list"

subsection \<open>Tracking a query and writing to the backend\<close>

text \<open>Modelled from the spec: \<open>mxs_mysql_command_will_respond\<close> is defined outside
  the sources at hand; every command gets a response but COM_STMT_SEND_LONG_DATA,
  COM_QUIT and COM_STMT_CLOSE.\<close>

definition mxs_mysql_command_will_respond :: "byte \<Rightarrow> bool" where
  "mxs_mysql_command_will_respond cmd =
     (cmd \<noteq> MXS_COM_STMT_SEND_LONG_DATA \<and> cmd \<noteq> MXS_COM_QUIT \<and> cmd \<noteq> MXS_COM_STMT_CLOSE)"

definition set_reply_state :: "ReplyState \<Rightarrow> MariaDBBackendConnection \<Rightarrow> MariaDBBackendConnection" where
  "set_reply_state st conn = conn\<lparr>m_reply := (m_reply conn)\<lparr>reply_state := st\<rparr>\<rparr>"

definition session_set_load_active :: "bool \<Rightarrow> MariaDBBackendConnection \<Rightarrow> MariaDBBackendConnection" where
  "session_set_load_active b conn = conn\<lparr>m_session := (m_session conn)\<lparr>ses_load_active := b\<rparr>\<rparr>"

definition track_query :: "MariaDBBackendConnection \<Rightarrow> GWBUF \<Rightarrow> MariaDBBackendConnection option" where
  "track_query conn buffer =
     (let data = gw_data buffer in
      if m_changing_user conn then Some conn
      else
        (case (if ses_load_active (m_session conn) then
                 (case MYSQL_GET_PAYLOAD_LEN data of
                    None \<Rightarrow> None
                  | Some n \<Rightarrow> Some (if n = 0
                                     then set_reply_state START (session_set_load_active False conn)
                                     else conn))
               else if \<not> m_large_query conn then
                 (case MYSQL_GET_COMMAND data of
                    None \<Rightarrow> None
                  | Some cmd \<Rightarrow>
                      (let c0 = conn\<lparr>m_reply := Reply_clear\<lparr>command := cmd\<rparr>\<rparr>;
                           c1 = (if mxs_mysql_command_will_respond cmd then set_reply_state START c0 else c0)
                       in if cmd = MXS_COM_STMT_EXECUTE then
                            (case byte_at data (MYSQL_PS_ID_OFFSET + MYSQL_PS_ID_SIZE) of
                               None \<Rightarrow> None
                             | Some flags \<Rightarrow> Some (c1\<lparr>m_opening_cursor := (flags \<noteq> 0)\<rparr>))
                          else if cmd = MXS_COM_STMT_FETCH then Some (set_reply_state RSET_ROWS c1)
                          else Some c1))
               else Some conn) of
           None \<Rightarrow> None
         | Some c \<Rightarrow>
             (case MYSQL_GET_PAYLOAD_LEN data of
                None \<Rightarrow> None
              | Some n \<Rightarrow> Some (c\<lparr>m_large_query := (n = MYSQL_PACKET_LENGTH_MAX)\<rparr>))))"

definition prepare_for_write :: "MariaDBBackendConnection \<Rightarrow> GWBUF \<Rightarrow> MariaDBBackendConnection option" where
  "prepare_for_write conn buffer =
     (case (if \<not> gwbuf_is_ignorable buffer then track_query conn buffer else Some conn) of
        None \<Rightarrow> None
      | Some c \<Rightarrow>
          Some ((if gwbuf_should_collect_result buffer then c\<lparr>m_collect_result := True\<rparr> else c)
                  \<lparr>m_track_state := gwbuf_should_track_state buffer\<rparr>))"

text \<open>Modelled from the spec: \<open>mxs::bin_bin_xor\<close> is defined outside the sources at
  hand; it is the bytewise exclusive or of the first \<open>n\<close> bytes of its arguments.\<close>

definition bin_bin_xor :: "byte list \<Rightarrow> byte list \<Rightarrow> nat \<Rightarrow> byte list" where
  "bin_bin_xor a b n = map (\<lambda>(x, y). x XOR y) (zip (take n a) (take n b))"

definition make_auth_token :: "externs \<Rightarrow> MariaDBBackendConnection \<Rightarrow> byte list" where
  "make_auth_token ext conn =
     (let mses = protocol_data (m_session conn); hex_hash2 = password mses in
      if hex_hash2 = [] then []
      else if length hex_hash2 = 2 * SHA_DIGEST_LENGTH then
        (let hash2 = hex2bin ext hex_hash2;
             concat_hash = gw_sha1_2_str ext (m_scramble conn) hash2;
             hash1 = auth_token_phase2 mses
         in if length hash1 = SHA_DIGEST_LENGTH
            then bin_bin_xor concat_hash hash1 SHA_DIGEST_LENGTH else [])
      else [])"

definition change_user_payload :: "externs \<Rightarrow> MariaDBBackendConnection \<Rightarrow> byte list" where
  "change_user_payload ext conn =
     (let mses = protocol_data (m_session conn); token = make_auth_token ext conn in
      [MXS_COM_CHANGE_USER] @ user mses @ [0] @ [of_nat (length token)] @ token @ db mses @ [0]
        @ set_byte2 (m_charset mses) @ plugin mses @ [0] @ connect_attrs mses)"

definition create_change_user_packet :: "externs \<Rightarrow> MariaDBBackendConnection \<Rightarrow> GWBUF" where
  "create_change_user_packet ext conn =
     (let payload = change_user_payload ext conn in
      \<lparr>gw_data = set_byte3 (length payload) @ [0] @ payload,
       gw_ignorable = False, gw_collect_result = True, gw_track_state = False\<rparr>)"

definition send_change_user_to_backend ::
  "externs \<Rightarrow> MariaDBBackendConnection \<Rightarrow> DCB \<Rightarrow> MariaDBBackendConnection \<times> DCB \<times> bool" where
  "send_change_user_to_backend ext conn dcb =
     (let buffer = create_change_user_packet ext conn; r = writeq_append dcb buffer in
      if snd r then (conn\<lparr>m_changing_user := True\<rparr>, fst r, True) else (conn, fst r, False))"

definition change_user ::
  "externs \<Rightarrow> MariaDBBackendConnection \<Rightarrow> DCB \<Rightarrow> GWBUF \<Rightarrow> MariaDBBackendConnection \<times> DCB \<times> bool" where
  "change_user ext conn dcb queue = send_change_user_to_backend ext conn dcb"

definition handle_persistent_connection ::
  "MariaDBBackendConnection \<Rightarrow> DCB \<Rightarrow> GWBUF \<Rightarrow> (MariaDBBackendConnection \<times> DCB \<times> int) option" where
  "handle_persistent_connection conn dcb queue =
     (case MYSQL_IS_COM_QUIT (gw_data queue) of
        None \<Rightarrow> None
      | Some True \<Rightarrow> Some (conn, trigger_hangup_event dcb, 0)
      | Some False \<Rightarrow>
          Some (conn\<lparr>m_stored_query := Some (gwbuf_append (m_stored_query conn) queue)\<rparr>, dcb, 1))"

definition bool_rc :: "bool \<Rightarrow> int" where
  "bool_rc b = (if b then 1 else 0)"

text \<open>\<open>MariaDBBackendConnection::write\<close>. The result is the new connection, the new
  DCB and the return code; \<open>None\<close> stands for a read outside the buffer.\<close>

definition write_backend ::
  "externs \<Rightarrow> SERVER \<Rightarrow> MariaDBBackendConnection \<Rightarrow> DCB \<Rightarrow> GWBUF
     \<Rightarrow> (MariaDBBackendConnection \<times> DCB \<times> int) option" where
  "write_backend ext srv conn dcb queue =
     (if m_ignore_replies conn > 0 then handle_persistent_connection conn dcb queue
      else
        (case m_state conn of
           FAILED \<Rightarrow> Some (conn, dcb, 0)
         | ROUTING \<Rightarrow>
             (let cmd = mxs_mysql_get_command queue in
              case prepare_for_write conn queue of
                None \<Rightarrow> None
              | Some c \<Rightarrow>
                  if command (m_reply c) = MXS_COM_CHANGE_USER then
                    (let r = change_user ext c dcb queue
                     in Some (fst r, fst (snd r), bool_rc (snd (snd r))))
                  else if cmd = MXS_COM_QUIT \<and> persistent_conns_enabled srv then Some (c, dcb, 1)
                  else
                    (let c1 = (if gwbuf_is_ignorable queue
                               then c\<lparr>m_ignore_replies := m_ignore_replies c + 1\<rparr> else c);
                         r = writeq_append dcb queue
                     in Some (c1, fst r, bool_rc (snd r))))
         | _ \<Rightarrow>
             Some (conn\<lparr>m_delayed_packets := Some (gwbuf_append (m_delayed_packets conn) queue)\<rparr>,
                   dcb, 1)))"

definition backend_write_delayqueue ::
  "externs \<Rightarrow> SERVER \<Rightarrow> MariaDBBackendConnection \<Rightarrow> DCB \<Rightarrow> GWBUF
     \<Rightarrow> (MariaDBBackendConnection \<times> DCB \<times> bool) option" where
  "backend_write_delayqueue ext srv conn dcb buffer =
     (let data = gw_data buffer in
      case MYSQL_IS_CHANGE_USER data of
        None \<Rightarrow> None
      | Some cu \<Rightarrow>
          (case MYSQL_IS_COM_QUIT data of
             None \<Rightarrow> None
           | Some q \<Rightarrow>
               (let r = (if cu then change_user ext conn dcb buffer
                         else if q \<and> persistent_conns_enabled srv then (conn, dcb, True)
                         else (let w = writeq_append dcb buffer in (conn, fst w, snd w)));
                    rval = snd (snd r);
                    d = (if \<not> rval
                         then do_handle_error (fst (snd r))
                                ''Lost connection to backend server while writing delay queue.'' TRANSIENT
                         else fst (snd r))
                in Some (fst r, d, rval))))"

definition send_delayed_packets ::
  "externs \<Rightarrow> SERVER \<Rightarrow> MariaDBBackendConnection \<Rightarrow> DCB \<Rightarrow> (MariaDBBackendConnection \<times> DCB) option" where
  "send_delayed_packets ext srv conn dcb =
     (case m_delayed_packets conn of
        None \<Rightarrow> Some (conn, dcb)
      | Some buffer \<Rightarrow>
          (case prepare_for_write (conn\<lparr>m_delayed_packets := None\<rparr>) buffer of
             None \<Rightarrow> None
           | Some c \<Rightarrow>
               (case backend_write_delayqueue ext srv c dcb buffer of
                  None \<Rightarrow> None
                | Some r \<Rightarrow> Some (fst r, fst (snd r)))))"

definition assign_session :: "MariaDBBackendConnection \<Rightarrow> MXS_SESSION \<Rightarrow> nat \<Rightarrow> MariaDBBackendConnection" where
  "assign_session conn session upstream = conn\<lparr>m_session := session, m_upstream := upstream\<rparr>"

text \<open>\<open>reuse_connection\<close>: \<open>None\<close> stands for a DCB without a session, which the source
  dereferences.\<close>

definition reuse_connection ::
  "externs \<Rightarrow> MariaDBBackendConnection \<Rightarrow> DCB \<Rightarrow> nat
     \<Rightarrow> (MariaDBBackendConnection \<times> DCB \<times> bool) option" where
  "reuse_connection ext conn dcb upstream =
     (if dcb_state dcb \<noteq> POLLING \<or> m_state conn \<noteq> ROUTING \<or> m_delayed_packets conn \<noteq> None
      then Some (conn, dcb, False)
      else
        (case dcb_session dcb of
           None \<Rightarrow> None
         | Some session \<Rightarrow>
             (let orig_session = m_session conn; orig_upstream = m_upstream conn;
                  c1 = (assign_session conn session upstream)\<lparr>m_ignore_replies := 0, m_stored_query := None\<rparr>;
                  buf = create_change_user_packet ext c1;
                  r = writeq_append dcb buf
              in if snd r
                 then Some (c1\<lparr>m_ignore_replies := m_ignore_replies c1 + 1\<rparr>, fst r, True)
                 else Some (assign_session c1 orig_session orig_upstream, fst r, False))))"

definition established :: "MariaDBBackendConnection \<Rightarrow> bool" where
  "established conn = (m_state conn = ROUTING \<and> m_ignore_replies conn = 0 \<and> m_stored_query conn = None)"



definition example_client :: MYSQL_session where
  "example_client = \<lparr>user = [0x62, 0x6f, 0x62], db = [], plugin = [], m_charset = 8,
     connect_attrs = [], auth_token_phase2 = [], password = [], client_capabilities = 0,
     extra_capabilities = 0\<rparr>"

definition example_session :: MXS_SESSION where
  "example_session = \<lparr>ses_id = 1, ses_state = STARTED, ses_load_active = False,
     ses_qualifies_for_pooling = True, service_capabilities = 0,
     connection_init_sql = \<lparr>queries = [], buffer_contents = []\<rparr>,
     protocol_data = example_client\<rparr>"

definition example_conn :: MariaDBBackendConnection where
  "example_conn = \<lparr>m_state = ROUTING, m_ignore_replies = 0, m_stored_query = None,
     m_delayed_packets = None, m_changing_user = False, m_large_query = False,
     m_skip_next = False, m_collect_result = False, m_track_state = False,
     m_opening_cursor = False, m_num_coldefs = 0, m_ps_packets = 0, m_reply = Reply_clear,
     m_session = example_session, m_upstream = 0, m_scramble = replicate 20 0,
     server_capabilities = 0,
     m_init_query_status = \<lparr>iq_state = SENDING, ok_packets_expected = 0, ok_packets_received = 0\<rparr>,
     m_collectq = []\<rparr>"

definition example_dcb :: DCB where
  "example_dcb = \<lparr>dcb_state = POLLING, dcb_writeq = [], dcb_write_ok = True,
     dcb_hangup_triggered = False, dcb_session = Some example_session, dcb_hanged_up = False,
     dcb_events_enabled = True, dcb_shutdown = False, dcb_upstream_errors = [],
     dcb_readq = [], dcb_read_triggered = False\<rparr>"

definition example_ext :: externs where
  "example_ext = \<lparr>gw_sha1_2_str = (\<lambda>a b. replicate 20 0), hex2bin = (\<lambda>h. replicate 20 0)\<rparr>"

lemma create_change_user_packet_cong:
  "m_session c = m_session c' \<Longrightarrow> m_scramble c = m_scramble c' \<Longrightarrow>
   create_change_user_packet ext c = create_change_user_packet ext c'"
  by (simp add: create_change_user_packet_def change_user_payload_def make_auth_token_def Let_def)

lemma change_user_packet_command:
  "MYSQL_GET_COMMAND (gw_data (create_change_user_packet ext c)) = Some MXS_COM_CHANGE_USER"
  by (simp add: create_change_user_packet_def change_user_payload_def MYSQL_GET_COMMAND_def
      byte_at_def set_byte3_def Let_def)



definition example_server :: SERVER where
  "example_server = \<lparr>srv_status = 1, persistpoolmax = 5, persistmaxtime = 60, n_persistent = 0,
     persistmax = 0, n_from_pool = 0\<rparr>"

definition com_quit_packet :: GWBUF where
  "com_quit_packet = \<lparr>gw_data = [1, 0, 0, 0, 0x01], gw_ignorable = False,
     gw_collect_result = False, gw_track_state = False\<rparr>"



lemma is_com_quit_command:
  "MYSQL_IS_COM_QUIT (gw_data q) = Some True \<Longrightarrow> mxs_mysql_get_command q = MXS_COM_QUIT \<and>
     MYSQL_GET_COMMAND (gw_data q) = Some MXS_COM_QUIT \<and> MYSQL_GET_PAYLOAD_LEN (gw_data q) = Some 1"
  by (auto simp: MYSQL_IS_COM_QUIT_def mxs_mysql_get_command_def MYSQL_GET_COMMAND_def
      split: option.splits)

lemma prepare_for_write_quit:
  assumes q: "MYSQL_IS_COM_QUIT (gw_data q) = Some True"
    and h: "command (m_reply conn) \<noteq> MXS_COM_CHANGE_USER \<or>
            (\<not> m_changing_user conn \<and> \<not> gw_ignorable q \<and> \<not> ses_load_active (m_session conn)
             \<and> \<not> m_large_query conn)"
  shows "\<exists>c. prepare_for_write conn q = Some c \<and> command (m_reply c) \<noteq> MXS_COM_CHANGE_USER"
  using is_com_quit_command [OF q] h
  by (auto simp: prepare_for_write_def track_query_def Let_def gwbuf_is_ignorable_def
      set_reply_state_def session_set_load_active_def MXS_COM_QUIT_def MXS_COM_CHANGE_USER_def
      MXS_COM_STMT_EXECUTE_def MXS_COM_STMT_FETCH_def)

text \<open>
  A COM_QUIT that is handled as a packet of its own. In Routing state with
  \<open>ignore_replies = 0\<close>, when the tracked command after \<open>prepare_for_write\<close> is not
  COM_CHANGE_USER: with pooling enabled the packet is discarded, nothing is sent and
  \<open>write\<close> returns 1; without pooling it is handed to \<open>writeq_append\<close>. A delayed
  queue whose buffer starts with a COM_QUIT is not written on a server with pooling, and
  is written on a server without.
\<close>

lemma quit_packet_alone:
  assumes routing: "m_state conn = ROUTING" and ign: "m_ignore_replies conn = 0"
    and quit: "MYSQL_IS_COM_QUIT (gw_data queue) = Some True"
  shows "((command (m_reply conn) \<noteq> MXS_COM_CHANGE_USER \<or>
           (\<not> m_changing_user conn \<and> \<not> gw_ignorable queue \<and> \<not> ses_load_active (m_session conn)
            \<and> \<not> m_large_query conn)) \<longrightarrow>
          (persistent_conns_enabled srv \<longrightarrow>
             (\<exists>c. write_backend ext srv conn dcb queue = Some (c, dcb, 1))) \<and>
          (\<not> persistent_conns_enabled srv \<longrightarrow>
             (\<exists>c. write_backend ext srv conn dcb queue =
                    Some (c, fst (writeq_append dcb queue), bool_rc (snd (writeq_append dcb queue)))))) \<and>
         (persistent_conns_enabled srv \<longrightarrow>
            backend_write_delayqueue ext srv conn2 dcb queue = Some (conn2, dcb, True) \<and>
            (m_delayed_packets conn2 = Some queue \<longrightarrow>
               (\<exists>c. send_delayed_packets ext srv conn2 dcb = Some (c, dcb)))) \<and>
         (\<not> persistent_conns_enabled srv \<and> dcb_write_ok dcb \<longrightarrow>
            backend_write_delayqueue ext srv conn2 dcb queue =
              Some (conn2, dcb\<lparr>dcb_writeq := dcb_writeq dcb @ [queue]\<rparr>, True))"
proof -
  note cmd = is_com_quit_command [OF quit]
  have cu: "MYSQL_IS_CHANGE_USER (gw_data queue) = Some False"
    using cmd by (simp add: MYSQL_IS_CHANGE_USER_def MXS_COM_QUIT_def MXS_COM_CHANGE_USER_def)
  have w: "(\<exists>c. write_backend ext srv conn dcb queue = Some (c, dcb, 1))"
    if "persistent_conns_enabled srv"
      and "command (m_reply conn) \<noteq> MXS_COM_CHANGE_USER \<or>
           (\<not> m_changing_user conn \<and> \<not> gw_ignorable queue \<and> \<not> ses_load_active (m_session conn)
            \<and> \<not> m_large_query conn)"
  proof -
    from prepare_for_write_quit [OF quit that(2)] obtain c where
      "prepare_for_write conn queue = Some c" "command (m_reply c) \<noteq> MXS_COM_CHANGE_USER" by blast
    with routing ign cmd that(1) show ?thesis
      by (simp add: write_backend_def Let_def)
  qed
  have f: "(\<exists>c. write_backend ext srv conn dcb queue =
                    Some (c, fst (writeq_append dcb queue), bool_rc (snd (writeq_append dcb queue))))"
    if "\<not> persistent_conns_enabled srv"
      and "command (m_reply conn) \<noteq> MXS_COM_CHANGE_USER \<or>
           (\<not> m_changing_user conn \<and> \<not> gw_ignorable queue \<and> \<not> ses_load_active (m_session conn)
            \<and> \<not> m_large_query conn)"
  proof -
    from prepare_for_write_quit [OF quit that(2)] obtain c where
      "prepare_for_write conn queue = Some c" "command (m_reply c) \<noteq> MXS_COM_CHANGE_USER" by blast
    with routing ign cmd that(1) show ?thesis
      by (simp add: write_backend_def Let_def)
  qed
  have d: "backend_write_delayqueue ext srv conn2 dcb queue = Some (conn2, dcb, True)"
    if "persistent_conns_enabled srv"
    using that cu quit by (simp add: backend_write_delayqueue_def Let_def)
  have s: "\<exists>c. send_delayed_packets ext srv conn2 dcb = Some (c, dcb)"
    if p: "persistent_conns_enabled srv" and dq: "m_delayed_packets conn2 = Some queue"
  proof -
    have "\<exists>c. prepare_for_write (conn2\<lparr>m_delayed_packets := None\<rparr>) queue = Some c"
      using cmd
      by (auto simp: prepare_for_write_def track_query_def Let_def MXS_COM_QUIT_def
          MXS_COM_STMT_EXECUTE_def MXS_COM_STMT_FETCH_def)
    then obtain c where c: "prepare_for_write (conn2\<lparr>m_delayed_packets := None\<rparr>) queue = Some c" ..
    have "backend_write_delayqueue ext srv c dcb queue = Some (c, dcb, True)"
      using p cu quit by (simp add: backend_write_delayqueue_def Let_def)
    with c dq show ?thesis by (simp add: send_delayed_packets_def)
  qed
  have n: "backend_write_delayqueue ext srv conn2 dcb queue =
              Some (conn2, dcb\<lparr>dcb_writeq := dcb_writeq dcb @ [queue]\<rparr>, True)"
    if "\<not> persistent_conns_enabled srv" "dcb_write_ok dcb"
    using that cu quit by (simp add: backend_write_delayqueue_def Let_def writeq_append_def)
  from w f d s n show ?thesis by blast
qed


text \<open>
  The same at the example connection, on a pooling server and on one without.
\<close>

lemma quit_packet_alone_example:
  "m_state example_conn = ROUTING \<and> m_ignore_replies example_conn = 0 \<and>
   MYSQL_IS_COM_QUIT (gw_data com_quit_packet) = Some True \<and>
   persistent_conns_enabled example_server \<and>
   \<not> persistent_conns_enabled (example_server\<lparr>persistpoolmax := 0\<rparr>) \<and>
   command (m_reply example_conn) \<noteq> MXS_COM_CHANGE_USER \<and>
   map_option (\<lambda>r. (fst (snd r), snd (snd r)))
     (write_backend example_ext example_server example_conn example_dcb com_quit_packet) =
     Some (example_dcb, 1) \<and>
   map_option (\<lambda>r. (fst (snd r), snd (snd r)))
     (write_backend example_ext (example_server\<lparr>persistpoolmax := 0\<rparr>) example_conn example_dcb
        com_quit_packet) =
     Some (example_dcb\<lparr>dcb_writeq := [com_quit_packet]\<rparr>, 1) \<and>
   backend_write_delayqueue example_ext example_server
       (example_conn\<lparr>m_state := SEND_DELAYQ\<rparr>) example_dcb com_quit_packet =
     Some (example_conn\<lparr>m_state := SEND_DELAYQ\<rparr>, example_dcb, True) \<and>
   backend_write_delayqueue example_ext (example_server\<lparr>persistpoolmax := 0\<rparr>)
       (example_conn\<lparr>m_state := SEND_DELAYQ\<rparr>) example_dcb com_quit_packet =
     Some (example_conn\<lparr>m_state := SEND_DELAYQ\<rparr>,
           example_dcb\<lparr>dcb_writeq := [com_quit_packet]\<rparr>, True)"
proof -
  have r: "m_state example_conn = ROUTING" and i: "m_ignore_replies example_conn = 0"
    and c: "command (m_reply example_conn) \<noteq> MXS_COM_CHANGE_USER"
    by (simp_all add: example_conn_def Reply_clear_def MXS_COM_CHANGE_USER_def)
  have q: "MYSQL_IS_COM_QUIT (gw_data com_quit_packet) = Some True"
    by (simp add: com_quit_packet_def MYSQL_IS_COM_QUIT_def MYSQL_GET_COMMAND_def
        MYSQL_GET_PAYLOAD_LEN_def gw_mysql_get_byte3_def byte_at_def MXS_COM_QUIT_def)
  have p: "persistent_conns_enabled example_server"
    and n: "\<not> persistent_conns_enabled (example_server\<lparr>persistpoolmax := 0\<rparr>)"
    by (simp_all add: persistent_conns_enabled_def example_server_def)
  have w: "dcb_write_ok example_dcb" "dcb_writeq example_dcb = []"
    by (simp_all add: example_dcb_def)
  from quit_packet_alone [OF r i q, of example_server example_ext example_dcb "example_conn\<lparr>m_state := SEND_DELAYQ\<rparr>"]
       quit_packet_alone [OF r i q, of "example_server\<lparr>persistpoolmax := 0\<rparr>" example_ext example_dcb
                   "example_conn\<lparr>m_state := SEND_DELAYQ\<rparr>"]
       r i c q p n w
  show ?thesis
    by (auto simp: writeq_append_def bool_rc_def)
qed

definition select_packet :: GWBUF where
  "select_packet = \<lparr>gw_data = [9, 0, 0, 0, 0x03, 0x53, 0x45, 0x4c, 0x45, 0x43, 0x54, 0x20, 0x31],
     gw_ignorable = False, gw_collect_result = False, gw_track_state = False\<rparr>"

definition delayed_quit_run :: "(int \<times> int \<times> byte list option \<times> byte list list) option" where
  "delayed_quit_run =
     (case write_backend example_ext example_server (example_conn\<lparr>m_state := AUTHENTICATING\<rparr>)
             example_dcb select_packet of
        None \<Rightarrow> None
      | Some r1 \<Rightarrow>
          (case write_backend example_ext example_server (fst r1) (fst (snd r1)) com_quit_packet of
             None \<Rightarrow> None
           | Some r2 \<Rightarrow>
               (case send_delayed_packets example_ext example_server
                       ((fst r2)\<lparr>m_state := SEND_DELAYQ\<rparr>) (fst (snd r2)) of
                  None \<Rightarrow> None
                | Some r3 \<Rightarrow>
                    Some (snd (snd r1), snd (snd r2),
                          map_option gw_data (m_delayed_packets (fst r2)),
                          map gw_data (dcb_writeq (snd r3))))))"

definition changing_user_conn :: MariaDBBackendConnection where
  "changing_user_conn =
     example_conn\<lparr>m_changing_user := True, m_reply := Reply_clear\<lparr>command := MXS_COM_CHANGE_USER\<rparr>\<rparr>"

text \<open>
  Claim C10 says that on a server with pooling a COM_QUIT written by the session is
  discarded, also when it is flushed from the delayed queue, and that nothing is sent.
  Two runs on a server with pooling (\<open>persistpoolmax = 5\<close>) end otherwise.

  In the first the session writes a query and then a COM_QUIT while the connection is
  still authenticating: \<open>write\<close> appends both to \<open>m_delayed_packets\<close>. When the queue
  is flushed, \<open>send_delayed_packets\<close> hands it over as one buffer and
  \<open>backend_write_delayqueue\<close> looks at the first packet only: the COM_QUIT is written
  to the backend behind the query. (\<open>delayed_quit_run\<close> gives what the two writes
  return, the delayed queue after them, and the write queue of the DCB after the flush.)

  In the second the connection is in Routing state with \<open>ignore_replies = 0\<close> and a
  change of user is in progress. \<open>write\<close> asks for the tracked command before it asks
  whether the packet is a COM_QUIT, and \<open>track_query\<close> leaves the tracker alone during
  a change of user: the COM_QUIT makes \<open>write\<close> send a COM_CHANGE_USER packet.
\<close>

theorem C10_quit_reaches_backend:
  "persistent_conns_enabled example_server \<and>
   MYSQL_IS_COM_QUIT (gw_data com_quit_packet) = Some True \<and>
   delayed_quit_run =
     Some (1, 1, Some (gw_data select_packet @ gw_data com_quit_packet),
           [gw_data select_packet @ gw_data com_quit_packet]) \<and>
   m_state changing_user_conn = ROUTING \<and> m_ignore_replies changing_user_conn = 0 \<and>
   dcb_writeq example_dcb = [] \<and>
   map_option (\<lambda>r. (dcb_writeq (fst (snd r)), snd (snd r)))
     (write_backend example_ext example_server changing_user_conn example_dcb com_quit_packet) =
     Some ([create_change_user_packet example_ext changing_user_conn], 1) \<and>
   MYSQL_GET_COMMAND (gw_data (create_change_user_packet example_ext changing_user_conn)) =
     Some MXS_COM_CHANGE_USER"
proof -
  have p: "persistent_conns_enabled example_server"
    by (simp add: persistent_conns_enabled_def example_server_def)
  have q: "MYSQL_IS_COM_QUIT (gw_data com_quit_packet) = Some True"
    by (simp add: com_quit_packet_def MYSQL_IS_COM_QUIT_def MYSQL_GET_COMMAND_def
        MYSQL_GET_PAYLOAD_LEN_def gw_mysql_get_byte3_def byte_at_def MXS_COM_QUIT_def)
  have w1: "write_backend example_ext example_server (example_conn\<lparr>m_state := AUTHENTICATING\<rparr>)
             example_dcb select_packet =
            Some (example_conn\<lparr>m_state := AUTHENTICATING, m_delayed_packets := Some select_packet\<rparr>,
                  example_dcb, 1)"
    by (simp add: write_backend_def example_conn_def gwbuf_append_def)
  have w2: "write_backend example_ext example_server
              (example_conn\<lparr>m_state := AUTHENTICATING, m_delayed_packets := Some select_packet\<rparr>)
              example_dcb com_quit_packet =
            Some (example_conn\<lparr>m_state := AUTHENTICATING,
                    m_delayed_packets :=
                      Some (select_packet\<lparr>gw_data := gw_data select_packet @ gw_data com_quit_packet\<rparr>)\<rparr>,
                  example_dcb, 1)"
    by (simp add: write_backend_def example_conn_def gwbuf_append_def)
  have w3: "map_option (\<lambda>r. map gw_data (dcb_writeq (snd r)))
              (send_delayed_packets example_ext example_server
                 (example_conn\<lparr>m_state := AUTHENTICATING,
                    m_delayed_packets :=
                      Some (select_packet\<lparr>gw_data := gw_data select_packet @ gw_data com_quit_packet\<rparr>),
                    m_state := SEND_DELAYQ\<rparr>) example_dcb) =
            Some [gw_data select_packet @ gw_data com_quit_packet]"
    by (simp add: send_delayed_packets_def prepare_for_write_def track_query_def
        backend_write_delayqueue_def gwbuf_is_ignorable_def gwbuf_should_collect_result_def
        gwbuf_should_track_state_def select_packet_def com_quit_packet_def example_conn_def
        example_session_def example_dcb_def example_server_def persistent_conns_enabled_def
        MYSQL_IS_CHANGE_USER_def MYSQL_IS_COM_QUIT_def MYSQL_GET_COMMAND_def
        MYSQL_GET_PAYLOAD_LEN_def gw_mysql_get_byte3_def byte_at_def writeq_append_def Let_def
        MXS_COM_QUIT_def MXS_COM_CHANGE_USER_def MXS_COM_STMT_EXECUTE_def MXS_COM_STMT_FETCH_def
        mxs_mysql_command_will_respond_def MXS_COM_STMT_SEND_LONG_DATA_def MXS_COM_STMT_CLOSE_def
        set_reply_state_def Reply_clear_def MYSQL_PACKET_LENGTH_MAX_def)
  have run: "delayed_quit_run =
     Some (1, 1, Some (gw_data select_packet @ gw_data com_quit_packet),
           [gw_data select_packet @ gw_data com_quit_packet])"
    using w3 by (auto simp: delayed_quit_run_def w1 w2 split: option.splits)
  have s: "m_state changing_user_conn = ROUTING" "m_ignore_replies changing_user_conn = 0"
    "dcb_writeq example_dcb = []"
    by (simp_all add: changing_user_conn_def example_conn_def example_dcb_def)
  have cu: "map_option (\<lambda>r. (dcb_writeq (fst (snd r)), snd (snd r)))
     (write_backend example_ext example_server changing_user_conn example_dcb com_quit_packet) =
     Some ([create_change_user_packet example_ext changing_user_conn], 1)"
    by (simp add: write_backend_def changing_user_conn_def example_conn_def example_dcb_def
        prepare_for_write_def track_query_def gwbuf_is_ignorable_def com_quit_packet_def
        gwbuf_should_collect_result_def gwbuf_should_track_state_def Reply_clear_def
        change_user_def send_change_user_to_backend_def writeq_append_def Let_def bool_rc_def
        create_change_user_packet_cong)
  from p q run s cu change_user_packet_command show ?thesis by simp
qed

section \<open>The per-worker pool of backend connections (routingworker.cc)\<close>

text \<open>
  A worker owns its DCBs; the model keeps them in a store indexed by their address.
  \<open>m_dcbs\<close> is the worker's book-keeping of active DCBs, the pool is
  \<open>m_persistent_entries_by_server\<close> (a server without an entry has the empty list, as
  \<open>operator[]\<close> gives), and \<open>m_zombies\<close> is the queue of DCBs to destroy. The
  servers, which the worker reaches through pointers, are a second store.
\<close>

datatype Handler = Protocol_handler | Pool_handler

datatype Evict = Evict_EXPIRED | Evict_ALL

record BackendDCB =
  b_dcb :: DCB
  b_protocol :: MariaDBBackendConnection
  b_server :: nat
  b_handler :: Handler
  b_open :: bool

record PersistentEntry =
  m_created :: int
  m_pDcb :: nat

record RoutingWorker =
  m_dcbs :: "nat set"
  m_persistent_entries_by_server :: "nat \<Rightarrow> PersistentEntry list"
  m_evicting :: bool
  m_zombies :: "nat list"
  dcb_store :: "nat \<Rightarrow> BackendDCB"
  server_store :: "nat \<Rightarrow> SERVER"

definition update_dcb :: "nat \<Rightarrow> (BackendDCB \<Rightarrow> BackendDCB) \<Rightarrow> RoutingWorker \<Rightarrow> RoutingWorker" where
  "update_dcb d f w = w\<lparr>dcb_store := (dcb_store w)(d := f (dcb_store w d))\<rparr>"

definition update_server :: "nat \<Rightarrow> (SERVER \<Rightarrow> SERVER) \<Rightarrow> RoutingWorker \<Rightarrow> RoutingWorker" where
  "update_server s f w = w\<lparr>server_store := (server_store w)(s := f (server_store w s))\<rparr>"

definition set_entries :: "nat \<Rightarrow> PersistentEntry list \<Rightarrow> RoutingWorker \<Rightarrow> RoutingWorker" where
  "set_entries s es w =
     w\<lparr>m_persistent_entries_by_server := (m_persistent_entries_by_server w)(s := es)\<rparr>"

text \<open>\<open>int persistpoolmax = pServer->persistpoolmax()\<close> narrows a \<open>long\<close> to an
  \<open>int\<close>.\<close>

definition to_int32 :: "int \<Rightarrow> int" where
  "to_int32 x = sint (word_of_int x :: 32 word)"

text \<open>
  Modelled from the spec: the following are defined outside the sources at hand.
  \<open>SERVER::is_running\<close>: the server's RUNNING status bit is set (the bit itself,
  \<open>SERVER_RUNNING\<close>, is a parameter \<open>running_bit\<close> of the functions below).
  \<open>session_valid_for_pool\<close>: the session qualifies for pooling.
  \<open>PersistentEntry::hanged_up\<close>: the entry's DCB has been hung up.
  \<open>mxb::atomic::add_limited\<close>: adds to the counter unless the sum would exceed the
  limit, and tells whether it added.
  \<open>DCB::clear\<close>: detaches the DCB from its session.
  \<open>Session::link_backend_connection\<close>: attaches the DCB to the session.
  \<open>DCB::disable_events\<close> and \<open>DCB::shutdown\<close>: they set the corresponding flags.
\<close>

definition server_is_running :: "64 word \<Rightarrow> SERVER \<Rightarrow> bool" where
  "server_is_running running_bit srv = (srv_status srv AND running_bit \<noteq> 0)"

definition session_valid_for_pool :: "MXS_SESSION \<Rightarrow> bool" where
  "session_valid_for_pool ses = ses_qualifies_for_pooling ses"

definition entry_hanged_up :: "RoutingWorker \<Rightarrow> PersistentEntry \<Rightarrow> bool" where
  "entry_hanged_up w e = dcb_hanged_up (b_dcb (dcb_store w (m_pDcb e)))"

definition add_limited :: "int \<Rightarrow> int \<Rightarrow> int \<Rightarrow> int \<times> bool" where
  "add_limited n v limit = (if n + v > limit then (n, False) else (n + v, True))"

definition dcb_clear :: "BackendDCB \<Rightarrow> BackendDCB" where
  "dcb_clear b = b\<lparr>b_dcb := (b_dcb b)\<lparr>dcb_session := None\<rparr>\<rparr>"

definition link_backend_connection :: "MXS_SESSION \<Rightarrow> BackendDCB \<Rightarrow> BackendDCB" where
  "link_backend_connection ses b = b\<lparr>b_dcb := (b_dcb b)\<lparr>dcb_session := Some ses\<rparr>\<rparr>"

definition disable_events_and_shutdown :: "BackendDCB \<Rightarrow> BackendDCB" where
  "disable_events_and_shutdown b =
     (if dcb_state (b_dcb b) = POLLING
      then b\<lparr>b_dcb := (b_dcb b)\<lparr>dcb_events_enabled := False, dcb_shutdown := True\<rparr>\<rparr>
      else b)"

text \<open>
  Modelled from the spec: \<open>DCB::close\<close> is defined outside the sources at hand. As
  the comment in \<open>close_pooled_dcb\<close> says, it calls \<open>can_be_destroyed\<close>, which answers
  true while \<open>m_evicting\<close> is set; the DCB is then closed and handed to
  \<open>RoutingWorker::destroy\<close>, which appends it to \<open>m_zombies\<close>. The model covers the
  call during an eviction only; outside one (which \<open>mxb_assert(m_evicting)\<close> excludes)
  it is \<open>None\<close>.
\<close>

definition DCB_close_evicting :: "RoutingWorker \<Rightarrow> nat \<Rightarrow> RoutingWorker option" where
  "DCB_close_evicting w d =
     (if m_evicting w
      then Some ((update_dcb d (\<lambda>b. b\<lparr>b_open := False\<rparr>) w)\<lparr>m_zombies := m_zombies w @ [d]\<rparr>)
      else None)"

definition close_pooled_dcb :: "RoutingWorker \<Rightarrow> nat \<Rightarrow> RoutingWorker option" where
  "close_pooled_dcb w pDcb =
     DCB_close_evicting
       (update_dcb pDcb disable_events_and_shutdown (w\<lparr>m_dcbs := insert pDcb (m_dcbs w)\<rparr>)) pDcb"

fun close_pooled_dcbs :: "RoutingWorker \<Rightarrow> nat list \<Rightarrow> RoutingWorker option" where
  "close_pooled_dcbs w [] = Some w"
| "close_pooled_dcbs w (d # ds) =
     (case close_pooled_dcb w d of None \<Rightarrow> None | Some w' \<Rightarrow> close_pooled_dcbs w' ds)"

text \<open>The loop of \<open>evict_dcbs\<close> over the entries of one server: the entries kept, the
  DCBs to evict, and the final count.\<close>

fun evict_scan ::
  "RoutingWorker \<Rightarrow> Evict \<Rightarrow> int \<Rightarrow> int \<Rightarrow> int \<Rightarrow> PersistentEntry list \<Rightarrow> int
     \<Rightarrow> PersistentEntry list \<times> nat list \<times> int" where
  "evict_scan w evict now max_age pool_max [] count = ([], [], count)"
| "evict_scan w evict now max_age pool_max (entry # es) count =
     (let hanged_up = entry_hanged_up w entry;
          expired = (evict = Evict_ALL \<or> now - m_created entry > max_age);
          too_many = (count > pool_max)
      in if hanged_up \<or> expired \<or> too_many
         then (let r = evict_scan w evict now max_age pool_max es count
               in (fst r, m_pDcb entry # fst (snd r), snd (snd r)))
         else (let r = evict_scan w evict now max_age pool_max es (count + 1)
               in (entry # fst r, fst (snd r), snd (snd r))))"

definition evict_dcbs ::
  "64 word \<Rightarrow> int \<Rightarrow> RoutingWorker \<Rightarrow> nat \<Rightarrow> Evict \<Rightarrow> (RoutingWorker \<times> int) option" where
  "evict_dcbs running_bit now w pS evict0 =
     (let w1 = w\<lparr>m_evicting := True\<rparr>;
          srv = server_store w1 pS;
          evict = (if srv_status srv AND running_bit = 0 then Evict_ALL else evict0);
          r = evict_scan w1 evict now (persistmaxtime srv) (persistpoolmax srv)
                (m_persistent_entries_by_server w1 pS) 0;
          kept = fst r; to_be_evicted = fst (snd r); count = snd (snd r);
          w2 = update_server pS
                 (\<lambda>sv. sv\<lparr>n_persistent := n_persistent sv - int (length to_be_evicted),
                          persistmax := max (persistmax sv) count\<rparr>)
                 (set_entries pS kept w1)
      in case close_pooled_dcbs w2 to_be_evicted of
           None \<Rightarrow> None
         | Some w3 \<Rightarrow> Some (w3\<lparr>m_evicting := False\<rparr>, count))"

text \<open>\<open>evict_dcbs(Evict)\<close> over the servers that have an entry in the map, in the
  map's order.\<close>

fun evict_dcbs_all :: "64 word \<Rightarrow> int \<Rightarrow> RoutingWorker \<Rightarrow> nat list \<Rightarrow> Evict \<Rightarrow> RoutingWorker option" where
  "evict_dcbs_all running_bit now w [] evict = Some w"
| "evict_dcbs_all running_bit now w (s # ss) evict =
     (case evict_dcbs running_bit now w s evict of
        None \<Rightarrow> None
      | Some r \<Rightarrow> evict_dcbs_all running_bit now (fst r) ss evict)"

text \<open>\<open>can_be_destroyed\<close>: the new worker and the answer; \<open>None\<close> where the source
  erases a DCB that \<open>m_dcbs\<close> does not hold.\<close>

definition can_be_destroyed ::
  "64 word \<Rightarrow> int \<Rightarrow> RoutingWorker \<Rightarrow> nat \<Rightarrow> (RoutingWorker \<times> bool) option" where
  "can_be_destroyed running_bit now w pDcb =
     (if m_evicting w then Some (w, True)
      else
        (let b = dcb_store w pDcb; pServer = b_server b; srv = server_store w pServer;
             pool_max = to_int32 (persistpoolmax srv)
         in if dcb_state (b_dcb b) = POLLING
               \<and> established (b_protocol b)
               \<and> (case dcb_session (b_dcb b) of None \<Rightarrow> False | Some ses \<Rightarrow> session_valid_for_pool ses)
               \<and> pool_max > 0
               \<and> server_is_running running_bit srv
               \<and> \<not> dcb_hanged_up (b_dcb b)
            then
              (case evict_dcbs running_bit now w pServer Evict_EXPIRED of
                 None \<Rightarrow> None
               | Some r \<Rightarrow>
                   (let w1 = fst r; count = snd r in
                    if count < pool_max then
                      (let a = add_limited (n_persistent (server_store w1 pServer)) 1 pool_max in
                       if snd a then
                         (if pDcb \<in> m_dcbs w1 then
                            Some ((set_entries pServer
                                     (m_persistent_entries_by_server w1 pServer
                                        @ [\<lparr>m_created = now, m_pDcb = pDcb\<rparr>])
                                     (update_dcb pDcb (\<lambda>b. (dcb_clear b)\<lparr>b_handler := Pool_handler\<rparr>)
                                        (update_server pServer (\<lambda>sv. sv\<lparr>n_persistent := fst a\<rparr>) w1)))
                                    \<lparr>m_dcbs := m_dcbs w1 - {pDcb}\<rparr>, False)
                          else None)
                       else Some (w1, True))
                    else Some (w1, True)))
            else Some (w, True)))"

definition evict_dcb :: "RoutingWorker \<Rightarrow> nat \<Rightarrow> RoutingWorker option" where
  "evict_dcb w pDcb =
     (let w1 = w\<lparr>m_evicting := True\<rparr>;
          pServer = b_server (dcb_store w1 pDcb);
          es = m_persistent_entries_by_server w1 pServer
      in if pDcb \<in> set (map m_pDcb es)
         then (case close_pooled_dcb
                      (set_entries pServer
                         (takeWhile (\<lambda>e. m_pDcb e \<noteq> pDcb) es @ tl (dropWhile (\<lambda>e. m_pDcb e \<noteq> pDcb) es))
                         w1) pDcb of
                 None \<Rightarrow> None
               | Some w2 \<Rightarrow> Some (w2\<lparr>m_evicting := False\<rparr>))
         else None)"

text \<open>The loop of \<open>get_backend_dcb_from_pool\<close>: entries are taken from the front until
  one can be reused.\<close>

fun take_from_pool ::
  "externs \<Rightarrow> RoutingWorker \<Rightarrow> nat \<Rightarrow> MXS_SESSION \<Rightarrow> nat \<Rightarrow> PersistentEntry list
     \<Rightarrow> (RoutingWorker \<times> nat option) option" where
  "take_from_pool ext w pS pSession pUpstream [] = Some (set_entries pS [] w, None)"
| "take_from_pool ext w pS pSession pUpstream (entry # es) =
     (let pDcb = m_pDcb entry;
          w1 = update_dcb pDcb
                 (\<lambda>b. link_backend_connection pSession (b\<lparr>b_handler := Protocol_handler\<rparr>))
                 (update_server pS (\<lambda>sv. sv\<lparr>n_persistent := n_persistent sv - 1\<rparr>)
                    (set_entries pS es w));
          b = dcb_store w1 pDcb
      in case reuse_connection ext (b_protocol b) (b_dcb b) pUpstream of
           None \<Rightarrow> None
         | Some r \<Rightarrow>
             (let w2 = update_dcb pDcb (\<lambda>b. b\<lparr>b_protocol := fst r, b_dcb := fst (snd r)\<rparr>) w1 in
              if snd (snd r)
              then Some (update_server pS (\<lambda>sv. sv\<lparr>n_from_pool := n_from_pool sv + 1\<rparr>) w2,
                         Some pDcb)
              else
                (case DCB_close_evicting
                        (update_dcb pDcb disable_events_and_shutdown (w2\<lparr>m_evicting := True\<rparr>)) pDcb of
                   None \<Rightarrow> None
                 | Some w3 \<Rightarrow>
                     take_from_pool ext (w3\<lparr>m_evicting := False\<rparr>) pS pSession pUpstream es)))"

definition get_backend_dcb_from_pool ::
  "externs \<Rightarrow> 64 word \<Rightarrow> int \<Rightarrow> RoutingWorker \<Rightarrow> nat \<Rightarrow> MXS_SESSION \<Rightarrow> nat
     \<Rightarrow> (RoutingWorker \<times> nat option) option" where
  "get_backend_dcb_from_pool ext running_bit now w pS pSession pUpstream =
     (case evict_dcbs running_bit now w pS Evict_EXPIRED of
        None \<Rightarrow> None
      | Some r0 \<Rightarrow>
          (case take_from_pool ext (fst r0) pS pSession pUpstream
                  (m_persistent_entries_by_server (fst r0) pS) of
             None \<Rightarrow> None
           | Some r \<Rightarrow>
               (case snd r of
                  None \<Rightarrow> Some r
                | Some pDcb \<Rightarrow> Some ((fst r)\<lparr>m_dcbs := insert pDcb (m_dcbs (fst r))\<rparr>, Some pDcb))))"

lemma to_int32_eq: "to_int32 x = (x + 2 ^ 31) mod 2 ^ 32 - 2 ^ 31"
  by (simp add: to_int32_def sint_sbintrunc' signed_take_bit_eq_take_bit_shift take_bit_eq_mod)

lemma to_int32_pos:
  assumes "0 \<le> x" and "0 < to_int32 x"
  shows "0 < x \<and> to_int32 x \<le> x"
proof -
  have "(x + 2 ^ 31) mod 2 ^ 32 \<le> x + 2 ^ 31"
    using assms(1) by (intro zmod_le_nonneg_dividend) simp
  then have le: "to_int32 x \<le> x" by (simp add: to_int32_eq)
  with assms(2) show ?thesis by simp
qed

lemma evict_scan_count:
  "snd (snd (evict_scan w ev now mt pm es c)) = c + int (length (fst (evict_scan w ev now mt pm es c)))"
  by (induction es arbitrary: c) (simp_all add: Let_def)

lemma evict_scan_kept:
  "set (fst (evict_scan w ev now mt pm es c)) \<subseteq> set es"
  by (induction es arbitrary: c) (auto simp: Let_def)

lemma evict_scan_partition:
  "set (map m_pDcb (fst (evict_scan w ev now mt pm es c))) \<union> set (fst (snd (evict_scan w ev now mt pm es c)))
     = set (map m_pDcb es)"
  by (induction es arbitrary: c) (auto simp: Let_def)

lemma evict_scan_distinct:
  "distinct (map m_pDcb es) \<Longrightarrow>
   distinct (map m_pDcb (fst (evict_scan w ev now mt pm es c))) \<and>
   distinct (fst (snd (evict_scan w ev now mt pm es c))) \<and>
   set (map m_pDcb (fst (evict_scan w ev now mt pm es c))) \<inter> set (fst (snd (evict_scan w ev now mt pm es c))) = {}"
proof (induction es arbitrary: c)
  case Nil
  then show ?case by simp
next
  case (Cons e es)
  have sub: "set (map m_pDcb (fst (evict_scan w ev now mt pm es k))) \<subseteq> set (map m_pDcb es)"
    "set (fst (snd (evict_scan w ev now mt pm es k))) \<subseteq> set (map m_pDcb es)" for k
    using evict_scan_partition [of w ev now mt pm es k] by auto
  from Cons.prems have d: "distinct (map m_pDcb es)" and n: "m_pDcb e \<notin> set (map m_pDcb es)"
    by simp_all
  from Cons.IH [OF d] sub n show ?case
    by (auto simp: Let_def; blast)
qed

lemma close_pooled_dcb_effect:
  "m_evicting w \<Longrightarrow>
   \<exists>w'. close_pooled_dcb w d = Some w' \<and> m_evicting w' \<and> m_dcbs w' = insert d (m_dcbs w) \<and>
     m_persistent_entries_by_server w' = m_persistent_entries_by_server w \<and>
     server_store w' = server_store w \<and> m_zombies w' = m_zombies w @ [d] \<and>
     (\<forall>x. x \<noteq> d \<longrightarrow> dcb_store w' x = dcb_store w x) \<and>
     \<not> b_open (dcb_store w' d) \<and>
     b_dcb (dcb_store w' d) = b_dcb (disable_events_and_shutdown (dcb_store w d))"
  by (simp add: close_pooled_dcb_def DCB_close_evicting_def update_dcb_def)

lemma close_pooled_dcbs_effect:
  "m_evicting w \<Longrightarrow>
   \<exists>w'. close_pooled_dcbs w ds = Some w' \<and> m_evicting w' \<and> m_dcbs w' = set ds \<union> m_dcbs w \<and>
     m_persistent_entries_by_server w' = m_persistent_entries_by_server w \<and>
     server_store w' = server_store w \<and> m_zombies w' = m_zombies w @ ds \<and>
     (\<forall>x. x \<notin> set ds \<longrightarrow> dcb_store w' x = dcb_store w x) \<and>
     (\<forall>x \<in> set ds. \<not> b_open (dcb_store w' x))"
proof (induction ds arbitrary: w)
  case Nil
  then show ?case by simp
next
  case (Cons d ds)
  from close_pooled_dcb_effect [OF Cons.prems, of d] obtain w1 where
    w1: "close_pooled_dcb w d = Some w1" "m_evicting w1" "m_dcbs w1 = insert d (m_dcbs w)"
     "m_persistent_entries_by_server w1 = m_persistent_entries_by_server w"
     "server_store w1 = server_store w" "m_zombies w1 = m_zombies w @ [d]"
     "\<forall>x. x \<noteq> d \<longrightarrow> dcb_store w1 x = dcb_store w x" "\<not> b_open (dcb_store w1 d)"
    by blast
  from Cons.IH [OF w1(2)] obtain w' where
    w': "close_pooled_dcbs w1 ds = Some w'" "m_evicting w'" "m_dcbs w' = set ds \<union> m_dcbs w1"
     "m_persistent_entries_by_server w' = m_persistent_entries_by_server w1"
     "server_store w' = server_store w1" "m_zombies w' = m_zombies w1 @ ds"
     "\<forall>x. x \<notin> set ds \<longrightarrow> dcb_store w' x = dcb_store w1 x"
     "\<forall>x \<in> set ds. \<not> b_open (dcb_store w' x)"
    by blast
  from w1 w' show ?case by auto
qed


lemma update_dcb_fields [simp]:
  "m_dcbs (update_dcb d f w) = m_dcbs w"
  "m_persistent_entries_by_server (update_dcb d f w) = m_persistent_entries_by_server w"
  "m_evicting (update_dcb d f w) = m_evicting w"
  "m_zombies (update_dcb d f w) = m_zombies w"
  "server_store (update_dcb d f w) = server_store w"
  "dcb_store (update_dcb d f w) = (dcb_store w)(d := f (dcb_store w d))"
  by (simp_all add: update_dcb_def)

lemma update_server_fields [simp]:
  "m_dcbs (update_server s g w) = m_dcbs w"
  "m_persistent_entries_by_server (update_server s g w) = m_persistent_entries_by_server w"
  "m_evicting (update_server s g w) = m_evicting w"
  "m_zombies (update_server s g w) = m_zombies w"
  "dcb_store (update_server s g w) = dcb_store w"
  "server_store (update_server s g w) = (server_store w)(s := g (server_store w s))"
  by (simp_all add: update_server_def)

lemma set_entries_fields [simp]:
  "m_dcbs (set_entries s es w) = m_dcbs w"
  "m_persistent_entries_by_server (set_entries s es w) = (m_persistent_entries_by_server w)(s := es)"
  "m_evicting (set_entries s es w) = m_evicting w"
  "m_zombies (set_entries s es w) = m_zombies w"
  "dcb_store (set_entries s es w) = dcb_store w"
  "server_store (set_entries s es w) = server_store w"
  by (simp_all add: set_entries_def)

definition pooled :: "RoutingWorker \<Rightarrow> nat \<Rightarrow> nat set" where
  "pooled w s = m_pDcb ` set (m_persistent_entries_by_server w s)"

definition pool_inv :: "RoutingWorker \<Rightarrow> bool" where
  "pool_inv w =
     ((\<forall>s. distinct (map m_pDcb (m_persistent_entries_by_server w s))) \<and>
      (\<forall>s s'. s \<noteq> s' \<longrightarrow> pooled w s \<inter> pooled w s' = {}) \<and>
      (\<forall>s. pooled w s \<inter> m_dcbs w = {}))"

lemma evict_dcbs_effect:
  "\<exists>w1 count. evict_dcbs rb now w s ev = Some (w1, count) \<and>
     \<not> m_evicting w1 \<and>
     count = int (length (m_persistent_entries_by_server w1 s)) \<and>
     (\<forall>s'. s' \<noteq> s \<longrightarrow> m_persistent_entries_by_server w1 s' = m_persistent_entries_by_server w s') \<and>
     set (m_persistent_entries_by_server w1 s) \<subseteq> set (m_persistent_entries_by_server w s) \<and>
     (distinct (map m_pDcb (m_persistent_entries_by_server w s)) \<longrightarrow>
        distinct (map m_pDcb (m_persistent_entries_by_server w1 s)) \<and>
        pooled w1 s \<inter> (m_dcbs w1 - m_dcbs w) = {}) \<and>
     m_dcbs w \<subseteq> m_dcbs w1 \<and> m_dcbs w1 \<subseteq> pooled w s \<union> m_dcbs w \<and>
     pooled w s - pooled w1 s \<subseteq> m_dcbs w1 \<and>
     (\<forall>x \<in> pooled w s - pooled w1 s. \<not> b_open (dcb_store w1 x)) \<and>
     (\<forall>x. persistpoolmax (server_store w1 x) = persistpoolmax (server_store w x))"
proof -
  define w1 where "w1 = w\<lparr>m_evicting := True\<rparr>"
  define srv where "srv = server_store w1 s"
  define ev' where "ev' = (if srv_status srv AND rb = 0 then Evict_ALL else ev)"
  define es where "es = m_persistent_entries_by_server w1 s"
  define r where "r = evict_scan w1 ev' now (persistmaxtime srv) (persistpoolmax srv) es 0"
  define kept where "kept = fst r"
  define evicted where "evicted = fst (snd r)"
  define cnt where "cnt = snd (snd r)"
  define w2 where "w2 = update_server s
                 (\<lambda>sv. sv\<lparr>n_persistent := n_persistent sv - int (length evicted),
                          persistmax := max (persistmax sv) cnt\<rparr>)
                 (set_entries s kept w1)"
  have es: "es = m_persistent_entries_by_server w s" by (simp add: es_def w1_def)
  have ev: "m_evicting w2" by (simp add: w2_def w1_def)
  from close_pooled_dcbs_effect [OF ev, of evicted] obtain w3 where
    w3: "close_pooled_dcbs w2 evicted = Some w3" "m_evicting w3"
      "m_dcbs w3 = set evicted \<union> m_dcbs w2"
      "m_persistent_entries_by_server w3 = m_persistent_entries_by_server w2"
      "server_store w3 = server_store w2"
      "\<forall>x \<in> set evicted. \<not> b_open (dcb_store w3 x)"
    by blast
  define w4 where "w4 = w3\<lparr>m_evicting := False\<rparr>"
  have res: "evict_dcbs rb now w s ev = Some (w4, cnt)"
    using w3(1)
    unfolding evict_dcbs_def Let_def w4_def cnt_def evicted_def kept_def r_def es_def ev'_def
      srv_def w1_def w2_def
    by simp
  have cnt: "cnt = int (length kept)"
    using evict_scan_count [of w1 ev' now "persistmaxtime srv" "persistpoolmax srv" es 0]
    by (simp add: cnt_def kept_def r_def)
  have part: "m_pDcb ` set kept \<union> set evicted = m_pDcb ` set es"
    using evict_scan_partition [of w1 ev' now "persistmaxtime srv" "persistpoolmax srv" es 0]
    by (simp add: evicted_def kept_def r_def)
  have keptsub: "set kept \<subseteq> set es"
    using evict_scan_kept [of w1 ev' now "persistmaxtime srv" "persistpoolmax srv" es 0]
    by (simp add: kept_def r_def)
  have dist: "distinct (map m_pDcb es) \<Longrightarrow>
      distinct (map m_pDcb kept) \<and> m_pDcb ` set kept \<inter> set evicted = {}"
    using evict_scan_distinct [of es w1 ev' now "persistmaxtime srv" "persistpoolmax srv" 0]
    by (simp add: evicted_def kept_def r_def)
  have ent: "m_persistent_entries_by_server w4 = (m_persistent_entries_by_server w)(s := kept)"
    using w3(4) by (simp add: w4_def w2_def w1_def)
  have dcbs: "m_dcbs w4 = set evicted \<union> m_dcbs w"
    using w3(3) by (simp add: w4_def w2_def w1_def)
  have p1: "pooled w4 s = m_pDcb ` set kept"
    using ent by (simp add: pooled_def)
  have p0: "pooled w s = m_pDcb ` set es"
    by (simp add: pooled_def es)
  have a: "\<not> m_evicting w4" by (simp add: w4_def)
  have b: "cnt = int (length (m_persistent_entries_by_server w4 s))"
    using cnt ent by simp
  have c: "\<forall>s'. s' \<noteq> s \<longrightarrow> m_persistent_entries_by_server w4 s' = m_persistent_entries_by_server w s'"
    using ent by simp
  have d: "set (m_persistent_entries_by_server w4 s) \<subseteq> set (m_persistent_entries_by_server w s)"
    using keptsub ent es by simp
  have e: "distinct (map m_pDcb (m_persistent_entries_by_server w s)) \<longrightarrow>
        distinct (map m_pDcb (m_persistent_entries_by_server w4 s)) \<and>
        pooled w4 s \<inter> (m_dcbs w4 - m_dcbs w) = {}"
    using dist ent es p1 dcbs by auto
  have f: "m_dcbs w \<subseteq> m_dcbs w4" "m_dcbs w4 \<subseteq> pooled w s \<union> m_dcbs w"
    "pooled w s - pooled w4 s \<subseteq> m_dcbs w4"
    using part p0 p1 dcbs by auto
  have h: "\<forall>x \<in> pooled w s - pooled w4 s. \<not> b_open (dcb_store w4 x)"
    using w3(6) part p0 p1 by (auto simp: w4_def)
  have i: "\<forall>x. persistpoolmax (server_store w4 x) = persistpoolmax (server_store w x)"
    using w3(5) by (simp add: w4_def w2_def w1_def)
  from res a b c d e f h i show ?thesis by blast
qed


lemma evict_dcbs_inv:
  assumes inv: "pool_inv w" and ev: "evict_dcbs rb now w s ev = Some (w1, n)"
  shows "pool_inv w1"
proof -
  from evict_dcbs_effect [of rb now w s ev] ev have
    oth: "\<forall>s'. s' \<noteq> s \<longrightarrow> m_persistent_entries_by_server w1 s' = m_persistent_entries_by_server w s'"
    and sub: "set (m_persistent_entries_by_server w1 s) \<subseteq> set (m_persistent_entries_by_server w s)"
    and dis: "distinct (map m_pDcb (m_persistent_entries_by_server w s)) \<longrightarrow>
        distinct (map m_pDcb (m_persistent_entries_by_server w1 s)) \<and>
        pooled w1 s \<inter> (m_dcbs w1 - m_dcbs w) = {}"
    and act: "m_dcbs w1 \<subseteq> pooled w s \<union> m_dcbs w"
    by auto
  from inv have d0: "\<And>x. distinct (map m_pDcb (m_persistent_entries_by_server w x))"
    and c0: "\<And>x y. x \<noteq> y \<Longrightarrow> pooled w x \<inter> pooled w y = {}"
    and a0: "\<And>x. pooled w x \<inter> m_dcbs w = {}"
    by (auto simp: pool_inv_def)
  have ps: "pooled w1 s \<subseteq> pooled w s" using sub by (auto simp: pooled_def)
  have po: "\<And>x. x \<noteq> s \<Longrightarrow> pooled w1 x = pooled w x" using oth by (simp add: pooled_def)
  have d1: "distinct (map m_pDcb (m_persistent_entries_by_server w1 x))" for x
    using d0 [of x] d0 [of s] dis oth by (cases "x = s") auto
  have c1: "pooled w1 x \<inter> pooled w1 y = {}" if "x \<noteq> y" for x y
  proof -
    have "pooled w1 x \<subseteq> pooled w x" using ps po [of x] by (cases "x = s") auto
    moreover have "pooled w1 y \<subseteq> pooled w y" using ps po [of y] by (cases "y = s") auto
    ultimately show ?thesis using c0 [OF that] by blast
  qed
  have a1: "pooled w1 x \<inter> m_dcbs w1 = {}" for x
  proof (cases "x = s")
    case True
    from dis d0 [of s] have "pooled w1 s \<inter> (m_dcbs w1 - m_dcbs w) = {}" by simp
    moreover have "pooled w1 s \<inter> m_dcbs w = {}" using ps a0 [of s] by blast
    ultimately show ?thesis using True by blast
  next
    case False
    with po have "pooled w1 x = pooled w x" by simp
    with act a0 [of x] c0 [OF False] show ?thesis by blast
  qed
  from d1 c1 a1 show ?thesis by (simp add: pool_inv_def)
qed

lemma can_be_destroyed_cases:
  assumes "can_be_destroyed rb now w d = Some (w', rv)"
  obtains (kept) "rv" "w' = w"
  | (full) w1 n where "rv" "evict_dcbs rb now w (b_server (dcb_store w d)) Evict_EXPIRED = Some (w1, n)"
      "w' = w1"
  | (parked) w1 n where "\<not> rv" "\<not> m_evicting w"
      "dcb_state (b_dcb (dcb_store w d)) = POLLING"
      "established (b_protocol (dcb_store w d))"
      "\<exists>ses. dcb_session (b_dcb (dcb_store w d)) = Some ses \<and> session_valid_for_pool ses"
      "to_int32 (persistpoolmax (server_store w (b_server (dcb_store w d)))) > 0"
      "server_is_running rb (server_store w (b_server (dcb_store w d)))"
      "\<not> dcb_hanged_up (b_dcb (dcb_store w d))"
      "evict_dcbs rb now w (b_server (dcb_store w d)) Evict_EXPIRED = Some (w1, n)"
      "n < to_int32 (persistpoolmax (server_store w (b_server (dcb_store w d))))"
      "d \<in> m_dcbs w1"
      "m_persistent_entries_by_server w' =
         (m_persistent_entries_by_server w1)(b_server (dcb_store w d) :=
            m_persistent_entries_by_server w1 (b_server (dcb_store w d)) @ [\<lparr>m_created = now, m_pDcb = d\<rparr>])"
      "m_dcbs w' = m_dcbs w1 - {d}"
      "b_handler (dcb_store w' d) = Pool_handler"
  using assms
  unfolding can_be_destroyed_def Let_def
  by (auto split: if_splits option.splits simp: add_limited_def)


lemma pool_inv_eq:
  "m_persistent_entries_by_server a = m_persistent_entries_by_server b \<Longrightarrow> m_dcbs a = m_dcbs b \<Longrightarrow>
   pool_inv a = pool_inv b"
  by (simp add: pool_inv_def pooled_def)

lemma pool_inv_tail:
  assumes "pool_inv (set_entries pS (e # es) w)"
  shows "pool_inv (set_entries pS es w)"
    and "\<forall>s. m_pDcb e \<notin> pooled (set_entries pS es w) s"
    and "m_pDcb e \<notin> m_dcbs w"
proof -
  from assms have d: "\<And>x. distinct (map m_pDcb (((m_persistent_entries_by_server w)(pS := e # es)) x))"
    and c: "\<And>x y. x \<noteq> y \<Longrightarrow>
          m_pDcb ` set (((m_persistent_entries_by_server w)(pS := e # es)) x) \<inter>
          m_pDcb ` set (((m_persistent_entries_by_server w)(pS := e # es)) y) = {}"
    and a: "\<And>x. m_pDcb ` set (((m_persistent_entries_by_server w)(pS := e # es)) x) \<inter> m_dcbs w = {}"
    by (auto simp: pool_inv_def pooled_def)
  have d': "distinct (map m_pDcb (((m_persistent_entries_by_server w)(pS := es)) x))" for x
    using d [of x] by (cases "x = pS") auto
  have sub: "m_pDcb ` set (((m_persistent_entries_by_server w)(pS := es)) x)
               \<subseteq> m_pDcb ` set (((m_persistent_entries_by_server w)(pS := e # es)) x)" for x
    by (cases "x = pS") auto
  have c': "m_pDcb ` set (((m_persistent_entries_by_server w)(pS := es)) x) \<inter>
            m_pDcb ` set (((m_persistent_entries_by_server w)(pS := es)) y) = {}" if "x \<noteq> y" for x y
    using c [OF that] sub [of x] sub [of y] by blast
  have a': "m_pDcb ` set (((m_persistent_entries_by_server w)(pS := es)) x) \<inter> m_dcbs w = {}" for x
    using a [of x] sub [of x] by blast
  from d' c' a' show "pool_inv (set_entries pS es w)"
    by (simp add: pool_inv_def pooled_def)
  show "\<forall>s. m_pDcb e \<notin> pooled (set_entries pS es w) s"
  proof
    fix s
    show "m_pDcb e \<notin> pooled (set_entries pS es w) s"
    proof (cases "s = pS")
      case True
      with d [of pS] show ?thesis by (auto simp: pooled_def)
    next
      case False
      with c [of pS s] show ?thesis by (auto simp: pooled_def)
    qed
  qed
  from a [of pS] show "m_pDcb e \<notin> m_dcbs w" by auto
qed

lemma take_from_pool_inv:
  "pool_inv (set_entries pS es w) \<Longrightarrow> take_from_pool ext w pS ses up es = Some (w', r) \<Longrightarrow>
   pool_inv w' \<and> m_dcbs w' = m_dcbs w \<and>
   (\<forall>d. r = Some d \<longrightarrow> (\<forall>s. d \<notin> pooled w' s) \<and> d \<in> m_pDcb ` set es \<and>
      b_handler (dcb_store w' d) = Protocol_handler)"
proof (induction es arbitrary: w)
  case Nil
  then show ?case by auto
next
  case (Cons e es)
  define d where "d = m_pDcb e"
  define w1 where "w1 = update_dcb d
                 (\<lambda>b. link_backend_connection ses (b\<lparr>b_handler := Protocol_handler\<rparr>))
                 (update_server pS (\<lambda>sv. sv\<lparr>n_persistent := n_persistent sv - 1\<rparr>)
                    (set_entries pS es w))"
  note tl = pool_inv_tail [OF Cons.prems(1)]
  have w1e: "m_persistent_entries_by_server w1 = m_persistent_entries_by_server (set_entries pS es w)"
    and w1d: "m_dcbs w1 = m_dcbs w"
    by (simp_all add: w1_def)
  from Cons.prems(2) obtain rr where
    rr: "reuse_connection ext (b_protocol (dcb_store w1 d)) (b_dcb (dcb_store w1 d)) up = Some rr"
    by (auto simp: Let_def w1_def d_def split: option.splits)
  define w2 where "w2 = update_dcb d (\<lambda>b. b\<lparr>b_protocol := fst rr, b_dcb := fst (snd rr)\<rparr>) w1"
  have w2e: "m_persistent_entries_by_server w2 = m_persistent_entries_by_server (set_entries pS es w)"
    and w2d: "m_dcbs w2 = m_dcbs w"
    by (simp_all add: w2_def w1e w1d)
  have h2: "b_handler (dcb_store w2 d) = Protocol_handler"
    by (simp add: w2_def w1_def link_backend_connection_def)
  show ?case
  proof (cases "snd (snd rr)")
    case True
    with Cons.prems(2) rr have res: "w' = update_server pS (\<lambda>sv. sv\<lparr>n_from_pool := n_from_pool sv + 1\<rparr>) w2"
      "r = Some d"
      by (auto simp: Let_def w1_def w2_def d_def)
    have "pool_inv w' = pool_inv (set_entries pS es w)"
      by (rule pool_inv_eq) (simp_all add: res w2e w2d)
    moreover have "pooled w' s = pooled (set_entries pS es w) s" for s
      by (simp add: pooled_def res w2e)
    ultimately show ?thesis using tl res w2d h2 by (auto simp: d_def)
  next
    case False
    define w3 where "w3 = ((update_dcb d (\<lambda>b. b\<lparr>b_open := False\<rparr>)
                (update_dcb d disable_events_and_shutdown (w2\<lparr>m_evicting := True\<rparr>)))
                  \<lparr>m_zombies := m_zombies w2 @ [d]\<rparr>)\<lparr>m_evicting := False\<rparr>"
    from False Cons.prems(2) rr have rec: "take_from_pool ext w3 pS ses up es = Some (w', r)"
      by (simp add: Let_def w1_def w2_def d_def w3_def DCB_close_evicting_def)
    have "pool_inv (set_entries pS es w3) = pool_inv (set_entries pS es w)"
      by (rule pool_inv_eq) (simp_all add: w3_def w2e w2d)
    with tl(1) have "pool_inv (set_entries pS es w3)" by simp
    from Cons.IH [OF this rec] have "pool_inv w'" "m_dcbs w' = m_dcbs w3"
      "\<forall>d. r = Some d \<longrightarrow> (\<forall>s. d \<notin> pooled w' s) \<and> d \<in> m_pDcb ` set es \<and>
          b_handler (dcb_store w' d) = Protocol_handler"
      by auto
    moreover have "m_dcbs w3 = m_dcbs w" by (simp add: w3_def w2d)
    ultimately show ?thesis by auto
  qed
qed

lemma get_backend_dcb_from_pool_inv:
  assumes inv: "pool_inv w"
    and get: "get_backend_dcb_from_pool ext rb now w pS ses up = Some (w', r)"
  shows "pool_inv w' \<and> (\<forall>d. r = Some d \<longrightarrow> d \<in> m_dcbs w' \<and> (\<forall>s. d \<notin> pooled w' s))"
proof -
  from evict_dcbs_effect [of rb now w pS Evict_EXPIRED] obtain w1 n where
    ev: "evict_dcbs rb now w pS Evict_EXPIRED = Some (w1, n)" by blast
  from evict_dcbs_inv [OF inv ev] have inv1: "pool_inv w1" .
  from get ev obtain w2 where
    tk: "take_from_pool ext w1 pS ses up (m_persistent_entries_by_server w1 pS) = Some (w2, r)"
    and w': "w' = (case r of None \<Rightarrow> w2 | Some d \<Rightarrow> w2\<lparr>m_dcbs := insert d (m_dcbs w2)\<rparr>)"
    by (auto simp: get_backend_dcb_from_pool_def split: option.splits)
  have "pool_inv (set_entries pS (m_persistent_entries_by_server w1 pS) w1) = pool_inv w1"
    by (rule pool_inv_eq) simp_all
  with inv1 have "pool_inv (set_entries pS (m_persistent_entries_by_server w1 pS) w1)" by simp
  from take_from_pool_inv [OF this tk] have inv2: "pool_inv w2"
    and tk2: "\<forall>d. r = Some d \<longrightarrow> (\<forall>s. d \<notin> pooled w2 s)" by auto
  show ?thesis
  proof (cases r)
    case None
    with w' inv2 show ?thesis by simp
  next
    case (Some d)
    with w' have w'': "w' = w2\<lparr>m_dcbs := insert d (m_dcbs w2)\<rparr>" by simp
    from tk2 Some have np: "\<forall>s. d \<notin> pooled w2 s" by simp
    have "pool_inv w'"
      using inv2 np unfolding pool_inv_def pooled_def w'' by auto
    moreover have "\<forall>s. d \<notin> pooled w' s" using np by (simp add: pooled_def w'')
    ultimately show ?thesis using Some w'' by simp
  qed
qed

lemma remove_first:
  "distinct (map f es) \<Longrightarrow> x \<in> f ` set es \<Longrightarrow>
   f ` set (takeWhile (\<lambda>e. f e \<noteq> x) es @ tl (dropWhile (\<lambda>e. f e \<noteq> x) es)) = f ` set es - {x} \<and>
   distinct (map f (takeWhile (\<lambda>e. f e \<noteq> x) es @ tl (dropWhile (\<lambda>e. f e \<noteq> x) es)))"
proof (induction es)
  case Nil
  then show ?case by simp
next
  case (Cons e es)
  show ?case
  proof (cases "f e = x")
    case True
    with Cons.prems show ?thesis by auto
  next
    case False
    with Cons.prems have "distinct (map f es)" "x \<in> f ` set es" "f e \<notin> f ` set es" by auto
    from Cons.IH [OF this(1,2)] this(3) False show ?thesis by auto
  qed
qed

lemma evict_dcb_inv:
  assumes inv: "pool_inv w" and ev: "evict_dcb w d = Some w'"
  shows "pool_inv w' \<and> d \<in> m_dcbs w' \<and> (\<forall>s. d \<notin> pooled w' s) \<and> \<not> b_open (dcb_store w' d)"
proof -
  define s where "s = b_server (dcb_store w d)"
  define es where "es = m_persistent_entries_by_server w s"
  define es' where "es' = takeWhile (\<lambda>e. m_pDcb e \<noteq> d) es @ tl (dropWhile (\<lambda>e. m_pDcb e \<noteq> d) es)"
  define w1 where "w1 = set_entries s es' (w\<lparr>m_evicting := True\<rparr>)"
  from ev have mem: "d \<in> m_pDcb ` set es"
    by (auto simp: evict_dcb_def Let_def s_def es_def split: if_splits)
  have e1: "m_evicting w1" by (simp add: w1_def)
  from close_pooled_dcb_effect [OF e1, of d] obtain w2 where
    w2: "close_pooled_dcb w1 d = Some w2" "m_dcbs w2 = insert d (m_dcbs w1)"
      "m_persistent_entries_by_server w2 = m_persistent_entries_by_server w1"
      "\<not> b_open (dcb_store w2 d)"
    by blast
  from ev mem w2(1) have w': "w' = w2\<lparr>m_evicting := False\<rparr>"
    by (simp add: evict_dcb_def Let_def s_def es_def es'_def w1_def)
  from inv have d0: "\<And>x. distinct (map m_pDcb (m_persistent_entries_by_server w x))"
    and c0: "\<And>x y. x \<noteq> y \<Longrightarrow> pooled w x \<inter> pooled w y = {}"
    and a0: "\<And>x. pooled w x \<inter> m_dcbs w = {}"
    by (auto simp: pool_inv_def)
  from remove_first [of m_pDcb es d] d0 [of s] mem
  have rm: "m_pDcb ` set es' = m_pDcb ` set es - {d}" "distinct (map m_pDcb es')"
    by (simp_all add: es_def es'_def)
  have ent: "m_persistent_entries_by_server w' = (m_persistent_entries_by_server w)(s := es')"
    by (simp add: w' w2(3) w1_def)
  have act: "m_dcbs w' = insert d (m_dcbs w)"
    by (simp add: w' w2(2) w1_def)
  have ps: "pooled w' s = pooled w s - {d}"
    using rm(1) by (simp add: pooled_def ent es_def)
  have po: "pooled w' x = pooled w x" if "x \<noteq> s" for x
    using that by (simp add: pooled_def ent)
  have dp: "d \<in> pooled w s" using mem by (simp add: pooled_def es_def)
  have d1: "distinct (map m_pDcb (m_persistent_entries_by_server w' x))" for x
    using d0 [of x] rm(2) by (cases "x = s") (simp_all add: ent)
  have sub: "pooled w' x \<subseteq> pooled w x" for x
    using ps po [of x] by (cases "x = s") auto
  have c1: "pooled w' x \<inter> pooled w' y = {}" if "x \<noteq> y" for x y
    using c0 [OF that] sub [of x] sub [of y] by blast
  have nd: "d \<notin> pooled w' x" for x
  proof (cases "x = s")
    case True
    with ps show ?thesis by simp
  next
    case False
    with c0 [of x s] dp po [of x] show ?thesis by auto
  qed
  have a1: "pooled w' x \<inter> m_dcbs w' = {}" for x
    using a0 [of x] sub [of x] nd [of x] act by auto
  from d1 c1 a1 have "pool_inv w'" by (simp add: pool_inv_def)
  moreover have "\<not> b_open (dcb_store w' d)" using w2(4) by (simp add: w')
  ultimately show ?thesis using act nd by simp
qed


lemma evict_dcbs_all_inv:
  "pool_inv w \<Longrightarrow> evict_dcbs_all rb now w ss ev = Some w' \<Longrightarrow> pool_inv w'"
proof (induction ss arbitrary: w)
  case Nil
  then show ?case by simp
next
  case (Cons s ss)
  from Cons.prems(2) obtain r where r: "evict_dcbs rb now w s ev = Some r"
    and rest: "evict_dcbs_all rb now (fst r) ss ev = Some w'"
    by (auto split: option.splits)
  from evict_dcbs_inv [OF Cons.prems(1), of rb now s ev "fst r" "snd r"] r
  have "pool_inv (fst r)" by simp
  from Cons.IH [OF this rest] show ?case .
qed

definition example_backend :: BackendDCB where
  "example_backend = \<lparr>b_dcb = example_dcb, b_protocol = example_conn, b_server = 0,
     b_handler = Protocol_handler, b_open = True\<rparr>"

definition example_worker :: RoutingWorker where
  "example_worker = \<lparr>m_dcbs = {3}, m_persistent_entries_by_server = (\<lambda>s. []),
     m_evicting = False, m_zombies = [], dcb_store = (\<lambda>d. example_backend),
     server_store = (\<lambda>s. example_server)\<rparr>"

definition example_pooled_worker :: RoutingWorker where
  "example_pooled_worker = \<lparr>m_dcbs = {5},
     m_persistent_entries_by_server = (\<lambda>s. if s = 0 then [\<lparr>m_created = 100, m_pDcb = 3\<rparr>] else []),
     m_evicting = False, m_zombies = [], dcb_store = (\<lambda>d. example_backend),
     server_store = (\<lambda>s. example_server)\<rparr>"

text \<open>
  Claim C2. A backend connection offered to the pool on the destruction path is
  accepted (\<open>can_be_destroyed\<close> answers false, the connection is appended to the pool
  of its server with the pool handler installed, and leaves the active set) only if
  \<open>pool_max > 0\<close>, the server is running, the DCB is in polling state, the protocol is
  established, the session is valid for pooling, the connection has not been hung up,
  and the number of entries left for that server by the expiry sweep is strictly less
  than \<open>pool_max\<close>. When it answers true nothing has been added to the pool. The
  configured \<open>persistpoolmax\<close> is a count, hence not negative.
\<close>

theorem C2_offer:
  assumes offered: "can_be_destroyed rb now w d = Some (w', rv)"
    and nonneg: "0 \<le> persistpoolmax (server_store w (b_server (dcb_store w d)))"
  shows "(\<not> rv \<longrightarrow>
           0 < persistpoolmax (server_store w (b_server (dcb_store w d))) \<and>
           server_is_running rb (server_store w (b_server (dcb_store w d))) \<and>
           dcb_state (b_dcb (dcb_store w d)) = POLLING \<and>
           established (b_protocol (dcb_store w d)) \<and>
           (\<exists>ses. dcb_session (b_dcb (dcb_store w d)) = Some ses \<and> session_valid_for_pool ses) \<and>
           \<not> dcb_hanged_up (b_dcb (dcb_store w d)) \<and>
           (\<exists>w1 n. evict_dcbs rb now w (b_server (dcb_store w d)) Evict_EXPIRED = Some (w1, n) \<and>
              n = int (length (m_persistent_entries_by_server w1 (b_server (dcb_store w d)))) \<and>
              n < persistpoolmax (server_store w (b_server (dcb_store w d))) \<and>
              m_persistent_entries_by_server w' (b_server (dcb_store w d)) =
                m_persistent_entries_by_server w1 (b_server (dcb_store w d))
                  @ [\<lparr>m_created = now, m_pDcb = d\<rparr>]) \<and>
           b_handler (dcb_store w' d) = Pool_handler \<and>
           d \<notin> m_dcbs w') \<and>
         (rv \<longrightarrow> (\<forall>s. set (m_persistent_entries_by_server w' s)
                        \<subseteq> set (m_persistent_entries_by_server w s)))"
  using offered
proof (cases rule: can_be_destroyed_cases)
  case kept
  then show ?thesis by simp
next
  case (full w1 n)
  from evict_dcbs_effect [of rb now w "b_server (dcb_store w d)" Evict_EXPIRED] full(2)
  have "\<forall>s'. s' \<noteq> b_server (dcb_store w d) \<longrightarrow>
          m_persistent_entries_by_server w1 s' = m_persistent_entries_by_server w s'"
    and "set (m_persistent_entries_by_server w1 (b_server (dcb_store w d)))
           \<subseteq> set (m_persistent_entries_by_server w (b_server (dcb_store w d)))"
    by auto
  then have "set (m_persistent_entries_by_server w1 s) \<subseteq> set (m_persistent_entries_by_server w s)" for s
    by (cases "s = b_server (dcb_store w d)") auto
  with full show ?thesis by simp
next
  case (parked w1 n)
  from to_int32_pos [OF nonneg parked(6)]
  have pm: "0 < persistpoolmax (server_store w (b_server (dcb_store w d)))"
    "to_int32 (persistpoolmax (server_store w (b_server (dcb_store w d))))
       \<le> persistpoolmax (server_store w (b_server (dcb_store w d)))"
    by simp_all
  from evict_dcbs_effect [of rb now w "b_server (dcb_store w d)" Evict_EXPIRED] parked(9)
  have n: "n = int (length (m_persistent_entries_by_server w1 (b_server (dcb_store w d))))"
    by auto
  from parked(10) pm(2) have lt: "n < persistpoolmax (server_store w (b_server (dcb_store w d)))"
    by simp
  from parked pm(1) n lt show ?thesis by simp
qed

text \<open>
  The claim at a worker with one established, polling connection and an empty pool.
\<close>

theorem C2_offer_witness:
  "can_be_destroyed 1 100 example_worker 3 =
     Some (fst (the (can_be_destroyed 1 100 example_worker 3)), False) \<and>
   0 \<le> persistpoolmax (server_store example_worker (b_server (dcb_store example_worker 3))) \<and>
   0 < persistpoolmax (server_store example_worker (b_server (dcb_store example_worker 3))) \<and>
   server_is_running 1 (server_store example_worker (b_server (dcb_store example_worker 3))) \<and>
   established (b_protocol (dcb_store example_worker 3)) \<and>
   m_persistent_entries_by_server (fst (the (can_be_destroyed 1 100 example_worker 3))) 0 =
     [\<lparr>m_created = 100, m_pDcb = 3\<rparr>] \<and>
   3 \<notin> m_dcbs (fst (the (can_be_destroyed 1 100 example_worker 3)))"
proof -
  have ev: "evict_dcbs 1 100 example_worker 0 Evict_EXPIRED = Some (example_worker, 0)"
    by (simp add: evict_dcbs_def example_worker_def example_server_def Let_def
        update_server_def set_entries_def fun_upd_idem)
  have f: "\<not> m_evicting example_worker" "dcb_store example_worker 3 = example_backend"
    "server_store example_worker 0 = example_server" "3 \<in> m_dcbs example_worker"
    by (simp_all add: example_worker_def)
  have h: "can_be_destroyed 1 100 example_worker 3 =
     Some (fst (the (can_be_destroyed 1 100 example_worker 3)), False)"
    by (simp add: can_be_destroyed_def Let_def f ev
        example_backend_def example_dcb_def example_conn_def
        example_session_def example_server_def established_def session_valid_for_pool_def
        server_is_running_def to_int32_def add_limited_def)
  have n: "0 \<le> persistpoolmax (server_store example_worker (b_server (dcb_store example_worker 3)))"
    by (simp add: example_worker_def example_server_def)
  have b: "b_server (dcb_store example_worker 3) = 0"
    by (simp add: example_worker_def example_backend_def)
  from C2_offer [OF h n] ev show ?thesis
    using h n unfolding b by (auto simp: example_worker_def)
qed


















text \<open>
  The pooled connections and the worker's active DCBs are disjoint: the
  invariant \<open>pool_inv\<close> (which also says that no DCB is pooled twice) is kept by
  \<open>can_be_destroyed\<close>, by \<open>evict_dcbs\<close> for one server and for all, by \<open>evict_dcb\<close>
  and by \<open>get_backend_dcb_from_pool\<close>. Adding a connection to the pool removes its DCB
  from the active set; the evictions go through \<open>close_pooled_dcb\<close>, which inserts the
  DCB into the active set, then disables its events and shuts it down when it is
  polling, then closes it, so that every evicted DCB is in the active set and closed.
\<close>

lemma pool_disjoint_kept:
  assumes inv: "pool_inv w"
  shows "(\<forall>s. pooled w s \<inter> m_dcbs w = {}) \<and>
    (can_be_destroyed rb now w d = Some (w1, rv) \<longrightarrow>
       pool_inv w1 \<and> (\<not> rv \<longrightarrow> d \<in> pooled w1 (b_server (dcb_store w d)) \<and> d \<notin> m_dcbs w1)) \<and>
    (evict_dcbs rb now w s ev = Some (w2, n) \<longrightarrow>
       pool_inv w2 \<and> pooled w s - pooled w2 s \<subseteq> m_dcbs w2 \<and>
       (\<forall>x \<in> pooled w s - pooled w2 s. \<not> b_open (dcb_store w2 x))) \<and>
    (evict_dcbs_all rb now w ss ev = Some w3 \<longrightarrow> pool_inv w3) \<and>
    (evict_dcb w d = Some w4 \<longrightarrow>
       pool_inv w4 \<and> d \<in> m_dcbs w4 \<and> (\<forall>s. d \<notin> pooled w4 s) \<and> \<not> b_open (dcb_store w4 d)) \<and>
    (get_backend_dcb_from_pool ext rb now w s ses up = Some (w5, r) \<longrightarrow>
       pool_inv w5 \<and> (\<forall>x. r = Some x \<longrightarrow> x \<in> m_dcbs w5 \<and> (\<forall>s. x \<notin> pooled w5 s))) \<and>
    (m_evicting w0 \<longrightarrow>
       close_pooled_dcb w0 d =
         DCB_close_evicting
           (update_dcb d disable_events_and_shutdown (w0\<lparr>m_dcbs := insert d (m_dcbs w0)\<rparr>)) d \<and>
       (\<exists>w6. close_pooled_dcb w0 d = Some w6 \<and> d \<in> m_dcbs w6 \<and> \<not> b_open (dcb_store w6 d) \<and>
          m_zombies w6 = m_zombies w0 @ [d] \<and>
          (dcb_state (b_dcb (dcb_store w0 d)) = POLLING \<longrightarrow>
             dcb_shutdown (b_dcb (dcb_store w6 d)) \<and> \<not> dcb_events_enabled (b_dcb (dcb_store w6 d)))))"
proof -
  from inv have a: "\<forall>s. pooled w s \<inter> m_dcbs w = {}"
    by (simp add: pool_inv_def)
  have b: "pool_inv w1 \<and> (\<not> rv \<longrightarrow> d \<in> pooled w1 (b_server (dcb_store w d)) \<and> d \<notin> m_dcbs w1)"
    if c: "can_be_destroyed rb now w d = Some (w1, rv)"
    using c
  proof (cases rule: can_be_destroyed_cases)
    case kept
    with inv show ?thesis by simp
  next
    case (full v k)
    with evict_dcbs_inv [OF inv full(2)] show ?thesis by simp
  next
    case (parked v k)
    define sv where "sv = b_server (dcb_store w d)"
    from evict_dcbs_inv [OF inv parked(9)] have iv: "pool_inv v" .
    then have d0: "\<And>x. distinct (map m_pDcb (m_persistent_entries_by_server v x))"
      and c0: "\<And>x y. x \<noteq> y \<Longrightarrow> pooled v x \<inter> pooled v y = {}"
      and a0: "\<And>x. pooled v x \<inter> m_dcbs v = {}"
      by (auto simp: pool_inv_def)
    from a0 parked(11) have nd: "d \<notin> pooled v x" for x by auto
    have ps: "pooled w1 sv = insert d (pooled v sv)"
      by (simp add: pooled_def parked(12) sv_def)
    have po: "pooled w1 x = pooled v x" if "x \<noteq> sv" for x
      using that by (simp add: pooled_def parked(12) sv_def)
    have d1: "distinct (map m_pDcb (m_persistent_entries_by_server w1 x))" for x
      using d0 [of x] nd [of sv] by (cases "x = sv") (auto simp: parked(12) sv_def pooled_def)
    have c1: "pooled w1 x \<inter> pooled w1 y = {}" if "x \<noteq> y" for x y
      using c0 [OF that] nd [of x] nd [of y] ps po [of x] po [of y] that
      by (cases "x = sv"; cases "y = sv") auto
    have a1: "pooled w1 x \<inter> m_dcbs w1 = {}" for x
      using a0 [of x] ps po [of x] parked(13) by (cases "x = sv") auto
    from d1 c1 a1 have "pool_inv w1" by (simp add: pool_inv_def)
    with parked(1,13) ps show ?thesis by (simp add: sv_def)
  qed
  have c: "pool_inv w2 \<and> pooled w s - pooled w2 s \<subseteq> m_dcbs w2 \<and>
       (\<forall>x \<in> pooled w s - pooled w2 s. \<not> b_open (dcb_store w2 x))"
    if e: "evict_dcbs rb now w s ev = Some (w2, n)"
    using evict_dcbs_inv [OF inv e] evict_dcbs_effect [of rb now w s ev] e by auto
  have d: "pool_inv w3" if "evict_dcbs_all rb now w ss ev = Some w3"
    using evict_dcbs_all_inv [OF inv that] .
  have e: "pool_inv w4 \<and> d \<in> m_dcbs w4 \<and> (\<forall>s. d \<notin> pooled w4 s) \<and> \<not> b_open (dcb_store w4 d)"
    if "evict_dcb w d = Some w4"
    using evict_dcb_inv [OF inv that] .
  have f: "pool_inv w5 \<and> (\<forall>x. r = Some x \<longrightarrow> x \<in> m_dcbs w5 \<and> (\<forall>s. x \<notin> pooled w5 s))"
    if "get_backend_dcb_from_pool ext rb now w s ses up = Some (w5, r)"
    using get_backend_dcb_from_pool_inv [OF inv that] .
  have g: "close_pooled_dcb w0 d =
         DCB_close_evicting
           (update_dcb d disable_events_and_shutdown (w0\<lparr>m_dcbs := insert d (m_dcbs w0)\<rparr>)) d \<and>
       (\<exists>w6. close_pooled_dcb w0 d = Some w6 \<and> d \<in> m_dcbs w6 \<and> \<not> b_open (dcb_store w6 d) \<and>
          m_zombies w6 = m_zombies w0 @ [d] \<and>
          (dcb_state (b_dcb (dcb_store w0 d)) = POLLING \<longrightarrow>
             dcb_shutdown (b_dcb (dcb_store w6 d)) \<and> \<not> dcb_events_enabled (b_dcb (dcb_store w6 d))))"
    if "m_evicting w0"
    using that
    by (simp add: close_pooled_dcb_def DCB_close_evicting_def disable_events_and_shutdown_def)
  from a b c d e f g show ?thesis by blast
qed

text \<open>
  The same at a worker with one pooled connection, which is then evicted.
\<close>

lemma pool_disjoint_example:
  "pool_inv example_pooled_worker \<and>
   pooled example_pooled_worker 0 = {3} \<and> m_dcbs example_pooled_worker = {5} \<and>
   evict_dcb example_pooled_worker 3 = Some (the (evict_dcb example_pooled_worker 3)) \<and>
   pool_inv (the (evict_dcb example_pooled_worker 3)) \<and>
   3 \<in> m_dcbs (the (evict_dcb example_pooled_worker 3)) \<and>
   3 \<notin> pooled (the (evict_dcb example_pooled_worker 3)) 0 \<and>
   \<not> b_open (dcb_store (the (evict_dcb example_pooled_worker 3)) 3)"
proof -
  have i: "pool_inv example_pooled_worker"
    by (auto simp: pool_inv_def pooled_def example_pooled_worker_def)
  have p: "pooled example_pooled_worker 0 = {3}" "m_dcbs example_pooled_worker = {5}"
    by (simp_all add: pooled_def example_pooled_worker_def)
  have e: "evict_dcb example_pooled_worker 3 = Some (the (evict_dcb example_pooled_worker 3))"
    by (simp add: evict_dcb_def Let_def example_pooled_worker_def example_backend_def
        close_pooled_dcb_def DCB_close_evicting_def)
  from pool_disjoint_kept [OF i, of _ _ 3 _ _ _ _ _ _ _ _ "the (evict_dcb example_pooled_worker 3)"] i p e
  show ?thesis by simp
qed

text \<open>\<open>RoutingWorker::remove\<close>, the counterpart of \<open>add\<close> for a DCB that is being
  destroyed: it erases the DCB from \<open>m_dcbs\<close>. For a DCB that \<open>m_dcbs\<close> does not hold,
  \<open>find\<close> gives the end iterator, which must not be erased: \<open>None\<close>.\<close>

definition RoutingWorker_remove :: "RoutingWorker \<Rightarrow> nat \<Rightarrow> RoutingWorker option" where
  "RoutingWorker_remove w pDcb =
     (if pDcb \<in> m_dcbs w then Some (w\<lparr>m_dcbs := m_dcbs w - {pDcb}\<rparr>) else None)"

text \<open>A worker whose pool holds the DCB 3 for server 0, on a socket that takes no more
  writes (\<open>writeq_append\<close> fails, so that \<open>reuse_connection\<close> returns false).\<close>

definition refusing_pooled_worker :: RoutingWorker where
  "refusing_pooled_worker =
     example_pooled_worker\<lparr>dcb_store :=
       (\<lambda>d. example_backend\<lparr>b_dcb := example_dcb\<lparr>dcb_write_ok := False\<rparr>\<rparr>)\<rparr>"

text \<open>
  Claim C7 says that every eviction path puts the DCB back into the active set before it
  shuts it down and closes it. \<open>close_pooled_dcb\<close> does so, for \<open>evict_dcbs\<close> and
  \<open>evict_dcb\<close>. The third path that closes a pooled DCB under \<open>m_evicting\<close> does not:
  when \<open>reuse_connection\<close> fails in \<open>get_backend_dcb_from_pool\<close>, the DCB taken from
  the pool is shut down and closed without \<open>m_dcbs.insert\<close>. Here the only pooled DCB
  cannot be written to: the function returns no DCB, and the DCB 3 ends shut down,
  closed and in the queue of zombies, but not in \<open>m_dcbs\<close>, so that
  \<open>RoutingWorker::remove\<close> has nothing to erase when the zombie is destroyed; evicted
  by \<open>evict_dcb\<close>, the same DCB ends in \<open>m_dcbs\<close>.
\<close>

theorem C7_failed_reuse_not_reinserted:
  "pooled refusing_pooled_worker 0 = {3} \<and> 3 \<notin> m_dcbs refusing_pooled_worker \<and>
   map_option (\<lambda>r. (snd r, 3 \<in> m_dcbs (fst r), m_dcbs (fst r), b_open (dcb_store (fst r) 3),
                     dcb_shutdown (b_dcb (dcb_store (fst r) 3)), m_zombies (fst r),
                     m_persistent_entries_by_server (fst r) 0, m_evicting (fst r)))
     (get_backend_dcb_from_pool example_ext 1 120 refusing_pooled_worker 0 example_session 7) =
     Some (None, False, {5}, False, True, [3], [], False) \<and>
   (case get_backend_dcb_from_pool example_ext 1 120 refusing_pooled_worker 0 example_session 7 of
      None \<Rightarrow> None
    | Some r \<Rightarrow> map_option m_dcbs (RoutingWorker_remove (fst r) 3)) = None \<and>
   map_option (\<lambda>v. (3 \<in> m_dcbs v, m_dcbs v, b_open (dcb_store v 3),
                     dcb_shutdown (b_dcb (dcb_store v 3)), m_zombies v,
                     m_persistent_entries_by_server v 0, m_evicting v))
     (evict_dcb refusing_pooled_worker 3) =
     Some (True, {3, 5}, False, True, [3], [], False) \<and>
   (case evict_dcb refusing_pooled_worker 3 of
      None \<Rightarrow> None
    | Some v \<Rightarrow> map_option m_dcbs (RoutingWorker_remove v 3)) = Some {5}"
proof -
  have p: "pooled refusing_pooled_worker 0 = {3}" "3 \<notin> m_dcbs refusing_pooled_worker"
    by (simp_all add: pooled_def refusing_pooled_worker_def example_pooled_worker_def)
  have g: "map_option (\<lambda>r. (snd r, 3 \<in> m_dcbs (fst r), m_dcbs (fst r), b_open (dcb_store (fst r) 3),
                     dcb_shutdown (b_dcb (dcb_store (fst r) 3)), m_zombies (fst r),
                     m_persistent_entries_by_server (fst r) 0, m_evicting (fst r)))
     (get_backend_dcb_from_pool example_ext 1 120 refusing_pooled_worker 0 example_session 7) =
     Some (None, False, {5}, False, True, [3], [], False)"
    by (simp add: get_backend_dcb_from_pool_def evict_dcbs_def Let_def refusing_pooled_worker_def
        example_pooled_worker_def
        example_server_def entry_hanged_up_def example_backend_def example_dcb_def
        reuse_connection_def example_conn_def writeq_append_def assign_session_def
        link_backend_connection_def update_dcb_def update_server_def set_entries_def
        DCB_close_evicting_def disable_events_and_shutdown_def)
  then obtain r where r: "get_backend_dcb_from_pool example_ext 1 120 refusing_pooled_worker 0
      example_session 7 = Some r" and nr: "3 \<notin> m_dcbs (fst r)"
    by auto
  have rm: "(case get_backend_dcb_from_pool example_ext 1 120 refusing_pooled_worker 0 example_session 7 of
      None \<Rightarrow> None
    | Some r \<Rightarrow> map_option m_dcbs (RoutingWorker_remove (fst r) 3)) = None"
    using r nr by (simp add: RoutingWorker_remove_def)
  have e: "map_option (\<lambda>v. (3 \<in> m_dcbs v, m_dcbs v, b_open (dcb_store v 3),
                     dcb_shutdown (b_dcb (dcb_store v 3)), m_zombies v,
                     m_persistent_entries_by_server v 0, m_evicting v))
     (evict_dcb refusing_pooled_worker 3) =
     Some (True, {3, 5}, False, True, [3], [], False)"
    by (simp add: evict_dcb_def Let_def refusing_pooled_worker_def example_pooled_worker_def
        example_backend_def example_dcb_def close_pooled_dcb_def DCB_close_evicting_def
        disable_events_and_shutdown_def update_dcb_def set_entries_def)
  then obtain v where v: "evict_dcb refusing_pooled_worker 3 = Some v" and mv: "m_dcbs v = {3, 5}"
    by auto
  have rv: "(case evict_dcb refusing_pooled_worker 3 of
      None \<Rightarrow> None
    | Some v \<Rightarrow> map_option m_dcbs (RoutingWorker_remove v 3)) = Some {5}"
    using v mv by (auto simp: RoutingWorker_remove_def)
  from p g rm e rv show ?thesis by simp
qed

section \<open>The reply-state tracker (mariadb_backend.cc)\<close>

text \<open>
  An iterator into the buffer is modelled by the bytes from its position to the end of
  the buffer; dereferencing it at the end of the buffer, or advancing it beyond, is
  undefined in the source and \<open>None\<close> in the model. The end of the current packet is
  given by the length of its payload.

  Modelled from the spec: the capability bits \<open>RCAP_TYPE_...\<close> and
  \<open>rcap_type_required\<close> are declared outside the sources at hand; a capability is
  required when all of its bits are set. The bits are the fields of \<open>proto_consts\<close>.
  The session-track types are the protocol's: system variables 0, schema 1, state change
  2, GTIDs 3, transaction characteristics 4, transaction type 5.
\<close>

record proto_consts =
  RCAP_TYPE_SESSION_STATE_TRACKING :: "64 word"
  RCAP_TYPE_STMT_OUTPUT :: "64 word"
  RCAP_TYPE_PACKET_OUTPUT :: "64 word"
  RCAP_TYPE_CONTIGUOUS_OUTPUT :: "64 word"
  RCAP_TYPE_RESULTSET_OUTPUT :: "64 word"
  RCAP_TYPE_REQUEST_TRACKING :: "64 word"

definition rcap_type_required :: "64 word \<Rightarrow> 64 word \<Rightarrow> bool" where
  "rcap_type_required capabilities ty = (capabilities AND ty = ty)"

definition SESSION_TRACK_SYSTEM_VARIABLES :: byte where "SESSION_TRACK_SYSTEM_VARIABLES = 0"
definition SESSION_TRACK_SCHEMA :: byte where "SESSION_TRACK_SCHEMA = 1"
definition SESSION_TRACK_STATE_CHANGE :: byte where "SESSION_TRACK_STATE_CHANGE = 2"
definition SESSION_TRACK_GTIDS :: byte where "SESSION_TRACK_GTIDS = 3"
definition SESSION_TRACK_TRANSACTION_CHARACTERISTICS :: byte where "SESSION_TRACK_TRANSACTION_CHARACTERISTICS = 4"
definition SESSION_TRACK_TRANSACTION_TYPE :: byte where "SESSION_TRACK_TRANSACTION_TYPE = 5"

definition bytes_of :: "string \<Rightarrow> byte list" where
  "bytes_of str = map of_char str"

definition MXS_LAST_GTID :: "byte list" where
  "MXS_LAST_GTID = bytes_of ''last_gtid''"

fun le_bytes :: "byte list \<Rightarrow> nat" where
  "le_bytes [] = 0"
| "le_bytes (b # bs) = unat b + 256 * le_bytes bs"

definition advance :: "nat \<Rightarrow> byte list \<Rightarrow> byte list option" where
  "advance n it = (if n \<le> length it then Some (drop n it) else None)"

definition read_bytes :: "nat \<Rightarrow> byte list \<Rightarrow> (byte list \<times> byte list) option" where
  "read_bytes n it = (if n \<le> length it then Some (take n it, drop n it) else None)"

definition skip_encoded_int :: "byte list \<Rightarrow> byte list option" where
  "skip_encoded_int it =
     (case it of
        [] \<Rightarrow> None
      | b # _ \<Rightarrow>
          if b = 0xfc then advance 3 it
          else if b = 0xfd then advance 4 it
          else if b = 0xfe then advance 9 it
          else advance 1 it)"

definition get_encoded_int :: "byte list \<Rightarrow> (nat \<times> byte list) option" where
  "get_encoded_int it =
     (case it of
        [] \<Rightarrow> None
      | b # r \<Rightarrow>
          if b = 0xfc then map_option (\<lambda>x. (le_bytes (fst x), snd x)) (read_bytes 2 r)
          else if b = 0xfd then map_option (\<lambda>x. (le_bytes (fst x), snd x)) (read_bytes 3 r)
          else if b = 0xfe then map_option (\<lambda>x. (le_bytes (fst x), snd x)) (read_bytes 8 r)
          else Some (unat b, r))"

definition get_encoded_str :: "byte list \<Rightarrow> (byte list \<times> byte list) option" where
  "get_encoded_str it =
     (case get_encoded_int it of None \<Rightarrow> None | Some x \<Rightarrow> read_bytes (fst x) (snd x))"

definition skip_encoded_str :: "byte list \<Rightarrow> byte list option" where
  "skip_encoded_str it =
     (case get_encoded_int it of None \<Rightarrow> None | Some x \<Rightarrow> advance (fst x) (snd x))"

definition is_last_eof :: "byte list \<Rightarrow> bool option" where
  "is_last_eof it =
     (case read_bytes 2 (drop 3 it) of
        None \<Rightarrow> None
      | Some x \<Rightarrow> Some ((of_nat (le_bytes (fst x)) :: 16 word) AND SERVER_MORE_RESULTS_EXIST = 0))"

text \<open>\<open>update_error\<close>: \<open>it\<close> stands after the command byte of an ERR packet whose
  payload has \<open>len\<close> bytes. The SQL state and the message are cut out of the payload;
  where the payload is too short for them the source builds strings from iterators that
  have passed the end.\<close>

definition update_error :: "MariaDBBackendConnection \<Rightarrow> byte list \<Rightarrow> nat \<Rightarrow> MariaDBBackendConnection option" where
  "update_error conn it len =
     (if len < 9 \<or> length it < len - 1 then None
      else Some (conn\<lparr>m_reply := (m_reply conn)\<lparr>reply_error :=
             Some \<lparr>err_code = of_nat (le_bytes (take 2 it)),
                   err_sqlstate = take 5 (drop 3 it),
                   err_message = take (len - 9) (drop 8 it)\<rparr>\<rparr>\<rparr>))"

text \<open>One block of session-track data: the bytes left and the variables it sets.\<close>

definition session_track_item :: "byte list \<Rightarrow> (byte list \<times> (byte list \<times> byte list) list) option" where
  "session_track_item it =
     (case it of
        [] \<Rightarrow> None
      | ty # it1 \<Rightarrow>
          (case get_encoded_int it1 of
             None \<Rightarrow> None
           | Some ts \<Rightarrow>
               (let total_size = fst ts; it2 = snd ts in
                if ty = SESSION_TRACK_STATE_CHANGE then
                  map_option (\<lambda>r. (r, [])) (advance total_size it2)
                else if ty = SESSION_TRACK_SCHEMA then
                  map_option (\<lambda>r. (r, [])) (skip_encoded_str it2)
                else if ty = SESSION_TRACK_GTIDS then
                  (case skip_encoded_int it2 of
                     None \<Rightarrow> None
                   | Some it3 \<Rightarrow> map_option (\<lambda>x. (snd x, [(MXS_LAST_GTID, fst x)])) (get_encoded_str it3))
                else if ty = SESSION_TRACK_TRANSACTION_CHARACTERISTICS then
                  map_option (\<lambda>x. (snd x, [(bytes_of ''trx_characteristics'', fst x)])) (get_encoded_str it2)
                else if ty = SESSION_TRACK_SYSTEM_VARIABLES then
                  (case get_encoded_str it2 of
                     None \<Rightarrow> None
                   | Some nm \<Rightarrow> map_option (\<lambda>x. (snd x, [(fst nm, fst x)])) (get_encoded_str (snd nm)))
                else if ty = SESSION_TRACK_TRANSACTION_TYPE then
                  map_option (\<lambda>x. (snd x, [(bytes_of ''trx_state'', fst x)])) (get_encoded_str it2)
                else map_option (\<lambda>r. (r, [])) (advance total_size it2))))"

lemma advance_length: "advance n it = Some r \<Longrightarrow> length r \<le> length it"
  by (auto simp: advance_def split: if_splits)

lemma read_bytes_length: "read_bytes n it = Some x \<Longrightarrow> length (snd x) \<le> length it"
  by (auto simp: read_bytes_def split: if_splits)

lemma get_encoded_int_length: "get_encoded_int it = Some x \<Longrightarrow> length (snd x) < length it"
  by (auto simp: get_encoded_int_def split: list.splits if_splits dest!: read_bytes_length)

lemma get_encoded_str_length: "get_encoded_str it = Some x \<Longrightarrow> length (snd x) < length it"
  by (auto simp: get_encoded_str_def split: option.splits
      dest!: read_bytes_length get_encoded_int_length)

lemma skip_encoded_str_length: "skip_encoded_str it = Some r \<Longrightarrow> length r < length it"
  by (auto simp: skip_encoded_str_def split: option.splits
      dest!: advance_length get_encoded_int_length)

lemma skip_encoded_int_length: "skip_encoded_int it = Some r \<Longrightarrow> length r \<le> length it"
  by (auto simp: skip_encoded_int_def split: list.splits if_splits dest!: advance_length)

lemma session_track_item_length:
  "session_track_item it = Some x \<Longrightarrow> length (fst x) < length it"
  unfolding session_track_item_def Let_def
  by (auto split: list.splits option.splits if_splits
      dest!: advance_length get_encoded_int_length get_encoded_str_length
        skip_encoded_str_length skip_encoded_int_length)

function session_track_loop ::
  "int \<Rightarrow> byte list \<Rightarrow> (byte list \<times> byte list) list \<Rightarrow> (byte list \<times> byte list) list option" where
  "session_track_loop stop it vars =
     (if int (length it) = stop then Some vars
      else (case session_track_item it of
              None \<Rightarrow> None
            | Some x \<Rightarrow> session_track_loop stop (fst x) (vars @ snd x)))"
  by pat_completeness auto
termination
  by (relation "measure (\<lambda>(stop, it, vars). length it)")
    (auto dest: session_track_item_length)

declare session_track_loop.simps [simp del]


definition process_ok_packet ::
  "proto_consts \<Rightarrow> MariaDBBackendConnection \<Rightarrow> byte list \<Rightarrow> nat \<Rightarrow> MariaDBBackendConnection option" where
  "process_ok_packet pc conn it len =
     (case advance 1 it of None \<Rightarrow> None | Some it1 \<Rightarrow>
      case skip_encoded_int it1 of None \<Rightarrow> None | Some it2 \<Rightarrow>
      case skip_encoded_int it2 of None \<Rightarrow> None | Some it3 \<Rightarrow>
      case read_bytes 2 it3 of None \<Rightarrow> None | Some st \<Rightarrow>
        (let status = (of_nat (le_bytes (fst st)) :: 16 word);
             c1 = (if status AND SERVER_MORE_RESULTS_EXIST = 0 then set_reply_state DONE conn else conn)
         in case read_bytes 2 (snd st) of None \<Rightarrow> None | Some wn \<Rightarrow>
           (let c2 = c1\<lparr>m_reply := (m_reply c1)\<lparr>num_warnings := of_nat (le_bytes (fst wn))\<rparr>\<rparr> in
            if rcap_type_required (service_capabilities (m_session conn))
                 (RCAP_TYPE_SESSION_STATE_TRACKING pc)
               \<and> status AND SERVER_SESSION_STATE_CHANGED \<noteq> 0
            then
              (case skip_encoded_str (snd wn) of None \<Rightarrow> None | Some it6 \<Rightarrow>
               case get_encoded_int it6 of None \<Rightarrow> None | Some ts \<Rightarrow>
               case session_track_loop (int (length it) - int len) (snd ts) [] of
                 None \<Rightarrow> None
               | Some vars \<Rightarrow>
                   Some (c2\<lparr>m_reply := (m_reply c2)\<lparr>variables := variables (m_reply c2) @ vars\<rparr>\<rparr>))
            else Some c2)))"

definition process_ps_response ::
  "MariaDBBackendConnection \<Rightarrow> byte list \<Rightarrow> MariaDBBackendConnection option" where
  "process_ps_response conn it =
     (case read_bytes 4 (drop 1 it) of None \<Rightarrow> None | Some sid \<Rightarrow>
      case read_bytes 2 (snd sid) of None \<Rightarrow> None | Some cl \<Rightarrow>
      case read_bytes 2 (snd cl) of None \<Rightarrow> None | Some pr \<Rightarrow>
        (let stmt_id = (of_nat (le_bytes (fst sid)) :: 32 word);
             columns = (of_nat (le_bytes (fst cl)) :: 16 word);
             params = (of_nat (le_bytes (fst pr)) :: 16 word);
             n1 = (if columns \<noteq> 0 then uint columns + 1 else 0);
             n2 = (if params \<noteq> 0 then n1 + (uint params + 1) else n1);
             c1 = conn\<lparr>m_reply := (m_reply conn)\<lparr>generated_id := stmt_id, param_count := params\<rparr>,
                       m_ps_packets := n2\<rparr>
         in Some (set_reply_state (if n2 = 0 then DONE else PREPARE) c1)))"

definition process_result_start ::
  "proto_consts \<Rightarrow> MariaDBBackendConnection \<Rightarrow> byte list \<Rightarrow> nat \<Rightarrow> MariaDBBackendConnection option" where
  "process_result_start pc conn it len =
     (case it of
        [] \<Rightarrow> None
      | cmd # rest \<Rightarrow>
          if cmd = MYSQL_REPLY_OK then
            (let c1 = conn\<lparr>m_reply := (m_reply conn)\<lparr>is_ok := True\<rparr>\<rparr> in
             if command (m_reply c1) = MXS_COM_STMT_PREPARE
             then process_ps_response c1 it
             else process_ok_packet pc c1 it len)
          else if cmd = MYSQL_REPLY_LOCAL_INFILE then
            Some (set_reply_state DONE (session_set_load_active True conn))
          else if cmd = MYSQL_REPLY_ERR then
            map_option (set_reply_state DONE) (update_error conn rest len)
          else if cmd = MYSQL_REPLY_EOF then Some conn
          else
            (case get_encoded_int it of
               None \<Rightarrow> None
             | Some n \<Rightarrow>
                 Some (set_reply_state RSET_COLDEF
                         (conn\<lparr>m_num_coldefs := of_nat (fst n),
                               m_reply := (m_reply conn)\<lparr>field_counts :=
                                  field_counts (m_reply conn) @ [fst n]\<rparr>\<rparr>))))"

definition process_reply_start ::
  "proto_consts \<Rightarrow> MariaDBBackendConnection \<Rightarrow> byte list \<Rightarrow> nat \<Rightarrow> MariaDBBackendConnection option" where
  "process_reply_start pc conn it len =
     (if command (m_reply conn) = MXS_COM_BINLOG_DUMP then Some conn
      else if command (m_reply conn) = MXS_COM_STATISTICS then Some (set_reply_state DONE conn)
      else if command (m_reply conn) = MXS_COM_FIELD_LIST then Some (set_reply_state RSET_ROWS conn)
      else process_result_start pc conn it len)"

definition process_one_packet ::
  "proto_consts \<Rightarrow> MariaDBBackendConnection \<Rightarrow> byte list \<Rightarrow> nat \<Rightarrow> MariaDBBackendConnection option" where
  "process_one_packet pc conn it len =
     (case it of
        [] \<Rightarrow> None
      | cmd # rest \<Rightarrow>
          (case reply_state (m_reply conn) of
             START \<Rightarrow> process_reply_start pc conn it len
           | DONE \<Rightarrow> (if cmd = MYSQL_REPLY_ERR then update_error conn rest len else Some conn)
           | RSET_COLDEF \<Rightarrow>
               (let c1 = conn\<lparr>m_num_coldefs := m_num_coldefs conn - 1\<rparr> in
                Some (if m_num_coldefs c1 = 0 then set_reply_state RSET_COLDEF_EOF c1 else c1))
           | RSET_COLDEF_EOF \<Rightarrow>
               (let c1 = set_reply_state RSET_ROWS conn in
                Some (if m_opening_cursor c1
                      then set_reply_state DONE (c1\<lparr>m_opening_cursor := False\<rparr>) else c1))
           | RSET_ROWS \<Rightarrow>
               (if cmd = MYSQL_REPLY_EOF \<and> len = MYSQL_EOF_PACKET_LEN - MYSQL_HEADER_LEN then
                  (case is_last_eof it of
                     None \<Rightarrow> None
                   | Some final \<Rightarrow>
                       (case read_bytes 2 rest of
                          None \<Rightarrow> None
                        | Some wn \<Rightarrow>
                            (let c1 = set_reply_state (if final then DONE else START) conn in
                             Some (c1\<lparr>m_reply := (m_reply c1)\<lparr>num_warnings :=
                                      of_nat (le_bytes (fst wn))\<rparr>\<rparr>))))
                else if cmd = MYSQL_REPLY_ERR then
                  map_option (set_reply_state DONE) (update_error conn rest len)
                else Some (conn\<lparr>m_reply := (m_reply conn)\<lparr>rows := rows (m_reply conn) + 1\<rparr>\<rparr>))
           | PREPARE \<Rightarrow>
               (let c1 = conn\<lparr>m_ps_packets := m_ps_packets conn - 1\<rparr> in
                Some (if m_ps_packets c1 = 0 then set_reply_state DONE c1 else c1))))"

text \<open>The body of the loop of \<open>process_packets\<close> for one complete packet: \<open>it\<close> stands
  at its payload, of \<open>len\<close> bytes.\<close>

definition process_packet ::
  "proto_consts \<Rightarrow> MariaDBBackendConnection \<Rightarrow> byte list \<Rightarrow> nat \<Rightarrow> MariaDBBackendConnection option" where
  "process_packet pc conn it len =
     (let skip_next = m_skip_next conn;
          c1 = conn\<lparr>m_skip_next := (len = GW_MYSQL_MAX_PACKET_LEN)\<rparr>
      in if \<not> skip_next then process_one_packet pc c1 it len else Some c1)"

function process_packets_loop ::
  "proto_consts \<Rightarrow> MariaDBBackendConnection \<Rightarrow> byte list \<Rightarrow> nat
     \<Rightarrow> (MariaDBBackendConnection \<times> nat) option" where
  "process_packets_loop pc conn buf bytes_used =
     (if buf = [] then Some (conn, bytes_used)
      else if length buf < MYSQL_HEADER_LEN then Some (conn, bytes_used)
      else
        (let len = le_bytes (take 3 buf) in
         if length buf < len + MYSQL_HEADER_LEN then Some (conn, bytes_used)
         else
           (case process_packet pc conn (drop MYSQL_HEADER_LEN buf) len of
              None \<Rightarrow> None
            | Some c \<Rightarrow>
                process_packets_loop pc c (drop (len + MYSQL_HEADER_LEN) buf)
                  (bytes_used + (len + MYSQL_HEADER_LEN)))))"
  by pat_completeness auto
termination
  by (relation "measure (\<lambda>(pc, conn, buf, bytes_used). length buf)")
    (auto simp: MYSQL_HEADER_LEN_def)

declare process_packets_loop.simps [simp del]

text \<open>\<open>process_packets\<close>: the connection, the complete packets split off the buffer, and
  what is left of the buffer.\<close>

definition process_packets ::
  "proto_consts \<Rightarrow> MariaDBBackendConnection \<Rightarrow> byte list
     \<Rightarrow> (MariaDBBackendConnection \<times> byte list \<times> byte list) option" where
  "process_packets pc conn buf =
     (case process_packets_loop pc conn buf 0 of
        None \<Rightarrow> None
      | Some r \<Rightarrow> Some (fst r, take (snd r) buf, drop (snd r) buf))"


lemma le_bytes2_bound: "le_bytes [a, b] < 65536"
proof -
  have "unat a < 256" "unat b < 256"
    using unsigned_less [of a, where ?'a = nat] unsigned_less [of b, where ?'a = nat] by simp_all
  then show ?thesis by simp
qed

lemma split3: "len < 2 ^ 24 \<Longrightarrow>
   len mod 256 + 256 * ((len div 256) mod 256 + 256 * ((len div 65536) mod 256)) = (len::nat)"
proof -
  assume a: "len < 2 ^ 24"
  have d: "len div 65536 = (len div 256) div 256" by (simp add: div_mult2_eq)
  have s: "(len div 256) div 256 < 256" using a by simp
  have "len = len mod 256 + 256 * (len div 256)" by simp
  also have "len div 256 = (len div 256) mod 256 + 256 * ((len div 256) div 256)" by simp
  finally show ?thesis using s d by simp
qed


lemma le_bytes_set_byte3: "len < 2 ^ 24 \<Longrightarrow> le_bytes (set_byte3 len) = len"
  using split3 [of len] by (simp add: set_byte3_def unat_of_nat)

lemma process_packets_loop_step:
  assumes "length payload = len" and "len < 2 ^ 24"
  shows "process_packets_loop pc conn (set_byte3 len @ seq # payload @ rest) used =
     (case process_packet pc conn (payload @ rest) len of
        None \<Rightarrow> None
      | Some c \<Rightarrow> process_packets_loop pc c rest (used + (len + 4)))"
proof -
  have t: "take 3 (set_byte3 len @ seq # payload @ rest) = set_byte3 len"
    by (simp add: set_byte3_def)
  have l: "length (set_byte3 len) = 3" by (simp add: set_byte3_def)
  have d4: "drop 4 (set_byte3 len @ seq # payload @ rest) = payload @ rest"
    by (simp add: set_byte3_def)
  have "length (set_byte3 len @ seq # payload) = len + 4"
    using assms(1) by (simp add: l)
  then have dl: "drop (len + 4) (set_byte3 len @ seq # payload @ rest) = rest"
    using drop_append [of "len + 4" "set_byte3 len @ seq # payload" rest] by simp
  have ne: "set_byte3 len @ seq # payload @ rest \<noteq> []" by simp
  have ln: "length (set_byte3 len @ seq # payload @ rest) = len + 4 + length rest"
    using assms(1) by (simp add: l)
  show ?thesis
    apply (subst process_packets_loop.simps)
    apply (simp only: ne if_False Let_def t le_bytes_set_byte3 [OF assms(2)] MYSQL_HEADER_LEN_def
        d4 dl ln)
    apply simp
    done
qed


lemma process_packets_loop_Nil: "process_packets_loop pc conn [] used = Some (conn, used)"
  by (simp add: process_packets_loop.simps)

definition same_frame :: "MariaDBBackendConnection \<Rightarrow> MariaDBBackendConnection \<Rightarrow> bool" where
  "same_frame conn c =
     (m_skip_next c = m_skip_next conn \<and> m_ignore_replies c = m_ignore_replies conn \<and>
      m_state c = m_state conn \<and> m_stored_query c = m_stored_query conn \<and>
      m_changing_user c = m_changing_user conn \<and> m_collect_result c = m_collect_result conn \<and>
      m_delayed_packets c = m_delayed_packets conn)"

lemma same_frame_refl [simp]: "same_frame conn conn"
  by (simp add: same_frame_def)

lemma same_frame_trans: "same_frame a b \<Longrightarrow> same_frame b c \<Longrightarrow> same_frame a c"
  by (simp add: same_frame_def)

lemma same_frame_updates [simp]:
  "same_frame conn (set_reply_state st c) = same_frame conn c"
  "same_frame conn (session_set_load_active b c) = same_frame conn c"
  "same_frame conn (c\<lparr>m_reply := r\<rparr>) = same_frame conn c"
  "same_frame conn (c\<lparr>m_num_coldefs := n\<rparr>) = same_frame conn c"
  "same_frame conn (c\<lparr>m_ps_packets := k\<rparr>) = same_frame conn c"
  "same_frame conn (c\<lparr>m_opening_cursor := oc\<rparr>) = same_frame conn c"
  "same_frame conn (c\<lparr>m_large_query := lq\<rparr>) = same_frame conn c"
  "same_frame conn (c\<lparr>m_track_state := ts\<rparr>) = same_frame conn c"
  by (simp_all add: same_frame_def set_reply_state_def session_set_load_active_def)

lemma update_error_frame: "update_error conn it len = Some c \<Longrightarrow> same_frame conn c"
  by (auto simp: update_error_def split: if_splits)

lemma update_error_reply_state:
  "update_error conn it len = Some c \<Longrightarrow> reply_state (m_reply c) = reply_state (m_reply conn)"
  by (auto simp: update_error_def split: if_splits)

lemma process_ok_packet_frame: "process_ok_packet pc conn it len = Some c \<Longrightarrow> same_frame conn c"
  unfolding process_ok_packet_def Let_def
  by (auto split: option.splits if_splits)

lemma process_ps_response_frame: "process_ps_response conn it = Some c \<Longrightarrow> same_frame conn c"
  unfolding process_ps_response_def Let_def
  by (auto split: option.splits if_splits)

lemma process_result_start_frame:
  assumes "process_result_start pc conn it len = Some c"
  shows "same_frame conn c"
proof (cases it)
  case Nil
  with assms show ?thesis by (simp add: process_result_start_def)
next
  case (Cons cmd rest)
  consider (ok) "cmd = MYSQL_REPLY_OK"
    | (infile) "cmd \<noteq> MYSQL_REPLY_OK" "cmd = MYSQL_REPLY_LOCAL_INFILE"
    | (err) "cmd \<noteq> MYSQL_REPLY_OK" "cmd \<noteq> MYSQL_REPLY_LOCAL_INFILE" "cmd = MYSQL_REPLY_ERR"
    | (eof) "cmd \<noteq> MYSQL_REPLY_OK" "cmd \<noteq> MYSQL_REPLY_LOCAL_INFILE" "cmd \<noteq> MYSQL_REPLY_ERR"
        "cmd = MYSQL_REPLY_EOF"
    | (other) "cmd \<noteq> MYSQL_REPLY_OK" "cmd \<noteq> MYSQL_REPLY_LOCAL_INFILE" "cmd \<noteq> MYSQL_REPLY_ERR"
        "cmd \<noteq> MYSQL_REPLY_EOF"
    by blast
  then show ?thesis
  proof cases
    case ok
    let ?c1 = "conn\<lparr>m_reply := (m_reply conn)\<lparr>is_ok := True\<rparr>\<rparr>"
    from assms Cons ok have
      "process_ps_response ?c1 it = Some c \<or> process_ok_packet pc ?c1 it len = Some c"
      by (simp add: process_result_start_def Let_def split: if_splits)
    then have "same_frame ?c1 c"
      using process_ps_response_frame process_ok_packet_frame by blast
    then show ?thesis by (simp add: same_frame_def)
  next
    case infile
    with assms Cons show ?thesis by (auto simp: process_result_start_def)
  next
    case err
    with assms Cons obtain c0 where "update_error conn rest len = Some c0" "c = set_reply_state DONE c0"
      by (auto simp: process_result_start_def)
    with update_error_frame show ?thesis by auto
  next
    case eof
    with assms Cons show ?thesis by (auto simp: process_result_start_def)
  next
    case other
    with assms Cons show ?thesis
      by (auto simp: process_result_start_def split: option.splits)
  qed
qed

lemma process_one_packet_frame:
  assumes "process_one_packet pc conn it len = Some c"
  shows "same_frame conn c"
proof (cases it)
  case Nil
  with assms show ?thesis by (simp add: process_one_packet_def)
next
  case (Cons cmd rest)
  show ?thesis
  proof (cases "reply_state (m_reply conn)")
    case START
    with assms Cons have "process_reply_start pc conn it len = Some c"
      by (simp add: process_one_packet_def)
    then have "c = conn \<or> c = set_reply_state DONE conn \<or> c = set_reply_state RSET_ROWS conn
        \<or> process_result_start pc conn it len = Some c"
      by (auto simp: process_reply_start_def split: if_splits)
    with process_result_start_frame show ?thesis by auto
  next
    case DONE
    with assms Cons have "c = conn \<or> update_error conn rest len = Some c"
      by (auto simp: process_one_packet_def split: if_splits)
    with update_error_frame show ?thesis by auto
  next
    case RSET_COLDEF
    with assms Cons show ?thesis
      by (auto simp: process_one_packet_def Let_def split: if_splits)
  next
    case RSET_COLDEF_EOF
    with assms Cons show ?thesis
      by (auto simp: process_one_packet_def Let_def split: if_splits)
  next
    case RSET_ROWS
    with assms Cons have
      "(\<exists>st r. c = (set_reply_state st conn)\<lparr>m_reply := r\<rparr>)
       \<or> (\<exists>c0. update_error conn rest len = Some c0 \<and> c = set_reply_state DONE c0)
       \<or> (\<exists>r. c = conn\<lparr>m_reply := r\<rparr>)"
      by (auto simp: process_one_packet_def Let_def split: if_splits option.splits)
    with update_error_frame show ?thesis by auto
  next
    case PREPARE
    with assms Cons show ?thesis
      by (auto simp: process_one_packet_def Let_def split: if_splits)
  qed
qed

lemma process_packet_frame:
  assumes "process_packet pc conn it len = Some c"
  shows "m_skip_next c = (len = GW_MYSQL_MAX_PACKET_LEN) \<and>
         m_ignore_replies c = m_ignore_replies conn \<and> m_state c = m_state conn \<and>
         m_stored_query c = m_stored_query conn \<and> m_changing_user c = m_changing_user conn \<and>
         m_collect_result c = m_collect_result conn \<and> m_delayed_packets c = m_delayed_packets conn"
proof (cases "m_skip_next conn")
  case True
  with assms show ?thesis by (auto simp: process_packet_def Let_def)
next
  case False
  with assms have "process_one_packet pc (conn\<lparr>m_skip_next := (len = GW_MYSQL_MAX_PACKET_LEN)\<rparr>) it len = Some c"
    by (simp add: process_packet_def Let_def)
  from process_one_packet_frame [OF this] show ?thesis by (simp add: same_frame_def)
qed


text \<open>A packet on the wire (spec section 4.1): the payload length in three bytes, least
  significant first, the sequence number, the payload.\<close>

definition frame_packet :: "byte \<Rightarrow> byte list \<Rightarrow> byte list" where
  "frame_packet seq payload = set_byte3 (length payload) @ seq # payload"

definition frame_packets :: "(byte \<times> byte list) list \<Rightarrow> byte list" where
  "frame_packets pkts = concat (map (\<lambda>p. frame_packet (fst p) (snd p)) pkts)"

lemma frame_packets_simps [simp]:
  "frame_packets [] = []"
  "frame_packets (p # ps) = frame_packet (fst p) (snd p) @ frame_packets ps"
  by (simp_all add: frame_packets_def)

lemma length_frame_packet [simp]: "length (frame_packet seq payload) = length payload + 4"
  by (simp add: frame_packet_def set_byte3_def)

lemma process_packets_loop_frame:
  assumes "length payload < 2 ^ 24"
  shows "process_packets_loop pc conn (frame_packet seq payload @ rest) used =
     (case process_packet pc conn (payload @ rest) (length payload) of
        None \<Rightarrow> None
      | Some c \<Rightarrow> process_packets_loop pc c rest (used + (length payload + 4)))"
  using process_packets_loop_step [OF refl assms, of pc conn seq rest used]
  by (simp add: frame_packet_def)

lemma word16_of_small:
  assumes "x < 65536"
  shows "uint (of_nat x :: 16 word) = int x" and "(of_nat x = (0 :: 16 word)) = (x = 0)"
proof -
  have u: "unat (of_nat x :: 16 word) = x" using assms by (simp add: unat_of_nat)
  then show "uint (of_nat x :: 16 word) = int x" by (metis uint_nat)
  from u show "(of_nat x = (0 :: 16 word)) = (x = 0)" by (metis unat_eq_0 of_nat_0)
qed

lemma prepare_packets:
  assumes "reply_state (m_reply conn) = PREPARE" and "m_ps_packets conn = int n"
    and "\<not> m_skip_next conn"
    and "\<forall>p \<in> set pkts. 0 < length (snd p) \<and> length (snd p) < GW_MYSQL_MAX_PACKET_LEN"
    and "length pkts \<le> n" and "0 < n"
  shows "\<exists>c. process_packets_loop pc conn (frame_packets pkts) used =
            Some (c, used + length (frame_packets pkts)) \<and>
          m_ps_packets c = int n - int (length pkts) \<and>
          reply_state (m_reply c) = (if length pkts = n then DONE else PREPARE) \<and>
          m_reply c = (m_reply conn)\<lparr>reply_state := reply_state (m_reply c)\<rparr> \<and>
          \<not> m_skip_next c"
  using assms
proof (induction pkts arbitrary: conn n used)
  case Nil
  then show ?case by (simp add: process_packets_loop_Nil)
next
  case (Cons p ps)
  from Cons.prems(4) have len: "0 < length (snd p)" "length (snd p) < GW_MYSQL_MAX_PACKET_LEN"
    by simp_all
  then have lt: "length (snd p) < 2 ^ 24" by (simp add: GW_MYSQL_MAX_PACKET_LEN_def)
  from len obtain b r where p: "snd p = b # r" by (cases "snd p") auto
  define c1 where "c1 = (let c0 = conn\<lparr>m_skip_next := False, m_ps_packets := int n - 1\<rparr>
                         in if n = 1 then set_reply_state DONE c0 else c0)"
  have one: "process_packet pc conn (snd p @ frame_packets ps) (length (snd p)) = Some c1"
    using Cons.prems(1,2,3) len(2)
    by (simp add: process_packet_def process_one_packet_def p Let_def c1_def)
  have step: "process_packets_loop pc conn (frame_packets (p # ps)) used =
               process_packets_loop pc c1 (frame_packets ps) (used + (length (snd p) + 4))"
    using process_packets_loop_frame [OF lt, of pc conn "fst p" "frame_packets ps" used] one
    by simp
  show ?case
  proof (cases "n = 1")
    case True
    with Cons.prems(5) have ps: "ps = []" by simp
    from True have "reply_state (m_reply c1) = DONE" "m_ps_packets c1 = 0" "\<not> m_skip_next c1"
      "m_reply c1 = (m_reply conn)\<lparr>reply_state := DONE\<rparr>"
      by (simp_all add: c1_def set_reply_state_def Let_def)
    with step ps True show ?thesis by (simp add: process_packets_loop_Nil)
  next
    case False
    with Cons.prems(5,6) obtain m where m: "n = Suc m" "0 < m" "length ps \<le> m"
      by (cases n) auto
    from False Cons.prems(1) m(2) have c1: "reply_state (m_reply c1) = PREPARE" "m_ps_packets c1 = int m"
      "\<not> m_skip_next c1" "m_reply c1 = m_reply conn"
      by (simp_all add: c1_def m(1) Let_def)
    from Cons.prems(4) have rest: "\<forall>p \<in> set ps. 0 < length (snd p) \<and> length (snd p) < GW_MYSQL_MAX_PACKET_LEN"
      by simp
    from Cons.IH [OF c1(1,2,3) rest m(3) m(2), of "used + (length (snd p) + 4)"]
    obtain c where c: "process_packets_loop pc c1 (frame_packets ps) (used + (length (snd p) + 4)) =
            Some (c, used + (length (snd p) + 4) + length (frame_packets ps))"
      "m_ps_packets c = int m - int (length ps)"
      "reply_state (m_reply c) = (if length ps = m then DONE else PREPARE)"
      "m_reply c = (m_reply c1)\<lparr>reply_state := reply_state (m_reply c)\<rparr>"
      "\<not> m_skip_next c"
      by blast
    from step c c1(4) m show ?thesis by (simp add: add.assoc)
  qed
qed


definition ps_expected_packets :: "nat \<Rightarrow> nat \<Rightarrow> nat" where
  "ps_expected_packets n_cols n_params =
     n_cols + n_params + (if n_cols > 0 then 1 else 0) + (if n_params > 0 then 1 else 0)"

lemma ps_ok_packet:
  assumes st: "reply_state (m_reply conn) = START"
    and cmd: "command (m_reply conn) = MXS_COM_STMT_PREPARE"
    and sk: "\<not> m_skip_next conn"
    and pl: "payload = MYSQL_REPLY_OK # i0 # i1 # i2 # i3 # c0 # c1 # p0 # p1 # tl_bytes"
    and ln: "length payload < GW_MYSQL_MAX_PACKET_LEN"
  shows "process_packet pc conn (payload @ rest) (length payload) =
     Some (set_reply_state
             (if ps_expected_packets (le_bytes [c0, c1]) (le_bytes [p0, p1]) = 0 then DONE else PREPARE)
             (conn\<lparr>m_skip_next := False,
                   m_reply := (m_reply conn)\<lparr>is_ok := True,
                      generated_id := of_nat (le_bytes [i0, i1, i2, i3]),
                      param_count := of_nat (le_bytes [p0, p1])\<rparr>,
                   m_ps_packets := int (ps_expected_packets (le_bytes [c0, c1]) (le_bytes [p0, p1]))\<rparr>))"
proof -
  note w1 = word16_of_small [OF le_bytes2_bound [of c0 c1]]
  note w2 = word16_of_small [OF le_bytes2_bound [of p0 p1]]
  have ne: "MXS_COM_STMT_PREPARE \<noteq> MXS_COM_BINLOG_DUMP" "MXS_COM_STMT_PREPARE \<noteq> MXS_COM_STATISTICS"
    "MXS_COM_STMT_PREPARE \<noteq> MXS_COM_FIELD_LIST"
    by (simp_all add: MXS_COM_STMT_PREPARE_def MXS_COM_BINLOG_DUMP_def MXS_COM_STATISTICS_def
        MXS_COM_FIELD_LIST_def)
  have ps: "process_ps_response c (MYSQL_REPLY_OK # i0 # i1 # i2 # i3 # c0 # c1 # p0 # p1 # tl_bytes @ rest) =
     Some (set_reply_state
             (if ps_expected_packets (le_bytes [c0, c1]) (le_bytes [p0, p1]) = 0 then DONE else PREPARE)
             (c\<lparr>m_reply := (m_reply c)\<lparr>generated_id := of_nat (le_bytes [i0, i1, i2, i3]),
                      param_count := of_nat (le_bytes [p0, p1])\<rparr>,
                 m_ps_packets := int (ps_expected_packets (le_bytes [c0, c1]) (le_bytes [p0, p1]))\<rparr>))" for c
    unfolding process_ps_response_def
    using w1 w2
    by (simp add: read_bytes_def Let_def ps_expected_packets_def del: le_bytes.simps)
  show ?thesis
    using st cmd sk ln ne
    by (simp add: process_packet_def process_one_packet_def process_reply_start_def
        process_result_start_def ps pl Let_def GW_MYSQL_MAX_PACKET_LEN_def
        del: le_bytes.simps)
qed

text \<open>
  Claim C6. The response to a COM_STMT_PREPARE whose first packet is an OK packet
  carrying the statement id, the number of columns and the number of parameters: the
  tracker records \<open>generated_id\<close> and \<open>param_count\<close> and expects
  \<open>n_cols + n_params + (1 if n_cols > 0) + (1 if n_params > 0)\<close> further packets. After
  \<open>k\<close> further packets, each with a payload that is neither empty nor of the largest
  size, the count left is the expected number less \<open>k\<close>, and the reply state is
  \<open>PREPARE\<close> while \<open>k\<close> is less than the expected number and \<open>DONE\<close> when it is equal
  (at once when the number is 0).
\<close>

theorem C6_prepare_response:
  assumes st: "reply_state (m_reply conn) = START"
    and cmd: "command (m_reply conn) = MXS_COM_STMT_PREPARE"
    and sk: "\<not> m_skip_next conn"
    and pl: "payload = MYSQL_REPLY_OK # i0 # i1 # i2 # i3 # c0 # c1 # p0 # p1 # tl_bytes"
    and ln: "length payload < GW_MYSQL_MAX_PACKET_LEN"
    and pk: "\<forall>p \<in> set pkts. 0 < length (snd p) \<and> length (snd p) < GW_MYSQL_MAX_PACKET_LEN"
    and k: "length pkts \<le> ps_expected_packets (le_bytes [c0, c1]) (le_bytes [p0, p1])"
  shows "\<exists>c. process_packets pc conn (frame_packet seq payload @ frame_packets pkts) =
            Some (c, frame_packet seq payload @ frame_packets pkts, []) \<and>
          generated_id (m_reply c) = of_nat (le_bytes [i0, i1, i2, i3]) \<and>
          param_count (m_reply c) = of_nat (le_bytes [p0, p1]) \<and>
          m_ps_packets c =
            int (ps_expected_packets (le_bytes [c0, c1]) (le_bytes [p0, p1])) - int (length pkts) \<and>
          reply_state (m_reply c) =
            (if length pkts = ps_expected_packets (le_bytes [c0, c1]) (le_bytes [p0, p1])
             then DONE else PREPARE)"
proof -
  define n where "n = ps_expected_packets (le_bytes [c0, c1]) (le_bytes [p0, p1])"
  define c1 where "c1 = set_reply_state (if n = 0 then DONE else PREPARE)
             (conn\<lparr>m_skip_next := False,
                   m_reply := (m_reply conn)\<lparr>is_ok := True,
                      generated_id := of_nat (le_bytes [i0, i1, i2, i3]),
                      param_count := of_nat (le_bytes [p0, p1])\<rparr>,
                   m_ps_packets := int n\<rparr>)"
  have lt: "length payload < 2 ^ 24" using ln by (simp add: GW_MYSQL_MAX_PACKET_LEN_def)
  have first: "process_packets_loop pc conn (frame_packet seq payload @ frame_packets pkts) 0 =
                 process_packets_loop pc c1 (frame_packets pkts) (length payload + 4)"
    using process_packets_loop_frame [OF lt, of pc conn seq "frame_packets pkts" 0]
      ps_ok_packet [OF st cmd sk pl ln, of pc "frame_packets pkts"]
    by (simp add: c1_def n_def)
  have g: "generated_id (m_reply c1) = of_nat (le_bytes [i0, i1, i2, i3])"
    "param_count (m_reply c1) = of_nat (le_bytes [p0, p1])" "m_ps_packets c1 = int n"
    "reply_state (m_reply c1) = (if n = 0 then DONE else PREPARE)" "\<not> m_skip_next c1"
    by (simp_all add: c1_def set_reply_state_def)
  have "\<exists>c. process_packets_loop pc c1 (frame_packets pkts) (length payload + 4) =
            Some (c, length payload + 4 + length (frame_packets pkts)) \<and>
          m_ps_packets c = int n - int (length pkts) \<and>
          reply_state (m_reply c) = (if length pkts = n then DONE else PREPARE) \<and>
          m_reply c = (m_reply c1)\<lparr>reply_state := reply_state (m_reply c)\<rparr>"
  proof (cases "n = 0")
    case True
    with k have "pkts = []" by (simp add: n_def)
    with True g show ?thesis by (simp add: process_packets_loop_Nil)
  next
    case False
    with g have p: "reply_state (m_reply c1) = PREPARE" and pos: "0 < n" by simp_all
    from k have k': "length pkts \<le> n" by (simp add: n_def)
    from prepare_packets [OF p g(3) g(5) pk k' pos, of pc "length payload + 4"]
    show ?thesis by blast
  qed
  then obtain c where c: "process_packets_loop pc c1 (frame_packets pkts) (length payload + 4) =
            Some (c, length payload + 4 + length (frame_packets pkts))"
      "m_ps_packets c = int n - int (length pkts)"
      "reply_state (m_reply c) = (if length pkts = n then DONE else PREPARE)"
      "m_reply c = (m_reply c1)\<lparr>reply_state := reply_state (m_reply c)\<rparr>"
    by blast
  have "generated_id (m_reply c) = of_nat (le_bytes [i0, i1, i2, i3])"
    "param_count (m_reply c) = of_nat (le_bytes [p0, p1])"
    using c(4) g(1,2) by (metis Reply.select_convs Reply.surjective Reply.update_convs(2))+
  moreover have "process_packets pc conn (frame_packet seq payload @ frame_packets pkts) =
            Some (c, frame_packet seq payload @ frame_packets pkts, [])"
    using first c(1) by (simp add: process_packets_def)
  ultimately show ?thesis using c(2,3) unfolding n_def by blast
qed


definition example_pc :: proto_consts where
  "example_pc = \<lparr>RCAP_TYPE_SESSION_STATE_TRACKING = 0x40, RCAP_TYPE_STMT_OUTPUT = 0x01,
     RCAP_TYPE_PACKET_OUTPUT = 0x20, RCAP_TYPE_CONTIGUOUS_OUTPUT = 0x02,
     RCAP_TYPE_RESULTSET_OUTPUT = 0x10, RCAP_TYPE_REQUEST_TRACKING = 0x80\<rparr>"

definition example_prepare_conn :: MariaDBBackendConnection where
  "example_prepare_conn =
     example_conn\<lparr>m_reply := Reply_clear\<lparr>command := MXS_COM_STMT_PREPARE, reply_state := START\<rparr>\<rparr>"

definition example_rows_conn :: MariaDBBackendConnection where
  "example_rows_conn =
     example_conn\<lparr>m_reply := Reply_clear\<lparr>command := 0x03, reply_state := RSET_ROWS\<rparr>\<rparr>"

text \<open>
  The scenario of the spec: statement id 17, one column, one parameter, then a
  parameter definition, an EOF, a column definition and an EOF.
\<close>

theorem C6_prepare_response_witness:
  "\<exists>c. process_packets example_pc example_prepare_conn
          (frame_packet 1 [0, 17, 0, 0, 0, 1, 0, 1, 0, 0, 0, 0] @
           frame_packets [(2, [3, 0x64, 0x65, 0x66]), (3, [0xfe, 0, 0, 2, 0]),
                          (4, [3, 0x64, 0x65, 0x66]), (5, [0xfe, 0, 0, 2, 0])]) =
        Some (c, frame_packet 1 [0, 17, 0, 0, 0, 1, 0, 1, 0, 0, 0, 0] @
                 frame_packets [(2, [3, 0x64, 0x65, 0x66]), (3, [0xfe, 0, 0, 2, 0]),
                                (4, [3, 0x64, 0x65, 0x66]), (5, [0xfe, 0, 0, 2, 0])], []) \<and>
        generated_id (m_reply c) = 17 \<and> param_count (m_reply c) = 1 \<and>
        m_ps_packets c = 0 \<and> reply_state (m_reply c) = DONE"
proof -
  have st: "reply_state (m_reply example_prepare_conn) = START"
    and cmd: "command (m_reply example_prepare_conn) = MXS_COM_STMT_PREPARE"
    and sk: "\<not> m_skip_next example_prepare_conn"
    by (simp_all add: example_prepare_conn_def example_conn_def)
  have pl: "[0, 17, 0, 0, 0, 1, 0, 1, 0, 0, 0, 0] =
              MYSQL_REPLY_OK # 17 # 0 # 0 # 0 # 1 # 0 # 1 # 0 # [0, 0, (0::byte)]"
    by (simp add: MYSQL_REPLY_OK_def)
  have ln: "length [0, 17, 0, 0, 0, 1, 0, 1, 0, 0, 0, (0::byte)] < GW_MYSQL_MAX_PACKET_LEN"
    by (simp add: GW_MYSQL_MAX_PACKET_LEN_def)
  have pk: "\<forall>p \<in> set [(2, [3, 0x64, 0x65, 0x66]), (3, [0xfe, 0, 0, 2, 0]),
                          (4, [3, 0x64, 0x65, 0x66]), (5, [0xfe, 0, 0, 2, (0::byte)])].
              0 < length (snd p) \<and> length (snd p) < GW_MYSQL_MAX_PACKET_LEN"
    by (simp add: GW_MYSQL_MAX_PACKET_LEN_def)
  have n: "ps_expected_packets (le_bytes [1, 0]) (le_bytes [1, 0]) = 4"
    by (simp add: ps_expected_packets_def)
  have k: "length [(2::byte, [3, 0x64, 0x65, 0x66]), (3, [0xfe, 0, 0, 2, 0]),
                          (4, [3, 0x64, 0x65, 0x66]), (5, [0xfe, 0, 0, 2, (0::byte)])]
             \<le> ps_expected_packets (le_bytes [1, 0]) (le_bytes [1, 0])"
    unfolding n by simp
  from C6_prepare_response [OF st cmd sk pl ln pk k, of example_pc 1]
  show ?thesis unfolding n by simp
qed

text \<open>
  Claim C5. After a packet has been handled, the skip-next flag is set iff its
  payload length was 2^24 - 1; a packet that arrives while the flag is set is not given
  to \<open>process_one_packet\<close> (the connection changes in that flag only), and the flag is
  set again iff that packet is itself of the largest size. Consequently a row (a packet
  that does not start with the ERR tag 0xff) of 2^24 - 1 bytes followed by one shorter
  continuation advances the tracker once: the row count grows by one and the reply
  state stays \<open>RSET_ROWS\<close>.
\<close>

theorem C5_large_packet:
  "(process_packet pc conn it len = Some c \<longrightarrow> m_skip_next c = (len = GW_MYSQL_MAX_PACKET_LEN)) \<and>
   (m_skip_next conn \<longrightarrow>
      process_packet pc conn it len = Some (conn\<lparr>m_skip_next := (len = GW_MYSQL_MAX_PACKET_LEN)\<rparr>)) \<and>
   (\<not> m_skip_next conn \<longrightarrow>
      process_packet pc conn it len =
        process_one_packet pc (conn\<lparr>m_skip_next := (len = GW_MYSQL_MAX_PACKET_LEN)\<rparr>) it len) \<and>
   (reply_state (m_reply conn) = RSET_ROWS \<and> \<not> m_skip_next conn \<and>
    length row = GW_MYSQL_MAX_PACKET_LEN \<and> hd row \<noteq> MYSQL_REPLY_ERR \<and>
    length cont < GW_MYSQL_MAX_PACKET_LEN \<longrightarrow>
      process_packets pc conn (frame_packet s1 row @ frame_packet s2 cont) =
        Some (conn\<lparr>m_skip_next := False,
                   m_reply := (m_reply conn)\<lparr>rows := rows (m_reply conn) + 1\<rparr>\<rparr>,
              frame_packet s1 row @ frame_packet s2 cont, []))"
proof -
  have a: "m_skip_next c = (len = GW_MYSQL_MAX_PACKET_LEN)"
    if "process_packet pc conn it len = Some c"
    using process_packet_frame [OF that] by simp
  have b: "process_packet pc conn it len = Some (conn\<lparr>m_skip_next := (len = GW_MYSQL_MAX_PACKET_LEN)\<rparr>)"
    if "m_skip_next conn"
    using that by (simp add: process_packet_def Let_def)
  have c: "process_packet pc conn it len =
        process_one_packet pc (conn\<lparr>m_skip_next := (len = GW_MYSQL_MAX_PACKET_LEN)\<rparr>) it len"
    if "\<not> m_skip_next conn"
    using that by (simp add: process_packet_def Let_def)
  have d: "process_packets pc conn (frame_packet s1 row @ frame_packet s2 cont) =
        Some (conn\<lparr>m_skip_next := False,
                   m_reply := (m_reply conn)\<lparr>rows := rows (m_reply conn) + 1\<rparr>\<rparr>,
              frame_packet s1 row @ frame_packet s2 cont, [])"
    if st: "reply_state (m_reply conn) = RSET_ROWS" and sk: "\<not> m_skip_next conn"
      and lr: "length row = GW_MYSQL_MAX_PACKET_LEN" and hr: "hd row \<noteq> MYSQL_REPLY_ERR"
      and lc: "length cont < GW_MYSQL_MAX_PACKET_LEN"
  proof -
    from lr obtain b r where row: "row = b # r"
      by (cases row) (auto simp: GW_MYSQL_MAX_PACKET_LEN_def)
    from lr lc have lt: "length row < 2 ^ 24" "length cont < 2 ^ 24"
      by (simp_all add: GW_MYSQL_MAX_PACKET_LEN_def)
    define c1 where "c1 = conn\<lparr>m_skip_next := True,
                   m_reply := (m_reply conn)\<lparr>rows := rows (m_reply conn) + 1\<rparr>\<rparr>"
    have neq: "length row \<noteq> MYSQL_EOF_PACKET_LEN - MYSQL_HEADER_LEN"
      using lr by (simp add: GW_MYSQL_MAX_PACKET_LEN_def MYSQL_EOF_PACKET_LEN_def MYSQL_HEADER_LEN_def)
    have p1: "process_packet pc conn (row @ frame_packet s2 cont) (length row) = Some c1"
      using st sk hr neq lr unfolding row
      by (simp add: process_packet_def process_one_packet_def Let_def c1_def)
    have p2: "process_packet pc c1 (cont @ []) (length cont) = Some (c1\<lparr>m_skip_next := False\<rparr>)"
      using lc by (simp add: process_packet_def Let_def c1_def)
    have "process_packets_loop pc conn (frame_packet s1 row @ frame_packet s2 cont) 0 =
            Some (c1\<lparr>m_skip_next := False\<rparr>, length row + 4 + (length cont + 4))"
      using process_packets_loop_frame [OF lt(1), of pc conn s1 "frame_packet s2 cont" 0]
        process_packets_loop_frame [OF lt(2), of pc c1 s2 "[]" "length row + 4"] p1 p2
      by (simp add: process_packets_loop_Nil)
    then show ?thesis
      by (simp add: process_packets_def c1_def)
  qed
  from a b c d show ?thesis by blast
qed

text \<open>
  A row of 2^24 - 1 bytes followed by a continuation of 100 bytes, and a largest-size
  packet that arrives while the flag is set.
\<close>

theorem C5_large_packet_witness:
  "reply_state (m_reply example_rows_conn) = RSET_ROWS \<and> \<not> m_skip_next example_rows_conn \<and>
   length (replicate 16777215 (1::byte)) = GW_MYSQL_MAX_PACKET_LEN \<and>
   process_packets example_pc example_rows_conn
      (frame_packet 1 (replicate 16777215 1) @ frame_packet 2 (replicate 100 2)) =
     Some (example_rows_conn\<lparr>m_skip_next := False,
              m_reply := (m_reply example_rows_conn)\<lparr>rows := 1\<rparr>\<rparr>,
           frame_packet 1 (replicate 16777215 1) @ frame_packet 2 (replicate 100 2), []) \<and>
   process_packet example_pc (example_rows_conn\<lparr>m_skip_next := True\<rparr>) [7] 16777215 =
     Some (example_rows_conn\<lparr>m_skip_next := True\<rparr>)"
proof -
  have st: "reply_state (m_reply example_rows_conn) = RSET_ROWS"
    and sk: "\<not> m_skip_next example_rows_conn"
    and r0: "rows (m_reply example_rows_conn) = 0"
    by (simp_all add: example_rows_conn_def example_conn_def Reply_clear_def)
  have lr: "length (replicate 16777215 (1::byte)) = GW_MYSQL_MAX_PACKET_LEN"
    by (simp add: GW_MYSQL_MAX_PACKET_LEN_def)
  have hr: "hd (replicate 16777215 (1::byte)) \<noteq> MYSQL_REPLY_ERR"
    by (simp add: MYSQL_REPLY_ERR_def hd_replicate)
  have lc: "length (replicate 100 (2::byte)) < GW_MYSQL_MAX_PACKET_LEN"
    by (simp add: GW_MYSQL_MAX_PACKET_LEN_def)
  have sk': "m_skip_next (example_rows_conn\<lparr>m_skip_next := True\<rparr>)" by simp
  from C5_large_packet [of example_pc example_rows_conn "[]" 0 example_rows_conn
         "replicate 16777215 1" "replicate 100 2" 1 2]
       C5_large_packet [of example_pc "example_rows_conn\<lparr>m_skip_next := True\<rparr>" "[7]" 16777215
         example_rows_conn "[]" "[]" 0 0]
       st sk lr hr lc r0 sk'
  show ?thesis by (simp add: GW_MYSQL_MAX_PACKET_LEN_def)
qed

section \<open>The handshake response and its capabilities (mariadb_backend.cc)\<close>

text \<open>
  The capability flags are declared in a header that is not part of the sources at
  hand; the functions take them as a record. \<open>response_length\<close> and
  \<open>load_hashed_password\<close> are defined outside the sources as well: the first gives the
  size of the response without connection attributes, the second the bytes it writes
  for the hashed password. \<open>DEFAULT_MYSQL_AUTH_PLUGIN\<close> is the plugin's name.
\<close>

record capability_flags =
  GW_MYSQL_CAPABILITIES_CLIENT :: "32 word"
  GW_MYSQL_CAPABILITIES_SSL :: "32 word"
  GW_MYSQL_CAPABILITIES_SESSION_TRACK :: "32 word"
  GW_MYSQL_CAPABILITIES_MULTI_STATEMENTS :: "32 word"
  GW_MYSQL_CAPABILITIES_CONNECT_WITH_DB :: "32 word"
  GW_MYSQL_CAPABILITIES_PLUGIN_AUTH :: "32 word"
  GW_MYSQL_CAPABILITIES_CONNECT_ATTRS :: "32 word"

record handshake_externs =
  response_length :: "bool \<Rightarrow> bool \<Rightarrow> byte list \<Rightarrow> byte list option \<Rightarrow> byte list \<Rightarrow> byte list \<Rightarrow> nat"
  load_hashed_password :: "byte list \<Rightarrow> byte list \<Rightarrow> byte list"
  DEFAULT_MYSQL_AUTH_PLUGIN :: "byte list"

definition create_capabilities ::
  "capability_flags \<Rightarrow> proto_consts \<Rightarrow> MariaDBBackendConnection \<Rightarrow> bool \<Rightarrow> bool \<Rightarrow> 64 word \<Rightarrow> 32 word" where
  "create_capabilities fl pc conn with_ssl db_specified capabilities =
     (let f0 = client_capabilities (protocol_data (m_session conn)) AND GW_MYSQL_CAPABILITIES_CLIENT fl;
          f1 = (if with_ssl then f0 OR GW_MYSQL_CAPABILITIES_SSL fl else f0);
          f2 = (if rcap_type_required capabilities (RCAP_TYPE_SESSION_STATE_TRACKING pc)
                then f1 OR GW_MYSQL_CAPABILITIES_SESSION_TRACK fl else f1);
          f3 = f2 OR GW_MYSQL_CAPABILITIES_MULTI_STATEMENTS fl;
          f4 = (if db_specified then f3 OR GW_MYSQL_CAPABILITIES_CONNECT_WITH_DB fl
                else f3 AND NOT (GW_MYSQL_CAPABILITIES_CONNECT_WITH_DB fl))
      in f4 OR GW_MYSQL_CAPABILITIES_PLUGIN_AUTH fl)"

text \<open>\<open>client_data->db[0]\<close>: the first character of the database name, the
  terminating NUL when the name is empty.\<close>

definition db_first_char :: "byte list \<Rightarrow> bool" where
  "db_first_char d = (case d of [] \<Rightarrow> False | c # _ \<Rightarrow> c \<noteq> 0)"

text \<open>
  \<open>gw_generate_auth_response\<close> allocates a zeroed buffer of \<open>bytes\<close> bytes and writes
  the fields one after the other. The model builds the bytes written and fills up with
  zeros to the size of the buffer; \<open>None\<close> stands for a write beyond the buffer.
\<close>

definition gw_generate_auth_response ::
  "capability_flags \<Rightarrow> proto_consts \<Rightarrow> handshake_externs \<Rightarrow> MariaDBBackendConnection
     \<Rightarrow> bool \<Rightarrow> bool \<Rightarrow> 64 word \<Rightarrow> byte list option" where
  "gw_generate_auth_response fl pc hx conn with_ssl ssl_established service_caps =
     (let client_data = protocol_data (m_session conn);
          curr_passwd = (if auth_token_phase2 client_data \<noteq> []
                         then Some (auth_token_phase2 client_data) else None);
          capabilities = create_capabilities fl pc conn with_ssl (db_first_char (db client_data))
                           service_caps;
          auth_plugin_name = DEFAULT_MYSQL_AUTH_PLUGIN hx;
          username = user client_data;
          attrs_ok = (capabilities AND server_capabilities conn
                        AND GW_MYSQL_CAPABILITIES_CONNECT_ATTRS fl \<noteq> 0);
          bytes = response_length hx with_ssl ssl_established username curr_passwd
                    (db client_data) auth_plugin_name
                  + (if attrs_ok then length (connect_attrs client_data) else 0);
          fixed = set_byte3 (bytes - 4) @ [if ssl_established then 2 else 1]
                  @ set_byte4 (unat capabilities) @ set_byte4 16777216
                  @ [of_nat (m_charset client_data)] @ replicate 19 0
                  @ set_byte4 (unat (extra_capabilities client_data));
          login = (if \<not> with_ssl \<or> ssl_established then
                     username @ [0]
                     @ (case curr_passwd of
                          Some pw \<Rightarrow> load_hashed_password hx (m_scramble conn) pw
                        | None \<Rightarrow> [0])
                     @ (if db_first_char (db client_data) then db client_data @ [0] else [])
                     @ auth_plugin_name
                     @ (if attrs_ok \<and> connect_attrs client_data \<noteq> []
                        then [0] @ connect_attrs client_data else [])
                   else []);
          content = fixed @ login
      in if length content \<le> bytes
         then Some (content @ replicate (bytes - length content) 0) else None)"

definition set_connect_attrs :: "byte list \<Rightarrow> MariaDBBackendConnection \<Rightarrow> MariaDBBackendConnection" where
  "set_connect_attrs a conn =
     conn\<lparr>m_session := (m_session conn)\<lparr>protocol_data :=
        (protocol_data (m_session conn))\<lparr>connect_attrs := a\<rparr>\<rparr>\<rparr>"

lemma create_capabilities_attrs [simp]:
  "create_capabilities fl pc (set_connect_attrs a conn) with_ssl dbs caps =
   create_capabilities fl pc conn with_ssl dbs caps"
  by (simp add: create_capabilities_def set_connect_attrs_def)

lemma and3_nonzero:
  fixes a b c :: "32 word"
  shows "a AND b AND c \<noteq> 0 \<Longrightarrow> a AND c \<noteq> 0 \<and> b AND c \<noteq> 0"
  by (metis (no_types, opaque_lifting) and.assoc and.commute and.left_commute and_zero_eq zero_and_eq)

lemma split4: "n < 2 ^ 32 \<Longrightarrow>
   n mod 256 + 256 * ((n div 256) mod 256 + 256 * ((n div 65536) mod 256
     + 256 * ((n div 16777216) mod 256))) = (n::nat)"
proof -
  assume a: "n < 2 ^ 32"
  have d2: "n div 65536 = (n div 256) div 256" by (simp add: div_mult2_eq)
  have d3: "n div 16777216 = ((n div 256) div 256) div 256" by (simp add: div_mult2_eq)
  have s: "((n div 256) div 256) div 256 < 256" using a by simp
  have "n = n mod 256 + 256 * (n div 256)" by simp
  also have "n div 256 = (n div 256) mod 256 + 256 * ((n div 256) div 256)" by simp
  also have "(n div 256) div 256 = ((n div 256) div 256) mod 256 + 256 * (((n div 256) div 256) div 256)"
    by simp
  finally show ?thesis using s d2 d3 by simp
qed

lemma le_bytes_set_byte4: "n < 2 ^ 32 \<Longrightarrow> le_bytes (set_byte4 n) = n"
  using split4 [of n] by (simp add: set_byte4_def unat_of_nat)

lemma response_capability_bytes:
  assumes "gw_generate_auth_response fl pc hx conn with_ssl ssl_established service_caps = Some buf"
  shows "take 4 (drop 4 buf) =
           set_byte4 (unat (create_capabilities fl pc conn with_ssl
             (db_first_char (db (protocol_data (m_session conn)))) service_caps))"
  using assms
  by (auto simp: gw_generate_auth_response_def Let_def set_byte3_def set_byte4_def split: if_splits)

lemma le_bytes_word32: "le_bytes (set_byte4 (unat (w :: 32 word))) = unat w"
proof -
  have "unat w < 2 ^ 32" using unsigned_less [of w, where ?'a = nat] by simp
  then show ?thesis by (rule le_bytes_set_byte4)
qed


lemma response_connect_attrs:
  assumes "gw_generate_auth_response fl pc hx conn with_ssl ssl_established service_caps = Some buf"
    and "create_capabilities fl pc conn with_ssl
           (db_first_char (db (protocol_data (m_session conn)))) service_caps
         AND server_capabilities conn AND GW_MYSQL_CAPABILITIES_CONNECT_ATTRS fl \<noteq> 0"
    and "connect_attrs (protocol_data (m_session conn)) \<noteq> []"
    and "\<not> with_ssl \<or> ssl_established"
  shows "\<exists>pre n. buf = pre @ DEFAULT_MYSQL_AUTH_PLUGIN hx @ [0]
            @ connect_attrs (protocol_data (m_session conn)) @ replicate n 0"
proof -
  define client_data where "client_data = protocol_data (m_session conn)"
  define curr_passwd where "curr_passwd = (if auth_token_phase2 client_data \<noteq> []
                         then Some (auth_token_phase2 client_data) else None)"
  define capabilities where "capabilities = create_capabilities fl pc conn with_ssl
      (db_first_char (db client_data)) service_caps"
  define bytes where "bytes = response_length hx with_ssl ssl_established (user client_data) curr_passwd
                    (db client_data) (DEFAULT_MYSQL_AUTH_PLUGIN hx)
                  + length (connect_attrs client_data)"
  define pre where "pre = set_byte3 (bytes - 4) @ [if ssl_established then 2 else 1]
                  @ set_byte4 (unat capabilities) @ set_byte4 16777216
                  @ [of_nat (m_charset client_data)] @ replicate 19 0
                  @ set_byte4 (unat (extra_capabilities client_data))
                  @ user client_data @ [0]
                  @ (case curr_passwd of
                          Some pw \<Rightarrow> load_hashed_password hx (m_scramble conn) pw
                        | None \<Rightarrow> [0])
                  @ (if db_first_char (db client_data) then db client_data @ [0] else [])"
  define content where "content = pre @ DEFAULT_MYSQL_AUTH_PLUGIN hx @ [0] @ connect_attrs client_data"
  from assms(2,3,4) have
    "gw_generate_auth_response fl pc hx conn with_ssl ssl_established service_caps =
       (if length content \<le> bytes then Some (content @ replicate (bytes - length content) 0) else None)"
    unfolding gw_generate_auth_response_def Let_def content_def pre_def bytes_def capabilities_def
      curr_passwd_def client_data_def
    by simp
  with assms(1) have "buf = content @ replicate (bytes - length content) 0"
    by (simp split: if_splits)
  then show ?thesis unfolding content_def client_data_def by auto
qed


text \<open>
  Claim C8. The capability mask computed for the handshake response is the client's own
  mask AND the client-compatible set, OR'ed with SSL when TLS is requested, SESSION_TRACK
  when the service requires session-state tracking, MULTI_STATEMENTS, CONNECT_WITH_DB when
  the session chose a database (the bit being cleared otherwise) and PLUGIN_AUTH. That
  mask is what the response carries: the four bytes behind the packet header are the
  mask, least significant byte first. The connection attributes reach the response only
  when both the computed mask and the server's mask contain CONNECT_ATTRS: when either
  lacks it, the response is the same whatever the attributes are; when both contain it
  and the login part is written, the response holds the attributes behind the plugin's
  name and its zero byte.
\<close>

theorem C8_capabilities:
  "create_capabilities fl pc conn with_ssl db_specified service_caps =
     ((((client_capabilities (protocol_data (m_session conn)) AND GW_MYSQL_CAPABILITIES_CLIENT fl)
        OR (if with_ssl then GW_MYSQL_CAPABILITIES_SSL fl else 0)
        OR (if rcap_type_required service_caps (RCAP_TYPE_SESSION_STATE_TRACKING pc)
            then GW_MYSQL_CAPABILITIES_SESSION_TRACK fl else 0)
        OR GW_MYSQL_CAPABILITIES_MULTI_STATEMENTS fl)
       AND NOT (GW_MYSQL_CAPABILITIES_CONNECT_WITH_DB fl))
      OR (if db_specified then GW_MYSQL_CAPABILITIES_CONNECT_WITH_DB fl else 0))
     OR GW_MYSQL_CAPABILITIES_PLUGIN_AUTH fl
   \<and>
   (gw_generate_auth_response fl pc hx conn with_ssl ssl_established service_caps = Some buf \<longrightarrow>
      take 4 (drop 4 buf) =
        set_byte4 (unat (create_capabilities fl pc conn with_ssl
          (db_first_char (db (protocol_data (m_session conn)))) service_caps)) \<and>
      le_bytes (take 4 (drop 4 buf)) =
        unat (create_capabilities fl pc conn with_ssl
          (db_first_char (db (protocol_data (m_session conn)))) service_caps))
   \<and>
   (create_capabilities fl pc conn with_ssl (db_first_char (db (protocol_data (m_session conn))))
        service_caps AND GW_MYSQL_CAPABILITIES_CONNECT_ATTRS fl = 0
    \<or> server_capabilities conn AND GW_MYSQL_CAPABILITIES_CONNECT_ATTRS fl = 0 \<longrightarrow>
    gw_generate_auth_response fl pc hx (set_connect_attrs a conn) with_ssl ssl_established service_caps
      = gw_generate_auth_response fl pc hx conn with_ssl ssl_established service_caps)
   \<and>
   (gw_generate_auth_response fl pc hx conn with_ssl ssl_established service_caps = Some buf \<and>
    create_capabilities fl pc conn with_ssl (db_first_char (db (protocol_data (m_session conn))))
        service_caps AND server_capabilities conn AND GW_MYSQL_CAPABILITIES_CONNECT_ATTRS fl \<noteq> 0 \<and>
    connect_attrs (protocol_data (m_session conn)) \<noteq> [] \<and> (\<not> with_ssl \<or> ssl_established) \<longrightarrow>
    (\<exists>pre n. buf = pre @ DEFAULT_MYSQL_AUTH_PLUGIN hx @ [0]
            @ connect_attrs (protocol_data (m_session conn)) @ replicate n 0))"
proof -
  have eq: "create_capabilities fl pc conn with_ssl db_specified service_caps =
     ((((client_capabilities (protocol_data (m_session conn)) AND GW_MYSQL_CAPABILITIES_CLIENT fl)
        OR (if with_ssl then GW_MYSQL_CAPABILITIES_SSL fl else 0)
        OR (if rcap_type_required service_caps (RCAP_TYPE_SESSION_STATE_TRACKING pc)
            then GW_MYSQL_CAPABILITIES_SESSION_TRACK fl else 0)
        OR GW_MYSQL_CAPABILITIES_MULTI_STATEMENTS fl)
       AND NOT (GW_MYSQL_CAPABILITIES_CONNECT_WITH_DB fl))
      OR (if db_specified then GW_MYSQL_CAPABILITIES_CONNECT_WITH_DB fl else 0))
     OR GW_MYSQL_CAPABILITIES_PLUGIN_AUTH fl"
    unfolding create_capabilities_def Let_def
    by (rule bit_word_eqI) (auto simp: bit_simps)
  have placed: "take 4 (drop 4 buf) =
        set_byte4 (unat (create_capabilities fl pc conn with_ssl
          (db_first_char (db (protocol_data (m_session conn)))) service_caps)) \<and>
      le_bytes (take 4 (drop 4 buf)) =
        unat (create_capabilities fl pc conn with_ssl
          (db_first_char (db (protocol_data (m_session conn)))) service_caps)"
    if "gw_generate_auth_response fl pc hx conn with_ssl ssl_established service_caps = Some buf"
    using response_capability_bytes [OF that] by (simp add: le_bytes_word32)
  have ind: "gw_generate_auth_response fl pc hx (set_connect_attrs a conn) with_ssl ssl_established service_caps
      = gw_generate_auth_response fl pc hx conn with_ssl ssl_established service_caps"
    if h: "create_capabilities fl pc conn with_ssl (db_first_char (db (protocol_data (m_session conn))))
        service_caps AND GW_MYSQL_CAPABILITIES_CONNECT_ATTRS fl = 0
      \<or> server_capabilities conn AND GW_MYSQL_CAPABILITIES_CONNECT_ATTRS fl = 0"
  proof -
    from h and3_nonzero [of "create_capabilities fl pc conn with_ssl
          (db_first_char (db (protocol_data (m_session conn)))) service_caps"
        "server_capabilities conn" "GW_MYSQL_CAPABILITIES_CONNECT_ATTRS fl"]
    have z: "create_capabilities fl pc conn with_ssl
          (db_first_char (db (protocol_data (m_session conn)))) service_caps
          AND server_capabilities conn AND GW_MYSQL_CAPABILITIES_CONNECT_ATTRS fl = 0"
      by blast
    have c: "create_capabilities fl pc (set_connect_attrs a conn) with_ssl dbs service_caps =
             create_capabilities fl pc conn with_ssl dbs service_caps" for dbs
      by simp
    show ?thesis
      unfolding gw_generate_auth_response_def Let_def c
      using z by (simp add: set_connect_attrs_def)
  qed
  note att = response_connect_attrs [of fl pc hx conn with_ssl ssl_established service_caps buf]
  from eq placed ind att show ?thesis by blast
qed

definition example_flags :: capability_flags where
  "example_flags = \<lparr>GW_MYSQL_CAPABILITIES_CLIENT = 0x1FA28F,
     GW_MYSQL_CAPABILITIES_SSL = 0x800, GW_MYSQL_CAPABILITIES_SESSION_TRACK = 0x800000,
     GW_MYSQL_CAPABILITIES_MULTI_STATEMENTS = 0x10000, GW_MYSQL_CAPABILITIES_CONNECT_WITH_DB = 0x8,
     GW_MYSQL_CAPABILITIES_PLUGIN_AUTH = 0x80000, GW_MYSQL_CAPABILITIES_CONNECT_ATTRS = 0x100000\<rparr>"

definition example_hx :: handshake_externs where
  "example_hx = \<lparr>response_length =
       (\<lambda>with_ssl ssl_established u pw d pl.
          if with_ssl \<and> \<not> ssl_established then 36
          else 32 + length u + 1 + (case pw of Some _ \<Rightarrow> 20 | None \<Rightarrow> 0) + 1
               + (if d \<noteq> [] then length d + 1 else 0) + length pl + 1 + 4),
     load_hashed_password = (\<lambda>scramble pw. 20 # replicate 20 0),
     DEFAULT_MYSQL_AUTH_PLUGIN = bytes_of ''mysql_native_password''\<rparr>"

definition example_attrs_conn :: MariaDBBackendConnection where
  "example_attrs_conn =
     example_conn\<lparr>server_capabilities := 0x100000,
       m_session := example_session\<lparr>protocol_data :=
         example_client\<lparr>client_capabilities := 0x100000, connect_attrs := [1, 2, 3]\<rparr>\<rparr>\<rparr>"

text \<open>
  The claim with the protocol's flag values: at a server that does not announce
  CONNECT_ATTRS, and at a server and a client that both do.
\<close>

theorem C8_capabilities_witness:
  "create_capabilities example_flags example_pc example_conn True False 0 = 0x90800 \<and>
   server_capabilities example_conn AND GW_MYSQL_CAPABILITIES_CONNECT_ATTRS example_flags = 0 \<and>
   gw_generate_auth_response example_flags example_pc example_hx
       (set_connect_attrs [1, 2, 3] example_conn) False False 0 =
     gw_generate_auth_response example_flags example_pc example_hx example_conn False False 0 \<and>
   map_option length
     (gw_generate_auth_response example_flags example_pc example_hx example_conn False False 0) = Some 63 \<and>
   map_option (\<lambda>b. take 4 (drop 4 b))
     (gw_generate_auth_response example_flags example_pc example_hx example_conn False False 0)
     = Some [0, 0, 9, 0] \<and>
   create_capabilities example_flags example_pc example_attrs_conn False False 0 = 0x190000 \<and>
   map_option (\<lambda>b. (take 4 (drop 4 b), drop 62 b))
     (gw_generate_auth_response example_flags example_pc example_hx example_attrs_conn False False 0)
     = Some ([0, 0, 0x19, 0], [0, 1, 2, 3])"
proof -
  have s: "server_capabilities example_conn AND GW_MYSQL_CAPABILITIES_CONNECT_ATTRS example_flags = 0"
    by (simp add: example_conn_def)
  have l: "map_option length
     (gw_generate_auth_response example_flags example_pc example_hx example_conn False False 0) = Some 63"
    by (simp add: gw_generate_auth_response_def Let_def example_conn_def example_session_def
        example_client_def example_hx_def example_flags_def db_first_char_def bytes_of_def
        set_byte3_def set_byte4_def create_capabilities_def)
  then obtain b where b: "gw_generate_auth_response example_flags example_pc example_hx example_conn
      False False 0 = Some b"
    by auto
  have c0: "create_capabilities example_flags example_pc example_conn False False 0 = 0x90000"
    by (simp add: create_capabilities_def example_flags_def example_conn_def example_session_def
        example_client_def rcap_type_required_def example_pc_def)
  have l2: "map_option (\<lambda>b. (length b, drop 62 b))
     (gw_generate_auth_response example_flags example_pc example_hx example_attrs_conn False False 0)
       = Some (66, [0, 1, 2, 3])"
    by (simp add: gw_generate_auth_response_def Let_def example_attrs_conn_def example_conn_def
        example_session_def example_client_def example_hx_def example_flags_def db_first_char_def
        bytes_of_def set_byte3_def set_byte4_def create_capabilities_def rcap_type_required_def
        example_pc_def)
  then obtain b2 where b2: "gw_generate_auth_response example_flags example_pc example_hx
      example_attrs_conn False False 0 = Some b2" and d2: "drop 62 b2 = [0, 1, 2, 3]"
    by auto
  have c2: "create_capabilities example_flags example_pc example_attrs_conn False False 0 = 0x190000"
    by (simp add: create_capabilities_def example_flags_def example_attrs_conn_def example_conn_def
        example_session_def example_client_def rcap_type_required_def example_pc_def)
  have db: "\<not> db_first_char (db (protocol_data (m_session example_conn)))"
    "\<not> db_first_char (db (protocol_data (m_session example_attrs_conn)))"
    by (simp_all add: db_first_char_def example_attrs_conn_def example_conn_def example_session_def
        example_client_def)
  from C8_capabilities [of example_flags example_pc example_conn True False 0 example_hx False b "[1, 2, 3]"]
       C8_capabilities [of example_flags example_pc example_conn False False 0 example_hx False b "[1, 2, 3]"]
       C8_capabilities [of example_flags example_pc example_attrs_conn False False 0 example_hx False b2 "[]"]
       s l b c0 b2 d2 c2 db
  show ?thesis
    by (simp add: example_flags_def example_conn_def example_session_def example_client_def
        rcap_type_required_def example_pc_def set_byte4_def)
qed

section \<open>Connection initialisation queries (mariadb_backend.cc)\<close>

text \<open>
  Modelled from the spec: \<open>read_protocol_packet\<close> is defined outside the sources at
  hand. It reports a socket error, or gives an empty buffer when no complete packet has
  arrived yet, or gives one complete packet. What the socket delivers is the
  environment's choice: \<open>rd i\<close> is the outcome of the \<open>i\<close>-th call.
\<close>

datatype read_result = Read_error | Read_nothing | Read_packet "byte list"

text \<open>The kind of a packet that is not an OK packet, as the error message words it;
  the empty string for an OK packet.\<close>

definition wrong_packet_type :: "byte list \<Rightarrow> string option" where
  "wrong_packet_type buffer =
     (if length buffer = MYSQL_HEADER_LEN then Some ''an empty packet''
      else (case MYSQL_GET_COMMAND buffer of
              None \<Rightarrow> None
            | Some cmd \<Rightarrow>
                if cmd = MYSQL_REPLY_ERR then Some ''an error packet''
                else if cmd \<noteq> MYSQL_REPLY_OK then Some ''a resultset packet''
                else Some []))"

definition init_query_errmsg :: "string \<Rightarrow> string \<Rightarrow> string" where
  "init_query_errmsg errored_query wrong =
     ''Connection initialization query '' @ [CHR 0x27] @ errored_query @ [CHR 0x27]
       @ '' returned '' @ wrong @ ''.''"

text \<open>
  The loop of the \<open>RECEIVING\<close> state. Its state is the connection, the DCB, the number
  of reads made so far and the value of \<open>rval\<close>. The loop need not end (an unending
  sequence of reads without data keeps it running), so it is a partial function: \<open>None\<close>
  stands for a loop that does not return, and for a read outside a packet.
\<close>

partial_function (option) receive_init_replies ::
  "(nat \<Rightarrow> read_result) \<Rightarrow> MariaDBBackendConnection \<times> DCB \<times> nat \<times> StateMachineRes
     \<Rightarrow> (MariaDBBackendConnection \<times> DCB \<times> nat \<times> StateMachineRes) option" where
  "receive_init_replies rd s =
     (let conn = fst s; dcb = fst (snd s); i = fst (snd (snd s)); rval = snd (snd (snd s));
          st = m_init_query_status conn in
      if ok_packets_received st < ok_packets_expected st then
        (case rd i of
           Read_error \<Rightarrow>
             receive_init_replies rd (conn, do_handle_error dcb ''Socket error'' TRANSIENT, i + 1, rval)
         | Read_nothing \<Rightarrow> receive_init_replies rd (conn, dcb, i + 1, IN_PROGRESS)
         | Read_packet buffer \<Rightarrow>
             (case wrong_packet_type buffer of
                None \<Rightarrow> None
              | Some wrong \<Rightarrow>
                  if wrong = [] then
                    receive_init_replies rd
                      (conn\<lparr>m_init_query_status := st\<lparr>ok_packets_received := ok_packets_received st + 1\<rparr>\<rparr>,
                       dcb, i + 1, rval)
                  else
                    (let init_queries = queries (connection_init_sql (m_session conn)) in
                     if 0 \<le> ok_packets_received st \<and> nat (ok_packets_received st) < length init_queries
                     then Some (conn,
                                do_handle_error dcb
                                  (init_query_errmsg (init_queries ! nat (ok_packets_received st)) wrong)
                                  PERMANENT,
                                i + 1, rval)
                     else None)))
      else Some s)"

definition send_connection_init_queries ::
  "(nat \<Rightarrow> read_result) \<Rightarrow> MariaDBBackendConnection \<Rightarrow> DCB \<Rightarrow> nat
     \<Rightarrow> (MariaDBBackendConnection \<times> DCB \<times> nat \<times> StateMachineRes) option" where
  "send_connection_init_queries rd conn dcb i =
     (case iq_state (m_init_query_status conn) of
        SENDING \<Rightarrow>
          (let init_query_data = connection_init_sql (m_session conn);
               query_contents = buffer_contents init_query_data in
           if query_contents = [] then Some (conn, dcb, i, SM_DONE)
           else
             (let buffer = \<lparr>gw_data = query_contents, gw_ignorable = False,
                            gw_collect_result = False, gw_track_state = False\<rparr>;
                  w = writeq_append dcb buffer
              in Some (conn\<lparr>m_init_query_status :=
                          \<lparr>iq_state = RECEIVING,
                           ok_packets_expected = int (length (queries init_query_data)),
                           ok_packets_received = 0\<rparr>\<rparr>,
                       fst w, i, IN_PROGRESS)))
      | RECEIVING \<Rightarrow>
          (case receive_init_replies rd (conn, dcb, i, SM_ERROR) of
             None \<Rightarrow> None
           | Some r \<Rightarrow>
               (let c = fst r; st = m_init_query_status c in
                Some (c, fst (snd r), fst (snd (snd r)),
                      if ok_packets_received st = ok_packets_expected st then SM_DONE
                      else snd (snd (snd r))))))"

text \<open>The step of \<open>ready_for_reading\<close> in the state \<open>CONNECTION_INIT\<close>.\<close>

definition connection_init_step ::
  "(nat \<Rightarrow> read_result) \<Rightarrow> MariaDBBackendConnection \<Rightarrow> DCB \<Rightarrow> nat
     \<Rightarrow> (MariaDBBackendConnection \<times> DCB \<times> nat \<times> bool) option" where
  "connection_init_step rd conn dcb i =
     (case send_connection_init_queries rd conn dcb i of
        None \<Rightarrow> None
      | Some r \<Rightarrow>
          (case snd (snd (snd r)) of
             IN_PROGRESS \<Rightarrow> Some (fst r, fst (snd r), fst (snd (snd r)), False)
           | SM_DONE \<Rightarrow> Some ((fst r)\<lparr>m_state := SEND_DELAYQ\<rparr>, fst (snd r), fst (snd (snd r)), True)
           | SM_ERROR \<Rightarrow> Some ((fst r)\<lparr>m_state := FAILED\<rparr>, fst (snd r), fst (snd (snd r)), True)))"

definition example_init_conn :: MariaDBBackendConnection where
  "example_init_conn =
     example_conn\<lparr>m_state := CONNECTION_INIT,
       m_session := example_session\<lparr>connection_init_sql :=
          \<lparr>queries = [''SET a=1''],
           buffer_contents = [8, 0, 0, 0, 3] @ bytes_of ''SET a=1''\<rparr>\<rparr>,
       m_init_query_status := \<lparr>iq_state = RECEIVING, ok_packets_expected = 1,
          ok_packets_received = 0\<rparr>\<rparr>"

definition example_err_packet :: "byte list" where
  "example_err_packet = [9, 0, 0, 1, 0xff, 0x28, 0x04, 0x23, 0x34, 0x32, 0x30, 0x30, 0x30]"

definition example_reads :: "nat \<Rightarrow> read_result" where
  "example_reads i = (if i = 0 then Read_nothing else Read_packet example_err_packet)"

text \<open>
  Claim C9 says that a response packet other than an OK packet fails the connection.
  The loop of the \<open>RECEIVING\<close> state does not leave when a read brings no data: it
  sets \<open>rval\<close> to \<open>IN_PROGRESS\<close> and reads again. When an ERR packet follows, the
  permanent error that names the query is handed upstream, but the function returns
  \<open>IN_PROGRESS\<close>, and \<open>ready_for_reading\<close> leaves the connection in the state
  \<open>CONNECTION_INIT\<close> instead of \<open>FAILED\<close>. Here one query is configured, the first
  read brings nothing and the second an ERR packet.
\<close>

theorem C9_init_query_error_in_progress:
  "connection_init_step example_reads example_init_conn example_dcb 0 =
     Some (example_init_conn,
           example_dcb\<lparr>dcb_upstream_errors :=
              [(''Connection initialization query '' @ [CHR 0x27] @ ''SET a=1'' @ [CHR 0x27]
                  @ '' returned an error packet.'', PERMANENT)]\<rparr>,
           2, False)
   \<and> m_state example_init_conn = CONNECTION_INIT"
  apply (simp add: connection_init_step_def send_connection_init_queries_def)
  apply (simp add: example_init_conn_def)
  apply (subst receive_init_replies.simps)
  apply (simp add: example_reads_def Let_def)
  apply (subst receive_init_replies.simps)
  apply (simp add: example_reads_def Let_def example_err_packet_def wrong_packet_type_def
      MYSQL_GET_COMMAND_def byte_at_def MYSQL_HEADER_LEN_def MYSQL_REPLY_ERR_def
      init_query_errmsg_def do_handle_error_def example_dcb_def)
  done


lemma receive_init_replies_returns:
  assumes ret: "receive_init_replies rd s = Some r"
  shows "(\<exists>i. rd i \<noteq> Read_nothing) \<or>
         \<not> ok_packets_received (m_init_query_status (fst s))
             < ok_packets_expected (m_init_query_status (fst s))"
proof (rule receive_init_replies.raw_induct
    [where P = "\<lambda>rd s r. (\<exists>i. rd i \<noteq> Read_nothing) \<or>
         \<not> ok_packets_received (m_init_query_status (fst s))
             < ok_packets_expected (m_init_query_status (fst s))", OF _ ret], goal_cases)
  case (1 f rd s r)
  show ?case
  proof (rule ccontr)
    assume "\<not> ?thesis"
    then have all: "\<And>i. rd i = Read_nothing"
      and lt: "ok_packets_received (m_init_query_status (fst s))
             < ok_packets_expected (m_init_query_status (fst s))"
      by auto
    from 1(2) lt all have "f rd (fst s, fst (snd s), fst (snd (snd s)) + 1, IN_PROGRESS) = Some r"
      by (simp add: Let_def)
    from 1(1) [OF this] all lt show False by simp
  qed
qed

lemma C9_busy_loop:
  "send_connection_init_queries (\<lambda>i. Read_nothing) example_init_conn example_dcb 0 = None"
proof -
  have "receive_init_replies (\<lambda>i. Read_nothing) (example_init_conn, example_dcb, 0, SM_ERROR) = None"
  proof (cases "receive_init_replies (\<lambda>i. Read_nothing) (example_init_conn, example_dcb, 0, SM_ERROR)")
    case None
    then show ?thesis .
  next
    case (Some r)
    from receive_init_replies_returns [OF Some] show ?thesis
      by (simp add: example_init_conn_def)
  qed
  then show ?thesis
    by (simp add: send_connection_init_queries_def example_init_conn_def)
qed


lemma init_queries_sending:
  assumes "iq_state (m_init_query_status conn) = SENDING"
    and "buffer_contents (connection_init_sql (m_session conn)) \<noteq> []"
    and "dcb_write_ok dcb"
  shows "send_connection_init_queries rd conn dcb i =
     Some (conn\<lparr>m_init_query_status :=
              \<lparr>iq_state = RECEIVING,
               ok_packets_expected = int (length (queries (connection_init_sql (m_session conn)))),
               ok_packets_received = 0\<rparr>\<rparr>,
           dcb\<lparr>dcb_writeq := dcb_writeq dcb @
              [\<lparr>gw_data = buffer_contents (connection_init_sql (m_session conn)),
                gw_ignorable = False, gw_collect_result = False, gw_track_state = False\<rparr>]\<rparr>,
           i, IN_PROGRESS)"
  using assms by (simp add: send_connection_init_queries_def Let_def writeq_append_def)

lemma receive_init_replies_all_ok:
  assumes "ok_packets_expected (m_init_query_status conn)
             = ok_packets_received (m_init_query_status conn) + int k"
    and "\<forall>j < k. \<exists>p. rd (i + j) = Read_packet p \<and> wrong_packet_type p = Some []"
  shows "receive_init_replies rd (conn, dcb, i, rv) =
     Some (conn\<lparr>m_init_query_status := (m_init_query_status conn)
              \<lparr>ok_packets_received := ok_packets_expected (m_init_query_status conn)\<rparr>\<rparr>,
           dcb, i + k, rv)"
  using assms
proof (induction k arbitrary: conn i)
  case 0
  then show ?case
    by (subst receive_init_replies.simps) (simp add: Let_def)
next
  case (Suc k)
  let ?st = "m_init_query_status conn"
  let ?c1 = "conn\<lparr>m_init_query_status := ?st\<lparr>ok_packets_received := ok_packets_received ?st + 1\<rparr>\<rparr>"
  from Suc.prems(2) obtain p where p: "rd i = Read_packet p" "wrong_packet_type p = Some []"
    by (metis add.right_neutral zero_less_Suc)
  from Suc.prems(1) have lt: "ok_packets_received ?st < ok_packets_expected ?st" by simp
  have step: "receive_init_replies rd (conn, dcb, i, rv) = receive_init_replies rd (?c1, dcb, Suc i, rv)"
    using p lt by (subst receive_init_replies.simps) (simp add: Let_def)
  have e: "ok_packets_expected (m_init_query_status ?c1)
             = ok_packets_received (m_init_query_status ?c1) + int k"
    using Suc.prems(1) by simp
  have r: "\<forall>j < k. \<exists>p. rd (Suc i + j) = Read_packet p \<and> wrong_packet_type p = Some []"
    using Suc.prems(2) by (metis Suc_less_eq add_Suc_shift)
  from Suc.IH [OF e r] step show ?case by simp
qed

section \<open>Reading replies in the routing state (mariadb_backend.cc)\<close>



definition modutil_get_next_MySQL_packet :: "byte list \<Rightarrow> byte list \<times> byte list" where
  "modutil_get_next_MySQL_packet readbuf =
     (if length readbuf < MYSQL_HEADER_LEN then ([], readbuf)
      else (let packetlen = le_bytes (take 3 readbuf) + MYSQL_HEADER_LEN in
            if packetlen \<le> length readbuf then (take packetlen readbuf, drop packetlen readbuf)
            else ([], readbuf)))"

lemma next_packet_shorter:
  "fst (modutil_get_next_MySQL_packet buf) \<noteq> [] \<Longrightarrow>
     length (snd (modutil_get_next_MySQL_packet buf)) < length buf"
  by (auto simp: modutil_get_next_MySQL_packet_def Let_def MYSQL_HEADER_LEN_def split: if_splits)


function complete_packets_length :: "byte list \<Rightarrow> nat" where
  "complete_packets_length buf =
     (let p = modutil_get_next_MySQL_packet buf in
      if fst p = [] then 0 else length (fst p) + complete_packets_length (snd p))"
  by pat_completeness auto
termination
  by (relation "measure length") (auto simp: next_packet_shorter)

declare complete_packets_length.simps [simp del]




















text \<open>The loop that skips to the last packet of the buffer. When what is left of the
  buffer is not a complete packet, nothing is split off and the loop runs on: it is a
  partial function, and \<open>None\<close> is a loop that does not end.\<close>

partial_function (option) skip_to_last_packet :: "byte list \<Rightarrow> byte list \<Rightarrow> byte list option" where
  "skip_to_last_packet reply read_buffer =
     (if read_buffer = [] then Some reply
      else (let p = modutil_get_next_MySQL_packet read_buffer
            in skip_to_last_packet (fst p) (snd p)))"









subsection \<open>The counter of replies to ignore\<close>





















text \<open>The loop that skips to the last packet ends on a buffer of complete packets, and
  that is what \<open>modutil_get_complete_packets\<close> splits off.\<close>

lemma skip_to_last_packet_Nil: "skip_to_last_packet reply [] = Some reply"
  by (subst skip_to_last_packet.simps) simp

lemma complete_packets_length_le: "complete_packets_length buf \<le> length buf"
proof (induction buf rule: complete_packets_length.induct)
  case (1 buf)
  show ?case
  proof (cases "fst (modutil_get_next_MySQL_packet buf) = []")
    case True
    then show ?thesis by (subst complete_packets_length.simps) (simp add: Let_def)
  next
    case False
    from "1.IH" [OF refl False]
    have "complete_packets_length (snd (modutil_get_next_MySQL_packet buf))
            \<le> length (snd (modutil_get_next_MySQL_packet buf))" .
    moreover have "length (fst (modutil_get_next_MySQL_packet buf))
        + length (snd (modutil_get_next_MySQL_packet buf)) = length buf"
      using False by (auto simp: modutil_get_next_MySQL_packet_def Let_def split: if_splits)
    ultimately show ?thesis using False
      by (subst complete_packets_length.simps) (simp add: Let_def)
  qed
qed

lemma skip_to_last_packet_complete:
  "complete_packets_length buf = length buf \<Longrightarrow> \<exists>r. skip_to_last_packet reply buf = Some r"
proof (induction buf arbitrary: reply rule: length_induct)
  case (1 buf)
  show ?case
  proof (cases "buf = []")
    case True
    then show ?thesis by (simp add: skip_to_last_packet_Nil)
  next
    case False
    define p where "p = modutil_get_next_MySQL_packet buf"
    have ne: "fst p \<noteq> []"
    proof
      assume "fst p = []"
      then have "complete_packets_length buf = 0"
        by (subst complete_packets_length.simps) (simp add: Let_def p_def)
      with "1.prems" False show False by simp
    qed
    have sum: "length (fst p) + length (snd p) = length buf"
      using ne by (auto simp: p_def modutil_get_next_MySQL_packet_def Let_def split: if_splits)
    have "complete_packets_length buf = length (fst p) + complete_packets_length (snd p)"
      using ne by (subst complete_packets_length.simps) (simp add: Let_def p_def)
    with "1.prems" sum have c: "complete_packets_length (snd p) = length (snd p)" by simp
    from ne sum have "length (snd p) < length buf" by (cases "fst p") auto
    with "1.IH" c obtain r where "skip_to_last_packet (fst p) (snd p) = Some r" by blast
    with False show ?thesis
      by (subst skip_to_last_packet.simps) (simp add: Let_def p_def)
  qed
qed



















end
